theory Spec2Isabelle
  imports Complex_Main "HOL-Library.Monad_Syntax"
begin

section \<open>Numbers\<close>

text \<open>
  A JavaScript \<^verbatim>\<open>number\<close> is modelled as a real: the finite values, with exact arithmetic.
  Rounding, overflow and the sign of zero are not represented, and the inputs are finite.
  The matrix class is given in double arithmetic as well, in a section of its own, for the
  statements that depend on the rounding.
  Where an operation of the integrator or of the matrix class has no finite result on
  finite operands (a division by zero gives an infinity or NaN, \<^verbatim>\<open>Math.asin\<close> outside
  \<open>[-1, 1]\<close> gives NaN) the operation is partial here: it returns \<open>None\<close>, and \<open>None\<close> is
  passed on by whatever uses the result.  There \<^verbatim>\<open>Math.sqrt\<close> is only applied to squares
  and sums of squares, and \<^verbatim>\<open>x ** 2\<close> is the square.  \<^verbatim>\<open>Math.atan2\<close> follows ECMAScript
  with every zero taken as \<open>+0\<close>.  The generator is treated in its own section.
\<close>

type_synonym number = real

definition divide_number :: "number \<Rightarrow> number \<Rightarrow> number option" where
  "divide_number a b = (if b = 0 then None else Some (a / b))"

definition Math_asin :: "number \<Rightarrow> number option" where
  "Math_asin v = (if - 1 \<le> v \<and> v \<le> 1 then Some (arcsin v) else None)"

definition Math_atan2 :: "number \<Rightarrow> number \<Rightarrow> number" where
  "Math_atan2 b a =
     (if 0 < a then arctan (b / a)
      else if a < 0 then (if 0 \<le> b then arctan (b / a) + pi else arctan (b / a) - pi)
      else if 0 < b then pi / 2
      else if b < 0 then - (pi / 2)
      else 0)"

text \<open>
  \<^verbatim>\<open>Math.random()\<close> reads the next value of a source of draws, each in \<open>[0, 1)\<close>; the source
  is passed along explicitly.
\<close>

type_synonym rng = "nat \<Rightarrow> number"

definition Math_random :: "rng \<Rightarrow> number \<times> rng" where
  "Math_random r = (r 0, \<lambda>n. r (Suc n))"


section \<open>Vectors (class Vec3)\<close>

record Vec3 =
  x :: number
  y :: number
  z :: number

text \<open>The methods take \<^verbatim>\<open>Vec3 | number\<close> and test \<^verbatim>\<open>typeof other === 'number'\<close>.\<close>

datatype operand = Vec Vec3 | Num number

definition Vec3_zero :: Vec3 where
  "Vec3_zero = \<lparr>x = 0, y = 0, z = 0\<rparr>"

definition magnitude :: "Vec3 \<Rightarrow> number" where
  "magnitude this = sqrt ((x this)\<^sup>2 + (y this)\<^sup>2 + (z this)\<^sup>2)"

fun Vec3_sub :: "Vec3 \<Rightarrow> operand \<Rightarrow> Vec3" where
  "Vec3_sub this (Num other) = \<lparr>x = x this - other, y = y this - other, z = z this - other\<rparr>"
| "Vec3_sub this (Vec other) =
     \<lparr>x = x this - x other, y = y this - y other, z = z this - z other\<rparr>"

fun Vec3_add :: "Vec3 \<Rightarrow> operand \<Rightarrow> Vec3" where
  "Vec3_add this (Num other) = \<lparr>x = x this + other, y = y this + other, z = z this + other\<rparr>"
| "Vec3_add this (Vec other) =
     \<lparr>x = x this + x other, y = y this + y other, z = z this + z other\<rparr>"

fun Vec3_mul :: "Vec3 \<Rightarrow> operand \<Rightarrow> Vec3" where
  "Vec3_mul this (Num other) = \<lparr>x = x this * other, y = y this * other, z = z this * other\<rparr>"
| "Vec3_mul this (Vec other) =
     \<lparr>x = x this * x other, y = y this * y other, z = z this * z other\<rparr>"

definition Vec3_random :: "number \<Rightarrow> rng \<Rightarrow> Vec3 \<times> rng" where
  "Vec3_random factor r0 =
     (let (a, r1) = Math_random r0;
          (b, r2) = Math_random r1;
          (c, r3) = Math_random r2
      in (Vec3_mul \<lparr>x = a, y = b, z = c\<rparr> (Num factor), r3))"

definition Vec3_randomCentered :: "number \<Rightarrow> rng \<Rightarrow> Vec3 \<times> rng" where
  "Vec3_randomCentered factor r0 =
     (let (v, r1) = Vec3_random 1 r0
      in (Vec3_mul (Vec3_sub v (Num 0.5)) (Num factor), r1))"


section \<open>Rotation matrices (class Matrix3x3)\<close>

text \<open>The errors the constructors throw.\<close>

datatype error =
    BadRowCount nat         \<comment> \<open>\<^verbatim>\<open>Matrix must have 3 rows, got n\<close>\<close>
  | BadColumnCount nat nat  \<comment> \<open>\<^verbatim>\<open>Row i must have 3 columns, got n\<close>\<close>
  | PositionRequired
  | VelocityRequired
  | RotationRequired

record Matrix3x3 =
  data :: "number list list"

text \<open>The constructor: two shape checks, then a copy of the rows.\<close>

fun checkRows :: "number list list \<Rightarrow> nat \<Rightarrow> error option" where
  "checkRows [] i = None"
| "checkRows (row # rows) i =
     (if length row \<noteq> 3 then Some (BadColumnCount i (length row)) else checkRows rows (Suc i))"

definition Matrix3x3_new :: "number list list \<Rightarrow> error + Matrix3x3" where
  "Matrix3x3_new d =
     (if length d \<noteq> 3 then Inl (BadRowCount (length d))
      else case checkRows d 0 of
             Some e \<Rightarrow> Inl e
           | None \<Rightarrow> Inr \<lparr>data = map (\<lambda>row. row) d\<rparr>)"

definition identity :: "error + Matrix3x3" where
  "identity = Matrix3x3_new [[1, 0, 0], [0, 1, 0], [0, 0, 1]]"

definition fromEuler :: "number \<Rightarrow> number \<Rightarrow> number \<Rightarrow> error + Matrix3x3" where
  "fromEuler ax ay az =
     (let cx = cos ax; sx = sin ax;
          cy = cos ay; sy = sin ay;
          cz = cos az; sz = sin az
      in Matrix3x3_new
           [[cz * cy, cz * sy * sx - sz * cx, cz * sy * cx + sz * sx],
            [sz * cy, sz * sy * sx + cz * cx, sz * sy * cx - cz * sx],
            [- sy, cy * sx, cy * cx]])"

definition fromAxisAngle :: "Vec3 \<Rightarrow> number \<Rightarrow> error + Matrix3x3" where
  "fromAxisAngle axis angle =
     (let ax = x axis; ay = y axis; az = z axis;
          c = cos angle; s = sin angle; t = 1 - c;
          m00 = t * ax * ax + c;
          m01 = t * ax * ay - az * s;
          m02 = t * ax * az + ay * s;
          m10 = t * ay * ax + az * s;
          m11 = t * ay * ay + c;
          m12 = t * ay * az - ax * s;
          m20 = t * az * ax - ay * s;
          m21 = t * az * ay + ax * s;
          m22 = t * az * az + c
      in Matrix3x3_new [[m00, m01, m02], [m10, m11, m12], [m20, m21, m22]])"

text \<open>
  \<open>transform\<close>, \<open>mul\<close> and \<open>toEuler\<close> index \<^verbatim>\<open>this.data\<close> directly.  The field is private and
  every matrix comes out of the constructor, so the indices below are in range on every
  matrix the class can build; the theorems take the matrix from \<open>Matrix3x3_new\<close>.
\<close>

definition transform :: "Matrix3x3 \<Rightarrow> Vec3 \<Rightarrow> Vec3" where
  "transform this vec =
     \<lparr>x = data this ! 0 ! 0 * x vec + data this ! 1 ! 0 * y vec + data this ! 2 ! 0 * z vec,
      y = data this ! 0 ! 1 * x vec + data this ! 1 ! 1 * y vec + data this ! 2 ! 1 * z vec,
      z = data this ! 0 ! 2 * x vec + data this ! 1 ! 2 * y vec + data this ! 2 ! 2 * z vec\<rparr>"

definition Matrix3x3_mul :: "Matrix3x3 \<Rightarrow> Matrix3x3 \<Rightarrow> error + Matrix3x3" where
  "Matrix3x3_mul this other =
     Matrix3x3_new
       (map (\<lambda>i. map (\<lambda>j. foldl (\<lambda>acc k. acc + data this ! i ! k * data other ! k ! j)
                                  0 [0..<3])
                       [0..<3])
            [0..<3])"

definition toEuler :: "Matrix3x3 \<Rightarrow> Vec3 option" where
  "toEuler this =
     (case Math_asin (- (data this ! 2 ! 0)) of
        None \<Rightarrow> None
      | Some b \<Rightarrow>
          Some \<lparr>x = Math_atan2 (data this ! 2 ! 1) (data this ! 2 ! 2),
                y = b,
                z = Math_atan2 (data this ! 1 ! 0) (data this ! 0 ! 0)\<rparr>)"


section \<open>Rotation matrices in double arithmetic\<close>

text \<open>
  Whether two computations give the very same number depends on how each operation
  rounds, and exact arithmetic cannot tell.  For the statements of that kind the functions
  of the matrix class are given a second time, in the arithmetic of the program: IEEE 754
  binary64 with rounding to nearest, ties to even.  A finite double is a real number here;
  \<open>fl v\<close> is the double nearest to \<open>v\<close>, and an operation on doubles is the exact operation
  followed by \<open>fl\<close>.  The doubles around \<open>v\<close> are the integer multiples of \<open>quantum v\<close>: for
  \<open>v\<close> between \<open>2 ^ e\<close> and \<open>2 ^ (e + 1)\<close> in magnitude that is \<open>2 ^ (e - 52)\<close>, a significand
  of 53 bits, and it is \<open>2 ^ (- 1074)\<close> for every \<open>v\<close> below \<open>2 ^ (- 1022)\<close>, the
  subnormal range.  Overflow and the sign of zero are not represented; the entries of the
  matrices built below from angles stay below 4 in magnitude.
\<close>

definition roundHalfEven :: "real \<Rightarrow> int" where
  "roundHalfEven v =
     (let f = \<lfloor>v\<rfloor>
      in if v - of_int f < 1 / 2 then f
         else if 1 / 2 < v - of_int f then f + 1
         else if even f then f else f + 1)"

definition quantum :: "real \<Rightarrow> real" where
  "quantum v = 2 powr of_int (max \<lfloor>log 2 \<bar>v\<bar>\<rfloor> (- 1022) - 52)"

definition fl :: "real \<Rightarrow> number" where
  "fl v = (if v = 0 then 0 else of_int (roundHalfEven (v / quantum v)) * quantum v)"

definition add_fl :: "number \<Rightarrow> number \<Rightarrow> number" where
  "add_fl a b = fl (a + b)"

definition sub_fl :: "number \<Rightarrow> number \<Rightarrow> number" where
  "sub_fl a b = fl (a - b)"

definition mul_fl :: "number \<Rightarrow> number \<Rightarrow> number" where
  "mul_fl a b = fl (a * b)"

text \<open>
  ECMAScript leaves the accuracy of \<^verbatim>\<open>Math.cos\<close>, \<^verbatim>\<open>Math.sin\<close>, \<^verbatim>\<open>Math.asin\<close> and
  \<^verbatim>\<open>Math.atan2\<close> to the implementation.  They are taken to return the double nearest to
  the exact value, which is what the usual libraries return unless the exact value is
  very close to the middle between two doubles.  At the arguments evaluated below it is
  not: \<open>cos 2.5\<close> and \<open>sin 1.5\<close> are within 0.17 of a quantum of the nearest double, and
  the arc sine evaluated there is 0.93 of a quantum above \<open>1.5\<close>.
\<close>

definition Math_cos_fl :: "number \<Rightarrow> number" where
  "Math_cos_fl a = fl (cos a)"

definition Math_sin_fl :: "number \<Rightarrow> number" where
  "Math_sin_fl a = fl (sin a)"

definition Math_asin_fl :: "number \<Rightarrow> number option" where
  "Math_asin_fl v = (if - 1 \<le> v \<and> v \<le> 1 then Some (fl (arcsin v)) else None)"

definition Math_atan2_fl :: "number \<Rightarrow> number \<Rightarrow> number" where
  "Math_atan2_fl b a = fl (Math_atan2 b a)"

text \<open>
  The four functions again, operation by operation as the source writes them: \<^verbatim>\<open>a * b * c\<close>
  is \<^verbatim>\<open>(a * b) * c\<close>, a product binds tighter than a sum, and \<^verbatim>\<open>result[i][j] += p\<close> adds
  to what has been accumulated so far, starting from 0.  The unary minus is exact.
\<close>

definition fromEuler_fl :: "number \<Rightarrow> number \<Rightarrow> number \<Rightarrow> error + Matrix3x3" where
  "fromEuler_fl ax ay az =
     (let cx = Math_cos_fl ax; sx = Math_sin_fl ax;
          cy = Math_cos_fl ay; sy = Math_sin_fl ay;
          cz = Math_cos_fl az; sz = Math_sin_fl az
      in Matrix3x3_new
           [[mul_fl cz cy,
             sub_fl (mul_fl (mul_fl cz sy) sx) (mul_fl sz cx),
             add_fl (mul_fl (mul_fl cz sy) cx) (mul_fl sz sx)],
            [mul_fl sz cy,
             add_fl (mul_fl (mul_fl sz sy) sx) (mul_fl cz cx),
             sub_fl (mul_fl (mul_fl sz sy) cx) (mul_fl cz sx)],
            [- sy, mul_fl cy sx, mul_fl cy cx]])"

definition fromAxisAngle_fl :: "Vec3 \<Rightarrow> number \<Rightarrow> error + Matrix3x3" where
  "fromAxisAngle_fl axis angle =
     (let ax = x axis; ay = y axis; az = z axis;
          c = Math_cos_fl angle; s = Math_sin_fl angle; t = sub_fl 1 c;
          m00 = add_fl (mul_fl (mul_fl t ax) ax) c;
          m01 = sub_fl (mul_fl (mul_fl t ax) ay) (mul_fl az s);
          m02 = add_fl (mul_fl (mul_fl t ax) az) (mul_fl ay s);
          m10 = add_fl (mul_fl (mul_fl t ay) ax) (mul_fl az s);
          m11 = add_fl (mul_fl (mul_fl t ay) ay) c;
          m12 = sub_fl (mul_fl (mul_fl t ay) az) (mul_fl ax s);
          m20 = sub_fl (mul_fl (mul_fl t az) ax) (mul_fl ay s);
          m21 = add_fl (mul_fl (mul_fl t az) ay) (mul_fl ax s);
          m22 = add_fl (mul_fl (mul_fl t az) az) c
      in Matrix3x3_new [[m00, m01, m02], [m10, m11, m12], [m20, m21, m22]])"

definition Matrix3x3_mul_fl :: "Matrix3x3 \<Rightarrow> Matrix3x3 \<Rightarrow> error + Matrix3x3" where
  "Matrix3x3_mul_fl this other =
     Matrix3x3_new
       (map (\<lambda>i. map (\<lambda>j. foldl (\<lambda>acc k. add_fl acc (mul_fl (data this ! i ! k)
                                                              (data other ! k ! j)))
                                  0 [0..<3])
                       [0..<3])
            [0..<3])"

definition toEuler_fl :: "Matrix3x3 \<Rightarrow> Vec3 option" where
  "toEuler_fl this =
     (case Math_asin_fl (- (data this ! 2 ! 0)) of
        None \<Rightarrow> None
      | Some b \<Rightarrow>
          Some \<lparr>x = Math_atan2_fl (data this ! 2 ! 1) (data this ! 2 ! 2),
                y = b,
                z = Math_atan2_fl (data this ! 1 ! 0) (data this ! 0 ! 0)\<rparr>)"


section \<open>Entities (classes Star and Galaxy) and the object store\<close>

text \<open>
  Stars and galaxies are mutable objects, compared by identity (\<^verbatim>\<open>galaxy === otherGalaxy\<close>) and
  updated in place.  An object is a reference into a store; a \<^verbatim>\<open>Vec3\<close> is never mutated by
  the program and is a plain value.  Stars and galaxies have separate references, as their
  types keep them apart, and the store is total: what a reference that is not in use holds
  is arbitrary.  An array of galaxies is a list of references, and the same reference may
  occur in it more than once; the functions below only read it.  The type \<open>'u\<close> stands for
  \<^verbatim>\<open>unknown\<close>.
\<close>

type_synonym ref = nat

record 'u Star =
  pos :: Vec3
  vel :: Vec3
  mass :: number
  data :: "string \<rightharpoonup> 'u"

record 'u Galaxy =
  vel :: Vec3
  pos :: Vec3
  rotation :: Vec3
  mass :: number
  stars :: "ref list"
  data :: "string \<rightharpoonup> 'u"

text \<open>
  The constructors test their vector arguments for presence; \<open>None\<close> is a missing
  (\<^verbatim>\<open>undefined\<close> or \<^verbatim>\<open>null\<close>) argument.  The mass of a star defaults to \<open>0\<close>.
\<close>

definition Star_new :: "Vec3 option \<Rightarrow> Vec3 option \<Rightarrow> number option \<Rightarrow> error + 'u Star" where
  "Star_new p v m =
     (case p of
        None \<Rightarrow> Inl PositionRequired
      | Some p' \<Rightarrow>
          (case v of
             None \<Rightarrow> Inl VelocityRequired
           | Some v' \<Rightarrow>
               Inr \<lparr>Star.pos = p', Star.vel = v',
                    Star.mass = (case m of None \<Rightarrow> 0 | Some m' \<Rightarrow> m'),
                    Star.data = Map.empty\<rparr>))"

definition Galaxy_new ::
  "Vec3 option \<Rightarrow> Vec3 option \<Rightarrow> Vec3 option \<Rightarrow> number \<Rightarrow> error + 'u Galaxy" where
  "Galaxy_new v p rot m =
     (case v of
        None \<Rightarrow> Inl VelocityRequired
      | Some v' \<Rightarrow>
          (case p of
             None \<Rightarrow> Inl PositionRequired
           | Some p' \<Rightarrow>
               (case rot of
                  None \<Rightarrow> Inl RotationRequired
                | Some rot' \<Rightarrow>
                    Inr \<lparr>Galaxy.vel = v', Galaxy.pos = p', rotation = rot',
                         Galaxy.mass = m, stars = [], Galaxy.data = Map.empty\<rparr>)))"

record 'u store =
  galaxyAt :: "ref \<Rightarrow> 'u Galaxy"
  starAt :: "ref \<Rightarrow> 'u Star"
  nextGalaxy :: ref
  nextStar :: ref

text \<open>Assignment to a field of the object at a reference, and allocation by \<^verbatim>\<open>new\<close>.\<close>

definition setStar :: "ref \<Rightarrow> ('u Star \<Rightarrow> 'u Star) \<Rightarrow> 'u store \<Rightarrow> 'u store" where
  "setStar s f \<sigma> = \<sigma>\<lparr>starAt := (starAt \<sigma>)(s := f (starAt \<sigma> s))\<rparr>"

definition setGalaxy :: "ref \<Rightarrow> ('u Galaxy \<Rightarrow> 'u Galaxy) \<Rightarrow> 'u store \<Rightarrow> 'u store" where
  "setGalaxy g f \<sigma> = \<sigma>\<lparr>galaxyAt := (galaxyAt \<sigma>)(g := f (galaxyAt \<sigma> g))\<rparr>"

definition allocStar :: "'u Star \<Rightarrow> 'u store \<Rightarrow> ref \<times> 'u store" where
  "allocStar obj \<sigma> =
     (nextStar \<sigma>, \<sigma>\<lparr>starAt := (starAt \<sigma>)(nextStar \<sigma> := obj), nextStar := Suc (nextStar \<sigma>)\<rparr>)"

definition allocGalaxy :: "'u Galaxy \<Rightarrow> 'u store \<Rightarrow> ref \<times> 'u store" where
  "allocGalaxy obj \<sigma> =
     (nextGalaxy \<sigma>,
      \<sigma>\<lparr>galaxyAt := (galaxyAt \<sigma>)(nextGalaxy \<sigma> := obj), nextGalaxy := Suc (nextGalaxy \<sigma>)\<rparr>)"


section \<open>Iteration utility (physics/util.ts)\<close>

text \<open>
  \<open>allStars\<close> calls \<open>func\<close> on every star of every galaxy.  The inner loop reads
  \<^verbatim>\<open>galaxy.stars.length\<close> and \<^verbatim>\<open>galaxy.stars[i]\<close> from the store at every round, after whatever
  the callback did to it, so for an arbitrary callback it need not end: it is a partial
  function, and \<open>None\<close> is also what a callback without a finite result gives.
\<close>

partial_function (option) allStars_loop ::
  "(ref \<Rightarrow> ref \<Rightarrow> nat \<Rightarrow> 'u store \<Rightarrow> 'u store option) \<Rightarrow> ref \<Rightarrow> nat \<Rightarrow> 'u store \<Rightarrow> 'u store option"
where
  "allStars_loop func galaxy i \<sigma> =
     (if i < length (stars (galaxyAt \<sigma> galaxy))
      then func (stars (galaxyAt \<sigma> galaxy) ! i) galaxy i \<sigma>
             \<bind> (\<lambda>\<sigma>'. allStars_loop func galaxy (Suc i) \<sigma>')
      else Some \<sigma>)"

fun allStars ::
  "ref list \<Rightarrow> (ref \<Rightarrow> ref \<Rightarrow> nat \<Rightarrow> 'u store \<Rightarrow> 'u store option) \<Rightarrow> 'u store \<Rightarrow> 'u store option"
where
  "allStars [] func \<sigma> = Some \<sigma>"
| "allStars (galaxy # galaxies) func \<sigma> =
     allStars_loop func galaxy 0 \<sigma> \<bind> allStars galaxies func"


section \<open>Force integrator (physics/simple.ts)\<close>

definition TIME_STEP :: number where
  "TIME_STEP = 0.005"

definition G :: number where
  "G = 0.001"

text \<open>
  The body of both force loops, after the identity test of the second one: the
  contribution of \<open>otherGalaxy\<close> to the acceleration of a body at \<open>p\<close>, added to
  \<open>totalAcceleration\<close>.  The division is the one place where a non-finite number could
  arise from finite operands.
\<close>

definition accelerate :: "'u Galaxy \<Rightarrow> Vec3 \<Rightarrow> Vec3 \<Rightarrow> Vec3 option" where
  "accelerate otherGalaxy p totalAcceleration =
     (let dPos = Vec3_sub (Galaxy.pos otherGalaxy) (Vec p);
          distSq = (magnitude dPos)\<^sup>2
      in if distSq = 0 then Some totalAcceleration
         else
           let dist = sqrt distSq
           in divide_number (G * Galaxy.mass otherGalaxy) (dist * distSq)
                \<bind> (\<lambda>accelerationScalar.
                      let accelerationVec = Vec3_mul dPos (Num accelerationScalar)
                      in Some (Vec3_add totalAcceleration (Vec accelerationVec))))"

text \<open>Phase 1: the callback handed to \<open>allStars\<close>, with its loop over all galaxies.\<close>

fun starAcceleration :: "'u store \<Rightarrow> ref \<Rightarrow> ref list \<Rightarrow> Vec3 \<Rightarrow> Vec3 option" where
  "starAcceleration \<sigma> star [] totalAcceleration = Some totalAcceleration"
| "starAcceleration \<sigma> star (otherGalaxy # rest) totalAcceleration =
     accelerate (galaxyAt \<sigma> otherGalaxy) (Star.pos (starAt \<sigma> star)) totalAcceleration
       \<bind> starAcceleration \<sigma> star rest"

definition updateStar :: "ref list \<Rightarrow> ref \<Rightarrow> ref \<Rightarrow> nat \<Rightarrow> 'u store \<Rightarrow> 'u store option" where
  "updateStar galaxies star galaxy i \<sigma> =
     starAcceleration \<sigma> star galaxies Vec3_zero
       \<bind> (\<lambda>totalAcceleration.
             let deltaVelocity = Vec3_mul totalAcceleration (Num TIME_STEP);
                 \<sigma>1 = setStar star
                        (\<lambda>obj. obj\<lparr>Star.vel := Vec3_add (Star.vel obj) (Vec deltaVelocity)\<rparr>) \<sigma>;
                 \<sigma>2 = setStar star
                        (\<lambda>obj. obj\<lparr>Star.pos :=
                             Vec3_add (Star.pos obj) (Vec (Vec3_mul (Star.vel obj) (Num TIME_STEP)))\<rparr>)
                        \<sigma>1
             in Some \<sigma>2)"

text \<open>Phase 2: every galaxy against every other galaxy.\<close>

fun galaxyAcceleration :: "'u store \<Rightarrow> ref \<Rightarrow> ref list \<Rightarrow> Vec3 \<Rightarrow> Vec3 option" where
  "galaxyAcceleration \<sigma> galaxy [] totalAcceleration = Some totalAcceleration"
| "galaxyAcceleration \<sigma> galaxy (otherGalaxy # rest) totalAcceleration =
     (if galaxy = otherGalaxy then galaxyAcceleration \<sigma> galaxy rest totalAcceleration
      else accelerate (galaxyAt \<sigma> otherGalaxy) (Galaxy.pos (galaxyAt \<sigma> galaxy)) totalAcceleration
             \<bind> galaxyAcceleration \<sigma> galaxy rest)"

fun updateVelocities :: "ref list \<Rightarrow> ref list \<Rightarrow> 'u store \<Rightarrow> 'u store option" where
  "updateVelocities galaxies [] \<sigma> = Some \<sigma>"
| "updateVelocities galaxies (galaxy # rest) \<sigma> =
     galaxyAcceleration \<sigma> galaxy galaxies Vec3_zero
       \<bind> (\<lambda>totalAcceleration.
             let deltaVelocity = Vec3_mul totalAcceleration (Num TIME_STEP)
             in updateVelocities galaxies rest
                  (setGalaxy galaxy
                     (\<lambda>obj. obj\<lparr>Galaxy.vel := Vec3_add (Galaxy.vel obj) (Vec deltaVelocity)\<rparr>) \<sigma>))"

text \<open>Phase 3.\<close>

fun updatePositions :: "ref list \<Rightarrow> 'u store \<Rightarrow> 'u store" where
  "updatePositions [] \<sigma> = \<sigma>"
| "updatePositions (galaxy # rest) \<sigma> =
     updatePositions rest
       (setGalaxy galaxy
          (\<lambda>obj. obj\<lparr>Galaxy.pos :=
               Vec3_add (Galaxy.pos obj) (Vec (Vec3_mul (Galaxy.vel obj) (Num TIME_STEP)))\<rparr>) \<sigma>)"

definition updateGalaxies :: "ref list \<Rightarrow> 'u store \<Rightarrow> 'u store option" where
  "updateGalaxies galaxies \<sigma> =
     allStars galaxies (updateStar galaxies) \<sigma>
       \<bind> updateVelocities galaxies galaxies
       \<bind> (\<lambda>\<sigma>'. Some (updatePositions galaxies \<sigma>'))"


section \<open>Initial-condition generator (physics/simple.ts)\<close>

text \<open>Every option may be absent; destructuring puts the default in place of an absent one.\<close>

record GalaxyOptions =
  minStarCount :: "number option"
  maxStarCount :: "number option"
  minGalaxyRadius :: "number option"
  maxGalaxyRadius :: "number option"
  maxInitialSpeed :: "number option"
  rewindTimeSteps :: "number option"
  initialCollisionAvoidanceOffset :: "number option"

definition orDefault :: "'a option \<Rightarrow> 'a \<Rightarrow> 'a" where
  "orDefault v d = (case v of None \<Rightarrow> d | Some a \<Rightarrow> a)"

text \<open>The condition of \<^verbatim>\<open>maxStarCount ? ... : ...\<close>: an absent option and the number 0 are falsy.\<close>

definition truthy :: "number option \<Rightarrow> bool" where
  "truthy v = (case v of None \<Rightarrow> False | Some a \<Rightarrow> a \<noteq> 0)"

text \<open>
  The generator stores the coordinates it computes and never looks at them again, so its
  divisions and square roots are written with the total operators of HOL.  Where JavaScript
  has no finite result (a radius of 0, a star placed exactly on the centre, a negative
  mass) the coordinates of that star in the model are not those of the program; the star
  is created all the same, in the program and in the model.
\<close>

definition createRandomStarInGalaxy ::
  "ref \<Rightarrow> Matrix3x3 \<Rightarrow> number option \<Rightarrow> rng \<Rightarrow> 'u store \<Rightarrow> (error + 'u Star) \<times> rng" where
  "createRandomStarInGalaxy galaxy rotationMatrix radius r0 \<sigma> =
     (let galaxyRadius = orDefault radius 1;
          (u1, r1) = Math_random r0;
          angularPosition = 2 * pi * u1;
          (u2, r2) = Math_random r1;
          distanceFromCenter = u2 * galaxyRadius;
          (u3, r3) = Math_random r2;
          height = ((u3 * exp (- 2 * (distanceFromCenter / galaxyRadius))) / 5) * galaxyRadius;
          (u4, r4) = Math_random r3;
          heightFromPlane = (if u4 < 0.5 then - height else height);
          distanceToCenter3D = sqrt (distanceFromCenter\<^sup>2 + heightFromPlane\<^sup>2);
          orbitalSpeed = sqrt ((Galaxy.mass (galaxyAt \<sigma> galaxy) * G) / distanceToCenter3D);
          sinW = sin angularPosition;
          cosW = cos angularPosition;
          localPosition =
            \<lparr>x = distanceFromCenter * cosW, y = distanceFromCenter * sinW, z = heightFromPlane\<rparr>;
          localVelocity = \<lparr>x = - orbitalSpeed * sinW, y = orbitalSpeed * cosW, z = 0\<rparr>;
          worldPosition =
            Vec3_add (transform rotationMatrix localPosition) (Vec (Galaxy.pos (galaxyAt \<sigma> galaxy)));
          worldVelocity =
            Vec3_add (transform rotationMatrix localVelocity) (Vec (Galaxy.vel (galaxyAt \<sigma> galaxy)))
      in (Star_new (Some worldPosition) (Some worldVelocity) None, r4))"

text \<open>
  The loop \<^verbatim>\<open>for (let i = 0; i < targetNumberOfStars; i++)\<close> with its \<^verbatim>\<open>push\<close>.  The bound
  is a number, not necessarily a whole one.
\<close>

function populate ::
  "ref \<Rightarrow> Matrix3x3 \<Rightarrow> number \<Rightarrow> number \<Rightarrow> nat \<Rightarrow> rng \<Rightarrow> 'u store \<Rightarrow> error + 'u store \<times> rng" where
  "populate galaxy rotationMatrix galaxyRadius targetNumberOfStars i r \<sigma> =
     (if real i < targetNumberOfStars
      then (case createRandomStarInGalaxy galaxy rotationMatrix (Some galaxyRadius) r \<sigma> of
              (Inl e, r') \<Rightarrow> Inl e
            | (Inr obj, r') \<Rightarrow>
                let (star, \<sigma>1) = allocStar obj \<sigma>;
                    \<sigma>2 = setGalaxy galaxy (\<lambda>g. g\<lparr>stars := stars g @ [star]\<rparr>) \<sigma>1
                in populate galaxy rotationMatrix galaxyRadius targetNumberOfStars (Suc i) r' \<sigma>2)
      else Inr (\<sigma>, r))"
  by pat_completeness auto
termination
  by (relation "measure (\<lambda>(galaxy, rotationMatrix, galaxyRadius, targetNumberOfStars, i, r, \<sigma>).
                  nat \<lceil>targetNumberOfStars\<rceil> - i)")
     (auto simp: zless_nat_eq_int_zless less_ceiling_iff intro!: diff_less_mono2)

text \<open>The two conditional expressions of step 4, each with the draw it may make.\<close>

definition targetNumberOfStars :: "number \<Rightarrow> number option \<Rightarrow> rng \<Rightarrow> number \<times> rng" where
  "targetNumberOfStars minStarCount' maxStarCount' r =
     (if truthy maxStarCount'
      then let (u, r') = Math_random r
           in (u * (the maxStarCount' - minStarCount') + minStarCount', r')
      else (minStarCount', r))"

definition galaxyRadius :: "number \<Rightarrow> number option \<Rightarrow> rng \<Rightarrow> number \<times> rng" where
  "galaxyRadius minGalaxyRadius' maxGalaxyRadius' r =
     (if truthy maxGalaxyRadius'
      then let (u, r') = Math_random r
           in (u * (the maxGalaxyRadius' - minGalaxyRadius') + minGalaxyRadius', r')
      else (minGalaxyRadius', r))"

definition createRandomGalaxy ::
  "GalaxyOptions \<Rightarrow> rng \<Rightarrow> 'u store \<Rightarrow> error + ref \<times> 'u store \<times> rng" where
  "createRandomGalaxy options r0 \<sigma> =
     (let minStarCount' = orDefault (minStarCount options) 1500;
          maxStarCount' = maxStarCount options;
          minGalaxyRadius' = orDefault (minGalaxyRadius options) 1;
          maxGalaxyRadius' = maxGalaxyRadius options;
          maxInitialSpeed' = orDefault (maxInitialSpeed options) 4;
          rewindTimeSteps' = orDefault (rewindTimeSteps options) 3;
          initialCollisionAvoidanceOffset' =
            orDefault (initialCollisionAvoidanceOffset options) 1.5;
          (initialVelocity, r1) = Vec3_randomCentered maxInitialSpeed' r0;
          rewindVector = Vec3_mul initialVelocity (Num (- rewindTimeSteps'));
          (offset, r2) = Vec3_randomCentered initialCollisionAvoidanceOffset' r1;
          initialPosition = Vec3_add rewindVector (Vec offset);
          (rotation', r3) = Vec3_random pi r2;
          (target, r4) = targetNumberOfStars minStarCount' maxStarCount' r3;
          (radius, r5) = galaxyRadius minGalaxyRadius' maxGalaxyRadius' r4
      in case Galaxy_new (Some initialVelocity) (Some initialPosition) (Some rotation') target of
           Inl e \<Rightarrow> Inl e
         | Inr obj \<Rightarrow>
             let (galaxy, \<sigma>1) = allocGalaxy obj \<sigma>
             in case fromEuler (x (rotation (galaxyAt \<sigma>1 galaxy)))
                               (y (rotation (galaxyAt \<sigma>1 galaxy)))
                               (z (rotation (galaxyAt \<sigma>1 galaxy))) of
                  Inl e \<Rightarrow> Inl e
                | Inr rotationMatrix \<Rightarrow>
                    (case populate galaxy rotationMatrix radius target 0 r5 \<sigma>1 of
                       Inl e \<Rightarrow> Inl e
                     | Inr (\<sigma>2, r6) \<Rightarrow> Inr (galaxy, \<sigma>2, r6)))"


section \<open>Reference definitions\<close>

text \<open>
  What the specification says, written down independently of the loops above, for
  comparison with them.
\<close>

text \<open>Component \<open>i\<close> of a vector, for sums over indices.\<close>

definition component :: "Vec3 \<Rightarrow> nat \<Rightarrow> number" where
  "component v i = (if i = 0 then x v else if i = 1 then y v else z v)"

text \<open>The sum of a list of vectors.\<close>

definition vsum :: "Vec3 list \<Rightarrow> Vec3" where
  "vsum vs = \<lparr>x = (\<Sum>v\<leftarrow>vs. x v), y = (\<Sum>v\<leftarrow>vs. y v), z = (\<Sum>v\<leftarrow>vs. z v)\<rparr>"

text \<open>
  The acceleration \<open>G\<cdot>M / |r|\<^sup>3 \<cdot> r\<close> that a galaxy gives to a body at \<open>p\<close>, with
  \<open>r = g.pos - p\<close>: first as the formula stands, which has no value where \<open>|r|\<close> is 0, then
  with the zero-distance skip, where a galaxy with \<open>|r|\<^sup>2 = 0\<close> contributes nothing.
\<close>

definition pull :: "'u Galaxy \<Rightarrow> Vec3 \<Rightarrow> Vec3 option" where
  "pull g p =
     (let r = Vec3_sub (Galaxy.pos g) (Vec p)
      in divide_number (G * Galaxy.mass g) ((magnitude r) ^ 3)
           \<bind> (\<lambda>k. Some (Vec3_mul r (Num k))))"

definition pull_skip :: "'u Galaxy \<Rightarrow> Vec3 \<Rightarrow> Vec3 option" where
  "pull_skip g p =
     (if (magnitude (Vec3_sub (Galaxy.pos g) (Vec p)))\<^sup>2 = 0 then Some Vec3_zero else pull g p)"

text \<open>The stars of the galaxies of a sequence, in the order \<open>allStars\<close> visits them.\<close>

definition allStarRefs :: "'u store \<Rightarrow> ref list \<Rightarrow> ref list" where
  "allStarRefs \<sigma> galaxies = concat (map (\<lambda>g. stars (galaxyAt \<sigma> g)) galaxies)"

text \<open>
  The two sums.  The summand \<open>term\<close> is a parameter, \<open>pull\<close> or \<open>pull_skip\<close>, and the
  galaxies are read in the store \<open>\<sigma>\<^sub>0\<close>, which will be the store at the start of the call.
  \<^item> \<open>starAcc\<close>: the acceleration of a star at \<open>p\<close>, the sum over all galaxies of the sequence.
  \<^item> \<open>galaxyAcc\<close>: the acceleration of the galaxy \<open>g\<close>, the sum over the galaxies of the
    sequence other than \<open>g\<close> itself.
  A sum has a value when every summand has one.
\<close>

definition starAcc ::
  "('u Galaxy \<Rightarrow> Vec3 \<Rightarrow> Vec3 option) \<Rightarrow> ref list \<Rightarrow> 'u store \<Rightarrow> Vec3 \<Rightarrow> Vec3 option" where
  "starAcc term galaxies \<sigma>\<^sub>0 p =
     map_option vsum (those (map (\<lambda>g. term (galaxyAt \<sigma>\<^sub>0 g) p) galaxies))"

definition galaxyAcc ::
  "('u Galaxy \<Rightarrow> Vec3 \<Rightarrow> Vec3 option) \<Rightarrow> ref list \<Rightarrow> 'u store \<Rightarrow> ref \<Rightarrow> Vec3 option" where
  "galaxyAcc term galaxies \<sigma>\<^sub>0 g =
     map_option vsum
       (those (map (\<lambda>g'. term (galaxyAt \<sigma>\<^sub>0 g') (Galaxy.pos (galaxyAt \<sigma>\<^sub>0 g)))
                   (filter (\<lambda>g'. g' \<noteq> g) galaxies)))"

text \<open>
  What an acceleration \<open>a\<close> does to a body: \<open>vel := vel + a\<cdot>\<Delta>t\<close>, then
  \<open>pos := pos + vel\<cdot>\<Delta>t\<close> with the new velocity.
\<close>

definition starAfter :: "Vec3 \<Rightarrow> 'u Star \<Rightarrow> 'u Star" where
  "starAfter a obj =
     (let v = Vec3_add (Star.vel obj) (Vec (Vec3_mul a (Num TIME_STEP)))
      in obj\<lparr>Star.vel := v, Star.pos := Vec3_add (Star.pos obj) (Vec (Vec3_mul v (Num TIME_STEP)))\<rparr>)"

definition galaxyAfter :: "Vec3 \<Rightarrow> 'u Galaxy \<Rightarrow> 'u Galaxy" where
  "galaxyAfter a obj =
     (let v = Vec3_add (Galaxy.vel obj) (Vec (Vec3_mul a (Num TIME_STEP)))
      in obj\<lparr>Galaxy.vel := v,
              Galaxy.pos := Vec3_add (Galaxy.pos obj) (Vec (Vec3_mul v (Num TIME_STEP)))\<rparr>)"

text \<open>
  The three phases of one step.  Each goes through its sequence in order and meets an
  object as often as the sequence names it.
  \<^item> Phase 1, for every star of every galaxy: with \<open>a\<close> the sum over all galaxies, taken at
    the position the star has now and the positions the galaxies had at the start of the
    call, \<open>vel := vel + a\<cdot>\<Delta>t\<close> and then \<open>pos := pos + vel\<cdot>\<Delta>t\<close> with the new velocity.
  \<^item> Phase 2, for every galaxy: with \<open>a\<close> the sum over the other galaxies, all positions as
    at the start of the call, \<open>vel := vel + a\<cdot>\<Delta>t\<close>.
  \<^item> Phase 3, for every galaxy: \<open>pos := pos + vel\<cdot>\<Delta>t\<close> with the velocity it has after
    phase 2.
  \<open>referenceStep\<close> runs the phases one after the other on the stars that the galaxies hold at
  the start of the call.  The step has a value when every sum has one.
\<close>

fun starPhase ::
  "('u Galaxy \<Rightarrow> Vec3 \<Rightarrow> Vec3 option) \<Rightarrow> ref list \<Rightarrow> 'u store \<Rightarrow> ref list \<Rightarrow> 'u store
     \<Rightarrow> 'u store option" where
  "starPhase term galaxies \<sigma>\<^sub>0 [] \<sigma> = Some \<sigma>"
| "starPhase term galaxies \<sigma>\<^sub>0 (s # rest) \<sigma> =
     starAcc term galaxies \<sigma>\<^sub>0 (Star.pos (starAt \<sigma> s))
       \<bind> (\<lambda>a. starPhase term galaxies \<sigma>\<^sub>0 rest (setStar s (starAfter a) \<sigma>))"

fun velocityPhase ::
  "('u Galaxy \<Rightarrow> Vec3 \<Rightarrow> Vec3 option) \<Rightarrow> ref list \<Rightarrow> 'u store \<Rightarrow> ref list \<Rightarrow> 'u store
     \<Rightarrow> 'u store option" where
  "velocityPhase term galaxies \<sigma>\<^sub>0 [] \<sigma> = Some \<sigma>"
| "velocityPhase term galaxies \<sigma>\<^sub>0 (g # rest) \<sigma> =
     galaxyAcc term galaxies \<sigma>\<^sub>0 g
       \<bind> (\<lambda>a. velocityPhase term galaxies \<sigma>\<^sub>0 rest
                (setGalaxy g
                   (\<lambda>obj. obj\<lparr>Galaxy.vel :=
                        Vec3_add (Galaxy.vel obj) (Vec (Vec3_mul a (Num TIME_STEP)))\<rparr>)
                   \<sigma>))"

fun positionPhase :: "ref list \<Rightarrow> 'u store \<Rightarrow> 'u store" where
  "positionPhase [] \<sigma> = \<sigma>"
| "positionPhase (g # rest) \<sigma> =
     positionPhase rest
       (setGalaxy g
          (\<lambda>obj. obj\<lparr>Galaxy.pos :=
               Vec3_add (Galaxy.pos obj) (Vec (Vec3_mul (Galaxy.vel obj) (Num TIME_STEP)))\<rparr>)
          \<sigma>)"

definition referenceStep ::
  "('u Galaxy \<Rightarrow> Vec3 \<Rightarrow> Vec3 option) \<Rightarrow> ref list \<Rightarrow> 'u store \<Rightarrow> 'u store option" where
  "referenceStep term galaxies \<sigma> =
     starPhase term galaxies \<sigma> (allStarRefs \<sigma> galaxies) \<sigma>
       \<bind> velocityPhase term galaxies \<sigma> galaxies
       \<bind> (\<lambda>\<sigma>'. Some (positionPhase galaxies \<sigma>'))"

text \<open>
  The same step for a sequence that names every galaxy once and whose galaxies hold every
  star once: each star and each galaxy is replaced once, all sums taken in the store at the
  start of the call.
\<close>

definition referenceOnce ::
  "('u Galaxy \<Rightarrow> Vec3 \<Rightarrow> Vec3 option) \<Rightarrow> ref list \<Rightarrow> 'u store \<Rightarrow> 'u store option" where
  "referenceOnce term galaxies \<sigma> =
     (if list_all (\<lambda>s. starAcc term galaxies \<sigma> (Star.pos (starAt \<sigma> s)) \<noteq> None)
                  (allStarRefs \<sigma> galaxies)
         \<and> list_all (\<lambda>g. galaxyAcc term galaxies \<sigma> g \<noteq> None) galaxies
      then Some (\<sigma>\<lparr>starAt := (\<lambda>s. if s \<in> set (allStarRefs \<sigma> galaxies)
                                   then starAfter
                                          (the (starAcc term galaxies \<sigma> (Star.pos (starAt \<sigma> s))))
                                          (starAt \<sigma> s)
                                   else starAt \<sigma> s),
                    galaxyAt := (\<lambda>g. if g \<in> set galaxies
                                     then galaxyAfter (the (galaxyAcc term galaxies \<sigma> g)) (galaxyAt \<sigma> g)
                                     else galaxyAt \<sigma> g)\<rparr>)
      else None)"


section \<open>Closed forms of the loops\<close>

text \<open>
  Total functions that the loops of the integrator will be shown to compute; they serve the
  proofs.  \<open>attraction\<close> is the value of one round of a force loop, \<open>starForce\<close> and
  \<open>galaxyForce\<close> the value of a whole loop, and the three steps are what one round of each
  phase does to the store.
\<close>

definition attraction :: "'u Galaxy \<Rightarrow> Vec3 \<Rightarrow> Vec3" where
  "attraction g p =
     (let r = Vec3_sub (Galaxy.pos g) (Vec p)
      in if magnitude r = 0 then Vec3_zero
         else Vec3_mul r (Num (G * Galaxy.mass g / (magnitude r) ^ 3)))"

definition starForce :: "ref list \<Rightarrow> 'u store \<Rightarrow> ref \<Rightarrow> Vec3" where
  "starForce galaxies \<sigma> s =
     vsum (map (\<lambda>g. attraction (galaxyAt \<sigma> g) (Star.pos (starAt \<sigma> s))) galaxies)"

definition galaxyForce :: "ref list \<Rightarrow> 'u store \<Rightarrow> ref \<Rightarrow> Vec3" where
  "galaxyForce galaxies \<sigma> g =
     vsum (map (\<lambda>g'. attraction (galaxyAt \<sigma> g') (Galaxy.pos (galaxyAt \<sigma> g)))
               (filter (\<lambda>g'. g' \<noteq> g) galaxies))"

definition starStep :: "ref list \<Rightarrow> ref \<Rightarrow> 'u store \<Rightarrow> 'u store" where
  "starStep galaxies s \<sigma> = setStar s (starAfter (starForce galaxies \<sigma> s)) \<sigma>"

definition velocityStep :: "ref list \<Rightarrow> ref \<Rightarrow> 'u store \<Rightarrow> 'u store" where
  "velocityStep galaxies g \<sigma> =
     setGalaxy g
       (\<lambda>obj. obj\<lparr>Galaxy.vel :=
            Vec3_add (Galaxy.vel obj) (Vec (Vec3_mul (galaxyForce galaxies \<sigma> g) (Num TIME_STEP)))\<rparr>)
       \<sigma>"

definition positionStep :: "ref \<Rightarrow> 'u store \<Rightarrow> 'u store" where
  "positionStep g \<sigma> =
     setGalaxy g
       (\<lambda>obj. obj\<lparr>Galaxy.pos :=
            Vec3_add (Galaxy.pos obj) (Vec (Vec3_mul (Galaxy.vel obj) (Num TIME_STEP)))\<rparr>)
       \<sigma>"


section \<open>Example stores\<close>

text \<open>
  A galaxy of mass 100 at the origin with two stars, one at distance 1 and one exactly on
  the centre of the galaxy; and the same store with the second star moved, made heavy and
  set in motion.
\<close>

definition galaxyA :: "unit Galaxy" where
  "galaxyA = \<lparr>Galaxy.vel = Vec3_zero, Galaxy.pos = Vec3_zero, rotation = Vec3_zero,
              Galaxy.mass = 100, stars = [0, 1], Galaxy.data = Map.empty\<rparr>"

definition storeA :: "unit store" where
  "storeA =
     \<lparr>galaxyAt = (\<lambda>g. galaxyA),
      starAt = (\<lambda>s. if s = 1
                     then \<lparr>Star.pos = Vec3_zero, Star.vel = Vec3_zero, Star.mass = 0,
                           Star.data = Map.empty\<rparr>
                     else \<lparr>Star.pos = \<lparr>x = 1, y = 0, z = 0\<rparr>, Star.vel = Vec3_zero,
                           Star.mass = 0, Star.data = Map.empty\<rparr>),
      nextGalaxy = 1, nextStar = 2\<rparr>"

definition storeB :: "unit store" where
  "storeB =
     storeA\<lparr>starAt := (starAt storeA)
        (1 := \<lparr>Star.pos = \<lparr>x = 0, y = 3, z = 4\<rparr>, Star.vel = \<lparr>x = 1, y = 1, z = 1\<rparr>,
               Star.mass = 7, Star.data = Map.empty\<rparr>)\<rparr>"

text \<open>The two-body scenario: masses 100 at \<open>(-1, 0, 0)\<close> and \<open>(1, 0, 0)\<close>, at rest, no stars.\<close>

definition twoBody :: "unit store" where
  "twoBody =
     \<lparr>galaxyAt = (\<lambda>g. \<lparr>Galaxy.vel = Vec3_zero,
                        Galaxy.pos = (if g = 0 then \<lparr>x = - 1, y = 0, z = 0\<rparr>
                                      else \<lparr>x = 1, y = 0, z = 0\<rparr>),
                        rotation = Vec3_zero, Galaxy.mass = 100, stars = [],
                        Galaxy.data = Map.empty\<rparr>),
      starAt = (\<lambda>s. \<lparr>Star.pos = Vec3_zero, Star.vel = Vec3_zero, Star.mass = 0,
                       Star.data = Map.empty\<rparr>),
      nextGalaxy = 2, nextStar = 0\<rparr>"


text \<open>Options with \<open>minStarCount = 2\<close> and \<open>maxStarCount = 3\<close>, everything else absent.\<close>

definition twoToThree :: GalaxyOptions where
  "twoToThree =
     \<lparr>minStarCount = Some 2, maxStarCount = Some 3, minGalaxyRadius = None,
      maxGalaxyRadius = None, maxInitialSpeed = None, rewindTimeSteps = None,
      initialCollisionAvoidanceOffset = None\<rparr>"


section \<open>The generator after its draws\<close>

text \<open>
  Steps 6 to 8 of \<open>createRandomGalaxy\<close>, as a function of the values that steps 1 to 5 have
  drawn; it serves the proofs.
\<close>

definition assembleGalaxy ::
  "Vec3 \<Rightarrow> Vec3 \<Rightarrow> Vec3 \<Rightarrow> number \<Rightarrow> number \<Rightarrow> rng \<Rightarrow> 'u store \<Rightarrow> error + ref \<times> 'u store \<times> rng" where
  "assembleGalaxy initialVelocity initialPosition rotation' target radius r5 \<sigma> =
     (case Galaxy_new (Some initialVelocity) (Some initialPosition) (Some rotation') target of
        Inl e \<Rightarrow> Inl e
      | Inr obj \<Rightarrow>
          let (galaxy, \<sigma>1) = allocGalaxy obj \<sigma>
          in case fromEuler (x (rotation (galaxyAt \<sigma>1 galaxy)))
                            (y (rotation (galaxyAt \<sigma>1 galaxy)))
                            (z (rotation (galaxyAt \<sigma>1 galaxy))) of
               Inl e \<Rightarrow> Inl e
             | Inr rotationMatrix \<Rightarrow>
                 (case populate galaxy rotationMatrix radius target 0 r5 \<sigma>1 of
                    Inl e \<Rightarrow> Inl e
                  | Inr (\<sigma>2, r6) \<Rightarrow> Inr (galaxy, \<sigma>2, r6)))"


section \<open>Rotation matrices: facts\<close>

lemma upt_0_3: "[0..<3] = [0, 1, 2]"
  by (simp add: upt_rec)

lemma length_3E: "length xs = 3 \<Longrightarrow> \<exists>a b c. xs = [a, b, c]"
  by (cases xs; simp; case_tac list; simp; case_tac lista; simp)

lemma Matrix3x3_new_3x3:
  "Matrix3x3_new [[a, b, c], [d, e, f], [g, h, i]] =
     Inr \<lparr>Matrix3x3.data = [[a, b, c], [d, e, f], [g, h, i]]\<rparr>"
  by (simp add: Matrix3x3_new_def)

lemma Matrix3x3_new_InrD:
  assumes "Matrix3x3_new d = Inr M"
  shows "\<exists>a b c d' e f g h i. Matrix3x3.data M = [[a, b, c], [d', e, f], [g, h, i]]"
proof -
  from assms have l: "length d = 3" and c: "checkRows d 0 = None" and m: "Matrix3x3.data M = d"
    by (auto simp: Matrix3x3_new_def split: if_splits option.splits)
  from l obtain r0 r1 r2 where d: "d = [r0, r1, r2]" using length_3E by blast
  from c d have "length r0 = 3" "length r1 = 3" "length r2 = 3"
    by (auto split: if_splits)
  then show ?thesis using d m length_3E by (metis)
qed

lemma sum_lessThan_3: "(\<Sum>i<(3::nat). f i) = f 0 + f 1 + (f 2 :: real)"
  by (simp add: lessThan_Suc numeral_3_eq_3 numeral_2_eq_2)

lemma Matrix3x3_mul_3x3:
  "Matrix3x3_mul \<lparr>Matrix3x3.data = [[a00, a01, a02], [a10, a11, a12], [a20, a21, a22]]\<rparr>
                 \<lparr>Matrix3x3.data = [[b00, b01, b02], [b10, b11, b12], [b20, b21, b22]]\<rparr> =
     Inr \<lparr>Matrix3x3.data =
           [[a00 * b00 + a01 * b10 + a02 * b20, a00 * b01 + a01 * b11 + a02 * b21,
             a00 * b02 + a01 * b12 + a02 * b22],
            [a10 * b00 + a11 * b10 + a12 * b20, a10 * b01 + a11 * b11 + a12 * b21,
             a10 * b02 + a11 * b12 + a12 * b22],
            [a20 * b00 + a21 * b10 + a22 * b20, a20 * b01 + a21 * b11 + a22 * b21,
             a20 * b02 + a21 * b12 + a22 * b22]]\<rparr>"
  by (simp add: Matrix3x3_mul_def upt_0_3 Matrix3x3_new_3x3)



lemma all_less_3: "(\<forall>i<(3::nat). P i) \<longleftrightarrow> P 0 \<and> P 1 \<and> P 2"
proof -
  have "\<And>i::nat. i < 3 \<longleftrightarrow> i = 0 \<or> i = 1 \<or> i = 2" by arith
  then show ?thesis by auto
qed

text \<open>
  Claim C4.  For every 3x3 matrix \<open>M\<close> (a matrix the constructor accepts, entry \<open>M[i][j]\<close> at
  row \<open>i\<close>, column \<open>j\<close>) and every vector \<open>v\<close>, component \<open>j\<close> of \<open>M.transform(v)\<close> is
  \<open>\<Sum>\<^sub>i M[i][j] \<cdot> v\<^sub>i\<close>: the row vector \<open>v\<close> times \<open>M\<close>, with the columns of \<open>M\<close> as the
  basis.  \<open>M.mul(other)\<close> succeeds and is the conventional product, entry \<open>(i, j)\<close> being
  \<open>\<Sum>\<^sub>k M[i][k] \<cdot> other[k][j]\<close>.
\<close>

theorem transform_mul_convention:
  assumes "Matrix3x3_new d = Inr M" and "Matrix3x3_new d' = Inr other"
  shows "(\<forall>j<3. component (transform M v) j = (\<Sum>i<3. Matrix3x3.data M ! i ! j * component v i))
       \<and> (\<exists>R. Matrix3x3_mul M other = Inr R
              \<and> (\<forall>i<3. \<forall>j<3. Matrix3x3.data R ! i ! j =
                    (\<Sum>k<3. Matrix3x3.data M ! i ! k * Matrix3x3.data other ! k ! j)))"
proof -
  obtain a00 a01 a02 a10 a11 a12 a20 a21 a22
    where M: "M = \<lparr>Matrix3x3.data = [[a00, a01, a02], [a10, a11, a12], [a20, a21, a22]]\<rparr>"
    using Matrix3x3_new_InrD [OF assms(1)] by (cases M) auto
  obtain b00 b01 b02 b10 b11 b12 b20 b21 b22
    where O: "other = \<lparr>Matrix3x3.data = [[b00, b01, b02], [b10, b11, b12], [b20, b21, b22]]\<rparr>"
    using Matrix3x3_new_InrD [OF assms(2)] by (cases other) auto
  have t: "\<forall>j<3. component (transform M v) j = (\<Sum>i<3. Matrix3x3.data M ! i ! j * component v i)"
    by (simp add: M all_less_3 component_def transform_def sum_lessThan_3)
  have m: "\<exists>R. Matrix3x3_mul M other = Inr R
              \<and> (\<forall>i<3. \<forall>j<3. Matrix3x3.data R ! i ! j =
                    (\<Sum>k<3. Matrix3x3.data M ! i ! k * Matrix3x3.data other ! k ! j))"
    unfolding M O Matrix3x3_mul_3x3
    by (simp add: all_less_3 sum_lessThan_3)
  from t m show ?thesis by blast
qed


text \<open>The theorem of C4 at a concrete matrix, vector and second matrix.\<close>

theorem transform_mul_convention_witness:
  "Matrix3x3_new [[1, 2, 3], [4, 5, 6], [7, 8, 10]]
     = Inr \<lparr>Matrix3x3.data = [[1, 2, 3], [4, 5, 6], [7, 8, 10]]\<rparr>
   \<and> Matrix3x3_new [[0, 1, 0], [1, 0, 0], [0, 0, 1]]
     = Inr \<lparr>Matrix3x3.data = [[0, 1, 0], [1, 0, 0], [0, 0, 1]]\<rparr>
   \<and> transform \<lparr>Matrix3x3.data = [[1, 2, 3], [4, 5, 6], [7, 8, 10]]\<rparr> \<lparr>x = 1, y = 1, z = 0\<rparr>
       = \<lparr>x = 5, y = 7, z = 9\<rparr>
   \<and> component (transform \<lparr>Matrix3x3.data = [[1, 2, 3], [4, 5, 6], [7, 8, 10]]\<rparr>
                           \<lparr>x = 1, y = 1, z = 0\<rparr>) 0
       = (\<Sum>i<3. [[1, 2, 3], [4, 5, 6], [7, 8, 10]] ! i ! 0 * component \<lparr>x = 1, y = 1, z = 0\<rparr> i)
   \<and> Matrix3x3_mul \<lparr>Matrix3x3.data = [[1, 2, 3], [4, 5, 6], [7, 8, 10]]\<rparr>
                    \<lparr>Matrix3x3.data = [[0, 1, 0], [1, 0, 0], [0, 0, 1]]\<rparr>
       = Inr \<lparr>Matrix3x3.data = [[2, 1, 3], [5, 4, 6], [8, 7, 10]]\<rparr>"
  using transform_mul_convention
    [of "[[1, 2, 3], [4, 5, 6], [7, 8, 10]]"
        "\<lparr>Matrix3x3.data = [[1, 2, 3], [4, 5, 6], [7, 8, 10]]\<rparr>"
        "[[0, 1, 0], [1, 0, 0], [0, 0, 1]]"
        "\<lparr>Matrix3x3.data = [[0, 1, 0], [1, 0, 0], [0, 0, 1]]\<rparr>"
        "\<lparr>x = 1, y = 1, z = 0\<rparr>"]
  by (simp add: Matrix3x3_new_3x3 Matrix3x3_mul_3x3 transform_def)

text \<open>
  Euler angles against single-axis rotations, in exact arithmetic: \<open>fromAxisAngle\<close> on the
  three unit axes gives the standard single-axis rotations, and their product by \<open>mul\<close>, in
  the order \<open>Rz(z) \<cdot> Ry(y) \<cdot> Rx(x)\<close>, is the matrix that \<open>fromEuler\<close> builds.
\<close>

lemma fromAxisAngle_unit_axes:
  "fromAxisAngle \<lparr>x = 0, y = 0, z = 1\<rparr> az
     = Inr \<lparr>Matrix3x3.data = [[cos az, - sin az, 0], [sin az, cos az, 0], [0, 0, 1]]\<rparr>"
  "fromAxisAngle \<lparr>x = 0, y = 1, z = 0\<rparr> ay
     = Inr \<lparr>Matrix3x3.data = [[cos ay, 0, sin ay], [0, 1, 0], [- sin ay, 0, cos ay]]\<rparr>"
  "fromAxisAngle \<lparr>x = 1, y = 0, z = 0\<rparr> ax
     = Inr \<lparr>Matrix3x3.data = [[1, 0, 0], [0, cos ax, - sin ax], [0, sin ax, cos ax]]\<rparr>"
  by (simp_all add: fromAxisAngle_def Let_def Matrix3x3_new_3x3)

lemma fromEuler_ZYX_exact:
  "\<exists>Rzy M.
      Matrix3x3_mul
        \<lparr>Matrix3x3.data = [[cos az, - sin az, 0], [sin az, cos az, 0], [0, 0, 1]]\<rparr>
        \<lparr>Matrix3x3.data = [[cos ay, 0, sin ay], [0, 1, 0], [- sin ay, 0, cos ay]]\<rparr> = Inr Rzy
    \<and> Matrix3x3_mul Rzy
        \<lparr>Matrix3x3.data = [[1, 0, 0], [0, cos ax, - sin ax], [0, sin ax, cos ax]]\<rparr> = Inr M
    \<and> fromEuler ax ay az = Inr M"
proof -
  have zy: "Matrix3x3_mul
              \<lparr>Matrix3x3.data = [[cos az, - sin az, 0], [sin az, cos az, 0], [0, 0, 1]]\<rparr>
              \<lparr>Matrix3x3.data = [[cos ay, 0, sin ay], [0, 1, 0], [- sin ay, 0, cos ay]]\<rparr>
            = Inr \<lparr>Matrix3x3.data =
                    [[cos az * cos ay, - sin az, cos az * sin ay],
                     [sin az * cos ay, cos az, sin az * sin ay],
                     [- sin ay, 0, cos ay]]\<rparr>"
    by (simp add: Matrix3x3_mul_3x3)
  have zyx: "Matrix3x3_mul
               \<lparr>Matrix3x3.data =
                    [[cos az * cos ay, - sin az, cos az * sin ay],
                     [sin az * cos ay, cos az, sin az * sin ay],
                     [- sin ay, 0, cos ay]]\<rparr>
               \<lparr>Matrix3x3.data = [[1, 0, 0], [0, cos ax, - sin ax], [0, sin ax, cos ax]]\<rparr>
             = fromEuler ax ay az"
    by (simp add: Matrix3x3_mul_3x3 fromEuler_def Let_def Matrix3x3_new_3x3)
  obtain M where M: "fromEuler ax ay az = Inr M"
    by (simp add: fromEuler_def Let_def Matrix3x3_new_3x3)
  show ?thesis
    using zy zyx M by (intro exI conjI) (simp_all only:)
qed

lemma cos_nonpos_upper: 
  assumes "pi / 2 \<le> t" "t \<le> pi" shows "cos t \<le> 0"
proof -
  have "cos t \<le> cos (pi / 2)"
    using assms by (intro cos_monotone_0_pi_le) auto
  then show ?thesis by simp
qed

lemma cos_pos_range:
  assumes "- pi < t" "t < pi" "0 < cos t"
  shows "- (pi / 2) < t \<and> t < pi / 2"
proof -
  have "\<not> pi / 2 \<le> t"
    using cos_nonpos_upper [of t] assms by auto
  moreover have "\<not> t \<le> - (pi / 2)"
    using cos_nonpos_upper [of "- t"] assms by auto
  ultimately show ?thesis by auto
qed

lemma sin_neg_lower:
  assumes "- pi < t" "t < 0" shows "sin t < 0"
proof -
  have "0 < sin (- t)" using assms by (intro sin_gt_zero) auto
  then show ?thesis by simp
qed

lemma atan2_sin_cos:
  assumes c: "0 < c" and lo: "- pi < t" and hi: "t < pi"
  shows "Math_atan2 (c * sin t) (c * cos t) = t"
proof -
  have q: "c * sin t / (c * cos t) = tan t"
    using c by (simp add: tan_def)
  consider (pos) "0 < cos t" | (neg) "cos t < 0" | (zero) "cos t = 0"
    by linarith
  then show ?thesis
  proof cases
    case pos
    then have "- (pi / 2) < t \<and> t < pi / 2" using cos_pos_range lo hi by blast
    then have "arctan (tan t) = t" by (simp add: arctan_tan)
    with pos c q show ?thesis by (simp add: Math_atan2_def)
  next
    case neg
    then have nz: "\<not> 0 < c * cos t" "c * cos t < 0"
      using c by (auto simp: mult_less_0_iff zero_less_mult_iff)
    have out: "\<not> (- (pi / 2) \<le> t \<and> t \<le> pi / 2)"
      using cos_ge_zero [of t] neg by auto
    show ?thesis
    proof (cases "0 \<le> sin t")
      case True
      have "\<not> t < 0" using sin_neg_lower [OF lo] True by auto
      with out have r: "pi / 2 < t" by auto
      have "tan t = tan (t - pi)" using tan_periodic_pi [of "t - pi"] by simp
      moreover have "arctan (tan (t - pi)) = t - pi"
        using r hi by (intro arctan_tan) auto
      ultimately have "arctan (tan t) = t - pi" by simp
      moreover have "0 \<le> c * sin t" using True c by simp
      ultimately show ?thesis using nz q by (simp add: Math_atan2_def)
    next
      case False
      have "\<not> 0 \<le> t" using sin_ge_zero [of t] False hi by auto
      with out have r: "t < - (pi / 2)" by auto
      have "tan t = tan (t + pi)" using tan_periodic_pi [of t] by simp
      moreover have "arctan (tan (t + pi)) = t + pi"
        using r lo by (intro arctan_tan) auto
      ultimately have "arctan (tan t) = t + pi" by simp
      moreover have "\<not> 0 \<le> c * sin t" using False c by (simp add: zero_le_mult_iff)
      ultimately show ?thesis using nz q by (simp add: Math_atan2_def)
    qed
  next
    case zero
    have range: "t = pi / 2 \<or> t = - (pi / 2)"
    proof (cases "0 \<le> t")
      case True
      have "cos t = cos (pi / 2)" using zero by simp
      moreover have "0 \<le> pi / 2" "pi / 2 \<le> pi" "t \<le> pi" using hi by simp_all
      ultimately have "t = pi / 2" using True by (rule_tac cos_inj_pi)
      then show ?thesis by simp
    next
      case False
      have "cos (- t) = cos (pi / 2)" using zero by simp
      moreover have "0 \<le> pi / 2" "pi / 2 \<le> pi" "- t \<le> pi" "0 \<le> - t"
        using lo False by simp_all
      ultimately have "- t = pi / 2" by (rule_tac cos_inj_pi)
      then show ?thesis by linarith
    qed
    then show ?thesis
    proof
      assume e: "t = pi / 2"
      have "sin t = 1" unfolding e by simp
      then show ?thesis using c zero by (simp add: Math_atan2_def) (simp add: e)
    next
      assume e: "t = - (pi / 2)"
      have "sin t = - 1" unfolding e by simp
      then show ?thesis using c zero by (simp add: Math_atan2_def) (simp add: e)
    qed
  qed
qed

text \<open>
  Claim C6, as amended.  In exact arithmetic, for \<open>x\<close> and \<open>z\<close> in the open interval
  \<open>(-\<pi>, \<pi>)\<close> and \<open>y\<close> in \<open>(-\<pi>/2, \<pi>/2)\<close>, \<open>fromEuler(x, y, z).toEuler()\<close> is the vector
  \<open>(x, y, z)\<close>: as a function of real numbers \<open>toEuler\<close> is a left inverse of \<open>fromEuler\<close>
  there.  In double arithmetic the result need not be \<open>(x, y, z)\<close> exactly.
\<close>

theorem toEuler_fromEuler:
  assumes "- pi < ax" "ax < pi" "- (pi / 2) < ay" "ay < pi / 2" "- pi < az" "az < pi"
  shows "\<exists>M. fromEuler ax ay az = Inr M \<and> toEuler M = Some \<lparr>x = ax, y = ay, z = az\<rparr>"
proof -
  have c: "0 < cos ay"
    using assms(3,4) by (intro cos_gt_zero_pi) auto
  have M: "fromEuler ax ay az =
             Inr \<lparr>Matrix3x3.data =
                    [[cos az * cos ay, cos az * sin ay * sin ax - sin az * cos ax,
                      cos az * sin ay * cos ax + sin az * sin ax],
                     [sin az * cos ay, sin az * sin ay * sin ax + cos az * cos ax,
                      sin az * sin ay * cos ax - cos az * sin ax],
                     [- sin ay, cos ay * sin ax, cos ay * cos ax]]\<rparr>"
    by (simp add: fromEuler_def Let_def Matrix3x3_new_3x3)
  have ex: "Math_atan2 (cos ay * sin ax) (cos ay * cos ax) = ax"
    using atan2_sin_cos [OF c assms(1,2)] .
  have ez: "Math_atan2 (sin az * cos ay) (cos az * cos ay) = az"
    using atan2_sin_cos [OF c assms(5,6)] by (simp add: mult.commute)
  have ey: "Math_asin (sin ay) = Some ay"
    using assms(3,4) by (simp add: Math_asin_def arcsin_sin)
  show ?thesis
    unfolding M by (simp add: toEuler_def ex ez ey)
qed

text \<open>The theorem of C6 at the angles \<open>(1, 1/2, -1)\<close>, which lie in the domain.\<close>

theorem toEuler_fromEuler_witness:
  "(- pi < 1 \<and> 1 < pi \<and> - (pi / 2) < 1 / 2 \<and> 1 / 2 < pi / 2 \<and> - pi < - 1 \<and> - 1 < pi)
   \<and> (\<exists>M. fromEuler 1 (1 / 2) (- 1) = Inr M \<and> toEuler M = Some \<lparr>x = 1, y = 1 / 2, z = - 1\<rparr>)"
proof -
  have h: "- pi < 1" "1 < pi" "- (pi / 2) < 1 / 2" "1 / 2 < pi / 2" "- pi < - 1" "- 1 < pi"
    using pi_ge_two by simp_all
  show ?thesis
    using h toEuler_fromEuler [OF h] by blast
qed


section \<open>Double arithmetic: rounding\<close>

text \<open>
  How \<open>fl\<close> is evaluated between two powers of two, from the integer nearest to the
  quotient by the quantum.
\<close>

lemma roundHalfEven_near:
  assumes "\<bar>v - of_int n\<bar> < 1 / 2"
  shows "roundHalfEven v = n"
proof (cases "of_int n \<le> v")
  case True
  then have "\<lfloor>v\<rfloor> = n" using assms by (intro floor_unique) auto
  then show ?thesis using assms True by (simp add: roundHalfEven_def Let_def)
next
  case False
  then have f: "\<lfloor>v\<rfloor> = n - 1" using assms by (intro floor_unique) auto
  have "1 / 2 < v - of_int (n - 1)" using assms False by auto
  then show ?thesis unfolding roundHalfEven_def Let_def f by simp
qed

lemma roundHalfEven_of_int: "roundHalfEven (of_int n) = n"
  by (rule roundHalfEven_near) simp

lemma roundHalfEven_tie:
  "roundHalfEven (of_int n + 1 / 2) = (if even n then n else n + 1)"
proof -
  have "\<lfloor>of_int n + 1 / 2 :: real\<rfloor> = n" by (intro floor_unique) auto
  then show ?thesis by (simp add: roundHalfEven_def Let_def)
qed

lemma quantum_eval:
  assumes "2 powr of_int e \<le> \<bar>v\<bar>" "\<bar>v\<bar> < 2 powr of_int (e + 1)" "- 1022 \<le> e"
  shows "quantum v = 2 powr of_int (e - 52)"
proof -
  have "0 < \<bar>v\<bar>" using assms(1) by (smt (verit) powr_gt_zero)
  then have "\<lfloor>log 2 \<bar>v\<bar>\<rfloor> = e"
    using assms(1,2) by (simp add: floor_log_eq_powr_iff)
  then show ?thesis using assms(3) by (simp add: quantum_def)
qed

lemma fl_eval:
  assumes "2 powr of_int e \<le> \<bar>v\<bar>" "\<bar>v\<bar> < 2 powr of_int (e + 1)" "- 1022 \<le> e"
    and "roundHalfEven (v / 2 powr of_int (e - 52)) = n"
  shows "fl v = of_int n * 2 powr of_int (e - 52)"
proof -
  have "v \<noteq> 0" using assms(1) by (smt (verit) powr_gt_zero)
  then show ?thesis
    using assms(4) by (simp add: fl_def quantum_eval [OF assms(1-3)])
qed

lemma fl_0: "fl 0 = 0" by (simp add: fl_def)

text \<open>Evaluation between \<open>1 / 2 ^ k\<close> and \<open>2 / 2 ^ k\<close>, with ordinary powers.\<close>

lemma fl_eval_neg:
  assumes "1 / 2 ^ k \<le> \<bar>v\<bar>" "\<bar>v\<bar> < 2 / 2 ^ k" "k \<le> 1022"
    and "roundHalfEven (v * 2 ^ (k + 52)) = n"
  shows "fl v = of_int n / 2 ^ (k + 52)"
proof -
  have p: "2 powr of_int (- int k) = (1 / 2 ^ k :: real)"
    by (simp add: powr_minus powr_realpow inverse_eq_divide)
  have q: "2 powr of_int (- int k + 1) = (2 / 2 ^ k :: real)"
    by (simp add: powr_diff powr_realpow)
  have r: "2 powr of_int (- int k - 52) = (1 / 2 ^ (k + 52) :: real)"
  proof -
    have "- int k - 52 = - int (k + 52)" by simp
    then have "2 powr of_int (- int k - 52) = (2::real) powr (- real (k + 52))"
      by (simp only: of_int_minus of_int_of_nat_eq)
    then show ?thesis by (simp only: powr_minus powr_realpow zero_less_numeral inverse_eq_divide)
  qed
  show ?thesis
    using fl_eval [of "- int k" v n] assms unfolding p q r by simp
qed

lemma fl_of_int_neg:
  assumes "2 ^ 52 \<le> \<bar>n\<bar>" "\<bar>n\<bar> < 2 ^ 53" "k \<le> 1022"
  shows "fl (of_int n / 2 ^ (k + 52)) = of_int n / 2 ^ (k + 52)"
proof (rule fl_eval_neg)
  have a: "\<bar>of_int n / 2 ^ (k + 52) :: real\<bar> = of_int \<bar>n\<bar> / 2 ^ (k + 52)"
    by (simp add: abs_divide)
  have "(2 ^ 52 :: real) \<le> of_int \<bar>n\<bar>" using assms(1) by (metis of_int_le_iff of_int_numeral of_int_power)
  then show "1 / 2 ^ k \<le> \<bar>of_int n / 2 ^ (k + 52) :: real\<bar>"
    unfolding a by (simp add: power_add field_simps)
  have "of_int \<bar>n\<bar> < (2 ^ 53 :: real)" using assms(2) by (metis of_int_less_iff of_int_numeral of_int_power)
  then show "\<bar>of_int n / 2 ^ (k + 52) :: real\<bar> < 2 / 2 ^ k"
    unfolding a by (simp add: power_add field_simps)
  show "k \<le> 1022" by fact
  show "roundHalfEven (of_int n / 2 ^ (k + 52) * 2 ^ (k + 52)) = n"
    by (simp add: roundHalfEven_of_int)
qed

lemma fl_1: "fl 1 = 1"
  using fl_of_int_neg [of "2 ^ 52" 0] by simp

text \<open>Rounding is odd, and a double is rounded to itself.\<close>

lemma roundHalfEven_bounds: "\<lfloor>v\<rfloor> \<le> roundHalfEven v" "roundHalfEven v \<le> \<lceil>v\<rceil>"
proof -
  show "\<lfloor>v\<rfloor> \<le> roundHalfEven v" by (simp add: roundHalfEven_def Let_def)
  have "\<lfloor>v\<rfloor> + 1 \<le> \<lceil>v\<rceil>" if "v \<noteq> of_int \<lfloor>v\<rfloor>"
    using that by (metis ceiling_altdef order_refl)
  moreover have "v - of_int \<lfloor>v\<rfloor> = 0" if "v = of_int \<lfloor>v\<rfloor>" using that by simp
  ultimately show "roundHalfEven v \<le> \<lceil>v\<rceil>"
    by (cases "v = of_int \<lfloor>v\<rfloor>") (auto simp: roundHalfEven_def Let_def ceiling_altdef)
qed

lemma roundHalfEven_minus: "roundHalfEven (- v) = - roundHalfEven v"
proof (cases "v = of_int \<lfloor>v\<rfloor>")
  case True
  then obtain k where "v = of_int k" ..
  then show ?thesis by (simp add: roundHalfEven_of_int flip: of_int_minus)
next
  case False
  define f where "f = \<lfloor>v\<rfloor>"
  define d where "d = v - of_int f"
  have d: "0 < d" "d < 1" using False unfolding d_def f_def by linarith+
  have v: "v = of_int f + d" by (simp add: d_def)
  have fm: "\<lfloor>- v\<rfloor> = - f - 1" unfolding v using d by (intro floor_unique) auto
  have dm: "- v - of_int (- f - 1) = 1 - d" by (simp add: v)
  have fv: "\<lfloor>v\<rfloor> = f" by (simp add: f_def)
  have dv: "v - of_int f = d" by (simp add: d_def)
  show ?thesis
    unfolding roundHalfEven_def Let_def fm dm fv dv using d by auto
qed

lemma quantum_minus: "quantum (- v) = quantum v"
  by (simp add: quantum_def)

lemma fl_minus: "fl (- v) = - fl v"
  by (simp add: fl_def quantum_minus roundHalfEven_minus)

lemma two_powr_split: "2 powr of_int e = 2 ^ 52 * (2 powr of_int (e - 52) :: real)"
proof -
  have "of_int e = 52 + (of_int (e - 52) :: real)" by simp
  then have "(2::real) powr of_int e = 2 powr 52 * 2 powr of_int (e - 52)"
    by (simp only: powr_add)
  then show ?thesis by simp
qed

lemma two_powr_split': "2 powr of_int (e + 1) = 2 ^ 53 * (2 powr of_int (e - 52) :: real)"
proof -
  have "of_int (e + 1) = 53 + (of_int (e - 52) :: real)" by simp
  then have "(2::real) powr of_int (e + 1) = 2 powr 53 * 2 powr of_int (e - 52)"
    by (simp only: powr_add)
  then show ?thesis by simp
qed

text \<open>A multiple of the quantum with a significand of at most 53 bits is a double.\<close>

lemma fl_repr:
  assumes e: "- 1022 \<le> e" and n0: "n \<noteq> 0"
    and n: "(2 ^ 52 \<le> \<bar>n\<bar> \<and> \<bar>n\<bar> < 2 ^ 53) \<or> (e = - 1022 \<and> \<bar>n\<bar> \<le> 2 ^ 52)"
  shows "fl (of_int n * 2 powr of_int (e - 52)) = of_int n * 2 powr of_int (e - 52)"
proof -
  define q :: real where "q = 2 powr of_int (e - 52)"
  define w where "w = of_int n * q"
  have q0: "0 < q" by (simp add: q_def)
  have w0: "w \<noteq> 0" using n0 q0 by (simp add: w_def)
  have aw: "\<bar>w\<bar> = of_int \<bar>n\<bar> * q" using q0 by (simp add: w_def abs_mult)
  have up: "\<bar>w\<bar> < 2 powr of_int (e + 1)"
  proof -
    have "\<bar>n\<bar> < 2 ^ 53" using n by auto
    then have "of_int \<bar>n\<bar> < (2 ^ 53 :: real)" by (metis of_int_less_iff of_int_numeral of_int_power)
    then show ?thesis unfolding aw two_powr_split' q_def using q0 [unfolded q_def] by simp
  qed
  have fl: "\<lfloor>log 2 \<bar>w\<bar>\<rfloor> < e + 1"
  proof -
    have "log 2 \<bar>w\<bar> < of_int (e + 1)"
      using up w0 by (simp add: log_less_iff del: of_int_add)
    then show ?thesis by (simp only: floor_less_iff)
  qed
  have "max \<lfloor>log 2 \<bar>w\<bar>\<rfloor> (- 1022) = e"
    using n
  proof
    assume a: "2 ^ 52 \<le> \<bar>n\<bar> \<and> \<bar>n\<bar> < 2 ^ 53"
    then have "(2 ^ 52 :: real) \<le> of_int \<bar>n\<bar>" by (metis of_int_le_iff of_int_numeral of_int_power)
    then have "2 powr of_int e \<le> \<bar>w\<bar>"
      unfolding aw two_powr_split [of e] q_def using q0 [unfolded q_def] by simp
    then have "of_int e \<le> log 2 \<bar>w\<bar>"
      using w0 by (simp add: le_log_iff)
    then have "e \<le> \<lfloor>log 2 \<bar>w\<bar>\<rfloor>" by (simp add: le_floor_iff)
    with fl e show ?thesis by simp
  next
    assume "e = - 1022 \<and> \<bar>n\<bar> \<le> 2 ^ 52"
    with fl show ?thesis by simp
  qed
  then have "quantum w = q" by (simp add: quantum_def q_def)
  then have "fl w = w"
    using w0 q0 by (simp add: fl_def w_def roundHalfEven_of_int)
  then show ?thesis by (simp add: w_def q_def)
qed

lemma roundHalfEven_abs_le:
  assumes "\<bar>a\<bar> \<le> of_int m"
  shows "\<bar>roundHalfEven a\<bar> \<le> m"
proof -
  have "roundHalfEven a \<le> \<lceil>a\<rceil>" by (rule roundHalfEven_bounds)
  also have "\<lceil>a\<rceil> \<le> m" using assms by (simp add: ceiling_le_iff)
  finally have 1: "roundHalfEven a \<le> m" .
  have "- m \<le> \<lfloor>a\<rfloor>" using assms by (simp add: le_floor_iff)
  also have "\<lfloor>a\<rfloor> \<le> roundHalfEven a" by (rule roundHalfEven_bounds)
  finally show ?thesis using 1 by simp
qed

lemma roundHalfEven_abs_ge:
  assumes "of_int m \<le> \<bar>a\<bar>" "0 \<le> m"
  shows "m \<le> \<bar>roundHalfEven a\<bar>"
proof (cases "0 \<le> a")
  case True
  then have "m \<le> \<lfloor>a\<rfloor>" using assms by (simp add: le_floor_iff)
  also have "\<lfloor>a\<rfloor> \<le> roundHalfEven a" by (rule roundHalfEven_bounds)
  finally show ?thesis by simp
next
  case False
  then have "\<lceil>a\<rceil> \<le> - m" using assms by (simp add: ceiling_le_iff)
  moreover have "roundHalfEven a \<le> \<lceil>a\<rceil>" by (rule roundHalfEven_bounds)
  ultimately show ?thesis by simp
qed

lemma fl_idem: "fl (fl v) = fl v"
proof (cases "v = 0")
  case True
  then show ?thesis by (simp add: fl_def)
next
  case v0: False
  define l where "l = \<lfloor>log 2 \<bar>v\<bar>\<rfloor>"
  define e where "e = max l (- 1022)"
  define q :: real where "q = 2 powr of_int (e - 52)"
  define a where "a = v / q"
  define n where "n = roundHalfEven a"
  have q0: "0 < q" by (simp add: q_def)
  have e: "- 1022 \<le> e" "l \<le> e" by (simp_all add: e_def)
  have flv: "fl v = of_int n * q"
    using v0 by (simp add: fl_def quantum_def n_def a_def q_def e_def l_def)
  have av: "\<bar>a\<bar> = \<bar>v\<bar> / q" using q0 by (simp add: a_def)
  have "log 2 \<bar>v\<bar> < of_int (l + 1)" unfolding l_def by linarith
  then have "\<bar>v\<bar> < 2 powr of_int (l + 1)"
    using v0 by (simp add: log_less_iff del: of_int_add)
  also have "\<dots> \<le> 2 powr of_int (e + 1)"
    using e(2) by (simp del: of_int_add)
  finally have vu: "\<bar>v\<bar> < 2 powr of_int (e + 1)" .
  then have "\<bar>a\<bar> < 2 ^ 53"
    unfolding av two_powr_split' q_def [symmetric] using q0 by (simp add: field_simps)
  then have "\<bar>a\<bar> \<le> of_int (2 ^ 53)" by simp
  then have nu: "\<bar>n\<bar> \<le> 2 ^ 53" unfolding n_def by (rule roundHalfEven_abs_le)
  show ?thesis
  proof (cases "n = 0")
    case True
    then have z: "fl v = 0" by (simp add: flv)
    show ?thesis unfolding z by (simp add: fl_def)
  next
    case n0: False
    show ?thesis
    proof (cases "- 1022 \<le> l")
      case True
      then have el: "e = l" by (simp add: e_def)
      have "of_int l \<le> log 2 \<bar>v\<bar>" unfolding l_def by simp
      then have "2 powr of_int e \<le> \<bar>v\<bar>"
        using v0 by (simp add: el le_log_iff)
      then have "2 ^ 52 \<le> \<bar>a\<bar>"
        unfolding av two_powr_split [of e] q_def [symmetric] using q0 by (simp add: field_simps)
      then have "of_int (2 ^ 52) \<le> \<bar>a\<bar>" by simp
      then have nl: "2 ^ 52 \<le> \<bar>n\<bar>" unfolding n_def by (rule roundHalfEven_abs_ge) simp
      show ?thesis
      proof (cases "\<bar>n\<bar> < 2 ^ 53")
        case True
        with nl show ?thesis
          unfolding flv q_def using fl_repr [OF e(1) n0] by simp
      next
        case False
        with nu have n53: "\<bar>n\<bar> = 2 ^ 53" by simp
        define h where "h = n div 2"
        from n53 have "n = 2 ^ 53 \<or> n = - (2 ^ 53)" by (simp add: abs_if split: if_splits)
        then have nh: "n = 2 * h" unfolding h_def by (elim disjE) simp_all
        have h: "\<bar>h\<bar> = 2 ^ 52" using n53 unfolding nh by (simp add: abs_mult)
        have "(2::real) powr of_int (e + 1 - 52) = 2 * 2 powr of_int (e - 52)"
        proof -
          have "of_int (e + 1 - 52) = 1 + (of_int (e - 52) :: real)" by simp
          then show ?thesis by (simp only: powr_add) simp
        qed
        then have w: "of_int n * q = of_int h * 2 powr of_int (e + 1 - 52)"
          by (simp add: nh q_def)
        have "h \<noteq> 0" using h by auto
        moreover have "- 1022 \<le> e + 1" using e(1) by simp
        ultimately have "fl (of_int h * 2 powr of_int (e + 1 - 52)) = of_int h * 2 powr of_int (e + 1 - 52)"
          using h by (intro fl_repr) simp_all
        then show ?thesis by (simp only: flv w)
      qed
    next
      case False
      then have el: "e = - 1022" "l + 1 \<le> e" by (simp_all add: e_def)
      have "log 2 \<bar>v\<bar> < of_int (l + 1)" unfolding l_def by linarith
      then have "\<bar>v\<bar> < 2 powr of_int (l + 1)"
        using v0 by (simp add: log_less_iff del: of_int_add)
      also have "\<dots> \<le> 2 powr of_int e"
        using el(2) by (simp del: of_int_add)
      finally have "\<bar>a\<bar> < 2 ^ 52"
        unfolding av two_powr_split [of e] q_def [symmetric] using q0 by (simp add: field_simps)
      then have "\<bar>a\<bar> \<le> of_int (2 ^ 52)" by simp
      then have "\<bar>n\<bar> \<le> 2 ^ 52" unfolding n_def by (rule roundHalfEven_abs_le)
      then show ?thesis
        unfolding flv q_def using fl_repr [OF e(1) n0] el(1) by simp
    qed
  qed
qed

lemma fl_ops_0_1:
  "mul_fl a 0 = 0" "mul_fl 0 a = 0" "mul_fl 1 1 = 1" "add_fl 0 0 = 0" "sub_fl 0 0 = 0"
  "add_fl 0 1 = 1" "add_fl 1 0 = 1" "sub_fl 1 1 = 0"
  by (simp_all add: mul_fl_def add_fl_def sub_fl_def fl_0 fl_1)

lemma fl_ops_1:
  "mul_fl a 1 = fl a" "mul_fl 1 a = fl a" "add_fl 0 a = fl a" "add_fl a 0 = fl a"
  by (simp_all add: mul_fl_def add_fl_def)


section \<open>Double arithmetic: the values of the counterexamples\<close>

text \<open>
  Partial sums of the series of \<open>cos\<close> and \<open>sin\<close> with their remainders locate \<open>cos 2.5\<close>,
  \<open>sin 1.5\<close> and \<open>cos 1.5\<close> between two neighbouring midpoints of doubles.
\<close>

lemma Maclaurin_cos_bound:
  "\<bar>cos a - (\<Sum>m<n. cos_coeff m * a ^ m)\<bar> \<le> inverse (fact n) * \<bar>a\<bar> ^ n"
proof -
  obtain t where t: "cos a = (\<Sum>m<n. cos_coeff m * a ^ m) + (cos (t + 1 / 2 * real n * pi) / fact n) * a ^ n"
    using Maclaurin_cos_expansion [of a n] by blast
  define k where "k = cos (t + 1 / 2 * real n * pi)"
  have k: "\<bar>k\<bar> \<le> 1" unfolding k_def by (rule abs_cos_le_one)
  from t have "cos a - (\<Sum>m<n. cos_coeff m * a ^ m) = k * (inverse (fact n) * a ^ n)"
    unfolding k_def by (simp only: divide_inverse)
  then have "\<bar>cos a - (\<Sum>m<n. cos_coeff m * a ^ m)\<bar> = \<bar>k\<bar> * (inverse (fact n) * \<bar>a\<bar> ^ n)"
    by (simp only: abs_mult power_abs abs_inverse) simp
  also have "\<dots> \<le> 1 * (inverse (fact n) * \<bar>a\<bar> ^ n)"
    using k by (intro mult_right_mono) auto
  finally show ?thesis by simp
qed

lemma sum_lessThan_30:
  fixes f :: "nat \<Rightarrow> real"
  shows "(\<Sum>m<30. f m) = f 0 + f 1 + f 2 + f 3 + f 4 + f 5 + f 6 + f 7 + f 8 + f 9 + f 10 + f 11
     + f 12 + f 13 + f 14 + f 15 + f 16 + f 17 + f 18 + f 19 + f 20 + f 21 + f 22 + f 23 + f 24
     + f 25 + f 26 + f 27 + f 28 + f 29"
  by (simp add: eval_nat_numeral)

lemma sum_lessThan_12:
  fixes f :: "nat \<Rightarrow> real"
  shows "(\<Sum>m<12. f m) = f 0 + f 1 + f 2 + f 3 + f 4 + f 5 + f 6 + f 7 + f 8 + f 9 + f 10 + f 11"
  by (simp add: eval_nat_numeral)

lemma sum_lessThan_26:
  fixes f :: "nat \<Rightarrow> real"
  shows "(\<Sum>m<26. f m) = f 0 + f 1 + f 2 + f 3 + f 4 + f 5 + f 6 + f 7 + f 8 + f 9 + f 10 + f 11 + f 12 + f 13 + f 14 + f 15 + f 16 + f 17 + f 18 + f 19 + f 20 + f 21 + f 22 + f 23 + f 24 + f 25"
  by (simp add: eval_nat_numeral)

lemma cos_5_2_sum: "(\<Sum>m<30. cos_coeff m * (5 / 2 :: real) ^ m) = - (4196343692687950961840936381506439 / 5237941876155555397455463355252736)"
  by (simp add: sum_lessThan_30 cos_coeff_def fact_numeral power_divide)

lemma sin_3_2_sum: "(\<Sum>m<26. sin_coeff m * (3 / 2 :: real) ^ m) = 8792122791388102940034968907 / 8814202486691842752512000000"
  by (simp add: sum_lessThan_26 sin_coeff_def fact_numeral power_divide)

lemma cos_3_2_sum: "(\<Sum>m<26. cos_coeff m * (3 / 2 :: real) ^ m) = 12469840376821787126327257 / 176284049733836855050240000"
  by (simp add: sum_lessThan_26 cos_coeff_def fact_numeral power_divide)

lemma cos_31_20_sum: "(\<Sum>m<12. cos_coeff m * (31 / 20 :: real) ^ m) = 772698453502495199 / 37158912000000000000"
  by (simp add: sum_lessThan_12 cos_coeff_def fact_numeral power_divide)

lemma cos_5_2_bound: "\<bar>cos (5 / 2 :: real) - (\<Sum>m<30. cos_coeff m * (5 / 2) ^ m)\<bar> \<le> 11920928955078125 / 3645607545804266556629002495255904256"
  using Maclaurin_cos_bound [of "5 / 2" 30] by (simp add: fact_numeral power_divide)

lemma sin_3_2_bound: "\<bar>sin (3 / 2 :: real) - (\<Sum>m<26. sin_coeff m * (3 / 2) ^ m)\<bar> \<le> 43046721 / 458338529307975823130624000000"
  using Maclaurin_sin_bound [of "3 / 2" 26] by (simp add: fact_numeral power_divide)

lemma cos_3_2_bound: "\<bar>cos (3 / 2 :: real) - (\<Sum>m<26. cos_coeff m * (3 / 2) ^ m)\<bar> \<le> 43046721 / 458338529307975823130624000000"
  using Maclaurin_cos_bound [of "3 / 2" 26] by (simp add: fact_numeral power_divide)

lemma cos_31_20_bound: "\<bar>cos (31 / 20 :: real) - (\<Sum>m<12. cos_coeff m * (31 / 20) ^ m)\<bar> \<le> 787662783788549761 / 1961990553600000000000000"
  using Maclaurin_cos_bound [of "31 / 20" 12] by (simp add: fact_numeral power_divide)

lemma cos_31_20_pos: "0 < cos (31 / 20 :: real)"
  using cos_31_20_bound unfolding cos_31_20_sum by linarith

lemma cos_5_2_near: "\<bar>cos (5 / 2 :: real) * 2 ^ 53 - of_int (- 7216060176894845)\<bar> < 1 / 2"
proof -
  have "\<bar>cos (5 / 2 :: real) * 9007199254740992 - (- 7216060176894845)\<bar> < 1 / 2"
    using cos_5_2_bound unfolding cos_5_2_sum by linarith
  then show ?thesis by simp
qed

lemma sin_3_2_near: "\<bar>sin (3 / 2 :: real) * 2 ^ 53 - of_int 8984636099947915\<bar> < 1 / 2"
proof -
  have "\<bar>sin (3 / 2 :: real) * 9007199254740992 - 8984636099947915\<bar> < 1 / 2"
    using sin_3_2_bound unfolding sin_3_2_sum by linarith
  then show ?thesis by simp
qed

lemma cos_3_2_near: "\<bar>cos (3 / 2 :: real) * 2 ^ 56 - of_int 5097152561150375\<bar> < 1 / 2"
proof -
  have "\<bar>cos (3 / 2 :: real) * 72057594037927936 - 5097152561150375\<bar> < 1 / 2"
    using cos_3_2_bound unfolding cos_3_2_sum by linarith
  then show ?thesis by simp
qed

text \<open>The doubles nearest to \<open>cos 2.5\<close>, \<open>sin 1.5\<close> and \<open>cos 1.5\<close>.\<close>

lemma fl_cos_5_2: "fl (cos (5 / 2)) = - (7216060176894845 / 2 ^ 53)"
proof -
  have r: "roundHalfEven (cos (5 / 2) * 2 ^ (1 + 52)) = - 7216060176894845"
    using cos_5_2_near by (intro roundHalfEven_near) simp
  have "\<bar>cos (5 / 2 :: real) * 9007199254740992 - (- 7216060176894845)\<bar> < 1 / 2"
    using cos_5_2_near by simp
  then have "1 / 2 ^ 1 \<le> \<bar>cos (5 / 2 :: real)\<bar>" "\<bar>cos (5 / 2 :: real)\<bar> < 2 / 2 ^ 1"
    by (simp_all, linarith+)
  from fl_eval_neg [OF this _ r] show ?thesis by simp
qed

lemma fl_sin_3_2: "fl (sin (3 / 2)) = 8984636099947915 / 2 ^ 53"
proof -
  have r: "roundHalfEven (sin (3 / 2) * 2 ^ (1 + 52)) = 8984636099947915"
    using sin_3_2_near by (intro roundHalfEven_near) simp
  have "\<bar>sin (3 / 2 :: real) * 9007199254740992 - 8984636099947915\<bar> < 1 / 2"
    using sin_3_2_near by simp
  then have "1 / 2 ^ 1 \<le> \<bar>sin (3 / 2 :: real)\<bar>" "\<bar>sin (3 / 2 :: real)\<bar> < 2 / 2 ^ 1"
    by (simp_all, linarith+)
  from fl_eval_neg [OF this _ r] show ?thesis by simp
qed

lemma fl_cos_3_2: "fl (cos (3 / 2)) = 5097152561150375 / 2 ^ 56"
proof -
  have r: "roundHalfEven (cos (3 / 2) * 2 ^ (4 + 52)) = 5097152561150375"
    using cos_3_2_near by (intro roundHalfEven_near) simp
  have "\<bar>cos (3 / 2 :: real) * 72057594037927936 - 5097152561150375\<bar> < 1 / 2"
    using cos_3_2_near by simp
  then have "1 / 2 ^ 4 \<le> \<bar>cos (3 / 2 :: real)\<bar>" "\<bar>cos (3 / 2 :: real)\<bar> < 2 / 2 ^ 4"
    by (simp_all, linarith+)
  from fl_eval_neg [OF this _ r] show ?thesis by simp
qed

lemma pi_half_gt: "31 / 20 < pi / 2"
proof (rule ccontr)
  assume "\<not> 31 / 20 < pi / 2"
  then have "pi / 2 \<le> 31 / 20" by simp
  moreover have "(31 / 20 :: real) \<le> pi" using pi_ge_two by linarith
  moreover have "0 \<le> pi / 2" by simp
  ultimately have "cos (31 / 20) \<le> cos (pi / 2)"
    by (intro cos_monotone_0_pi_le) auto
  then show False using cos_31_20_pos by simp
qed

text \<open>\<open>sin\<close> just above \<open>3/2\<close>, against the double nearest to \<open>sin 1.5\<close>.\<close>

lemma sin_3_2_range:
  "sin (3 / 2 + 1 / 2 ^ 53) < (8984636099947915 / 2 ^ 53 :: real)"
  "(8984636099947915 / 2 ^ 53 :: real) < sin (3 / 2 + 3 / 2 ^ 53)"
proof -
  let ?a = "3 / 2 :: real"
  have sa: "\<bar>sin ?a - 8792122791388102940034968907 / 8814202486691842752512000000\<bar>
              \<le> 43046721 / 458338529307975823130624000000"
    using sin_3_2_bound unfolding sin_3_2_sum .
  have ca: "\<bar>cos ?a - 12469840376821787126327257 / 176284049733836855050240000\<bar>
              \<le> 43046721 / 458338529307975823130624000000"
    using cos_3_2_bound unfolding cos_3_2_sum .
  have sl: "8984636099947915 / 9007199254740992 - 146 / 10000000000000000000 \<le> sin ?a"
    using sa by linarith
  have cl: "70737 / 1000000 \<le> cos ?a" and cu: "cos ?a \<le> 70738 / 1000000"
    using ca by linarith+
  have sa0: "0 \<le> sin ?a" and ca0: "0 \<le> cos ?a" using sl cl by linarith+
  show "sin (?a + 1 / 2 ^ 53) < (8984636099947915 / 2 ^ 53 :: real)"
  proof -
    let ?d = "1 / 2 ^ 53 :: real"
    have "sin ?a * cos ?d \<le> sin ?a * 1"
      by (intro mult_left_mono sa0) simp
    moreover have "sin ?d \<le> ?d" by (intro sin_x_le_x) simp
    then have "cos ?a * sin ?d \<le> cos ?a * ?d"
      by (intro mult_left_mono ca0)
    moreover have "cos ?a * ?d \<le> (70738 / 1000000) * ?d"
      by (intro mult_right_mono cu) simp
    ultimately have "sin (?a + ?d) \<le> sin ?a + (70738 / 1000000) * ?d"
      unfolding sin_add by linarith
    then have "sin (?a + ?d) \<le> sin ?a + 70738 / 1000000 / 9007199254740992"
      by simp
    moreover have "sin ?a + 70738 / 1000000 / 9007199254740992 < 8984636099947915 / 9007199254740992"
      using sa by linarith
    ultimately show ?thesis by simp
  qed
  show "(8984636099947915 / 2 ^ 53 :: real) < sin (?a + 3 / 2 ^ 53)"
  proof -
    let ?e = "3 / 2 ^ 53 :: real"
    have "\<bar>cos ?e - (\<Sum>m<2. cos_coeff m * ?e ^ m)\<bar> \<le> inverse (fact 2) * \<bar>?e\<bar> ^ 2"
      by (rule Maclaurin_cos_bound)
    then have "\<bar>cos ?e - 1\<bar> \<le> 9 / 2 ^ 107"
      by (simp add: cos_coeff_def lessThan_Suc numeral_2_eq_2 power_divide)
    moreover have "(9 / 2 ^ 107 :: real) \<le> 1 / 2 ^ 100" by simp
    ultimately have ce: "1 - 1 / 2 ^ 100 \<le> cos ?e"
      by linarith
    have "\<bar>sin ?e - (\<Sum>m<3. sin_coeff m * ?e ^ m)\<bar> \<le> inverse (fact 3) * \<bar>?e\<bar> ^ 3"
      by (rule Maclaurin_sin_bound)
    then have "\<bar>sin ?e - ?e\<bar> \<le> 27 / 6 / 2 ^ 159"
      by (simp add: sin_coeff_def lessThan_Suc numeral_3_eq_3 power_divide fact_numeral)
    moreover have "(27 / 6 / 2 ^ 159 :: real) \<le> 1 / 2 ^ 150" by simp
    ultimately have se: "?e - 1 / 2 ^ 150 \<le> sin ?e"
      by linarith
    have e0: "0 \<le> ?e - 1 / 2 ^ 150" by simp
    have c0: "(0::real) \<le> 1 - 1 / 2 ^ 100" by simp
    have "(8984636099947915 / 9007199254740992 - 146 / 10000000000000000000) * (1 - 1 / 2 ^ 100) \<le> sin ?a * cos ?e"
      by (intro mult_mono sl ce c0 sa0)
    moreover have "(70737 / 1000000) * (?e - 1 / 2 ^ 150) \<le> cos ?a * sin ?e"
      by (intro mult_mono cl se e0 ca0)
    ultimately have "(8984636099947915 / 9007199254740992 - 146 / 10000000000000000000) * (1 - 1 / 2 ^ 100)
                     + (70737 / 1000000) * (?e - 1 / 2 ^ 150) \<le> sin (?a + ?e)"
      unfolding sin_add by linarith
    moreover have "(8984636099947915 / 2 ^ 53 :: real)
                   < (8984636099947915 / 9007199254740992 - 146 / 10000000000000000000) * (1 - 1 / 2 ^ 100)
                     + (70737 / 1000000) * (3 / 2 ^ 53 - 1 / 2 ^ 150)"
      by simp
    ultimately show ?thesis by linarith
  qed
qed

lemma arcsin_sin_3_2:
  "3 / 2 + 1 / 2 ^ 53 < arcsin (8984636099947915 / 2 ^ 53)"
  "arcsin (8984636099947915 / 2 ^ 53) < 3 / 2 + 3 / 2 ^ 53"
proof -
  let ?s = "8984636099947915 / 2 ^ 53 :: real"
  have s: "- 1 \<le> ?s" "?s \<le> 1" by simp_all
  have d: "(3 / 2 + 1 / 2 ^ 53 :: real) \<le> 31 / 20" "(3 / 2 + 3 / 2 ^ 53 :: real) \<le> 31 / 20"
    by simp_all
  have p: "(0::real) \<le> 1 / 2 ^ 53" "(0::real) \<le> 3 / 2 ^ 53" by simp_all
  have r1: "- (pi / 2) \<le> 3 / 2 + 1 / 2 ^ 53" "3 / 2 + 1 / 2 ^ 53 \<le> pi / 2"
    using pi_half_gt d(1) p(1) by linarith+
  have r3: "- (pi / 2) \<le> 3 / 2 + 3 / 2 ^ 53" "3 / 2 + 3 / 2 ^ 53 \<le> pi / 2"
    using pi_half_gt d(2) p(2) by linarith+
  have "arcsin (sin (3 / 2 + 1 / 2 ^ 53)) < arcsin ?s"
    by (intro arcsin_less_arcsin sin_3_2_range(1) s) simp
  then show "3 / 2 + 1 / 2 ^ 53 < arcsin ?s"
    by (simp only: arcsin_sin [OF r1])
  have "arcsin ?s < arcsin (sin (3 / 2 + 3 / 2 ^ 53))"
    by (intro arcsin_less_arcsin sin_3_2_range(2) s) simp
  then show "arcsin ?s < 3 / 2 + 3 / 2 ^ 53"
    by (simp only: arcsin_sin [OF r3])
qed

lemma fl_arcsin_sin_3_2:
  "fl (arcsin (8984636099947915 / 2 ^ 53)) = 6755399441055745 / 2 ^ 52"
proof -
  let ?v = "arcsin (8984636099947915 / 2 ^ 53) :: real"
  have lo: "3 / 2 + 1 / 9007199254740992 < ?v" and hi: "?v < 3 / 2 + 3 / 9007199254740992"
    using arcsin_sin_3_2 by simp_all
  have "\<bar>?v * 4503599627370496 - 6755399441055745\<bar> < 1 / 2"
    using lo hi by linarith
  then have r: "roundHalfEven (?v * 2 ^ (0 + 52)) = 6755399441055745"
    by (intro roundHalfEven_near) simp
  have "1 \<le> ?v" "?v < 2" using lo hi by linarith+
  then have "1 / 2 ^ 0 \<le> \<bar>?v\<bar>" "\<bar>?v\<bar> < 2 / 2 ^ 0" by simp_all
  from fl_eval_neg [OF this _ r] show ?thesis by simp
qed

text \<open>Doubles are fixed points of the rounding; the sums and differences met at angle 2.5.\<close>

lemma fl_double:
  "fl (8984636099947915 / 2 ^ 53) = 8984636099947915 / 2 ^ 53"
  "fl (5097152561150375 / 2 ^ 56) = 5097152561150375 / 2 ^ 56"
  "fl (8111629715817918 / 2 ^ 52) = 8111629715817918 / 2 ^ 52"
  "fl (9007199254740991 / 2 ^ 53) = 9007199254740991 / 2 ^ 53"
  using fl_of_int_neg [of 8984636099947915 1] fl_of_int_neg [of 5097152561150375 4]
        fl_of_int_neg [of 8111629715817918 0] fl_of_int_neg [of 9007199254740991 1]
  by simp_all

lemma fl_one_minus_cos_5_2:
  "fl (1 - - (7216060176894845 / 2 ^ 53)) = 8111629715817918 / 2 ^ 52"
proof -
  let ?v = "1 - - (7216060176894845 / 2 ^ 53) :: real"
  have v: "?v * 2 ^ (0 + 52) = of_int 8111629715817918 + 1 / 2" by simp
  have r: "roundHalfEven (?v * 2 ^ (0 + 52)) = 8111629715817918"
    unfolding v roundHalfEven_tie by simp
  have "1 / 2 ^ 0 \<le> \<bar>?v\<bar>" "\<bar>?v\<bar> < 2 / 2 ^ 0" by simp_all
  from fl_eval_neg [OF this _ r] show ?thesis by simp
qed

lemma fl_sum_5_2:
  "fl (8111629715817918 / 2 ^ 52 + - (7216060176894845 / 2 ^ 53)) = 9007199254740991 / 2 ^ 53"
proof -
  have "(8111629715817918 / 2 ^ 52 + - (7216060176894845 / 2 ^ 53) :: real)
          = 9007199254740991 / 2 ^ 53" by simp
  then show ?thesis by (simp only: fl_double)
qed


section \<open>Rotation matrices in double arithmetic: facts\<close>

lemma Math_fl_0: "Math_cos_fl 0 = 1" "Math_sin_fl 0 = 0"
  by (simp_all add: Math_cos_fl_def Math_sin_fl_def fl_0 fl_1)

lemma fromAxisAngle_fl_0:
  "fromAxisAngle_fl \<lparr>x = 0, y = 1, z = 0\<rparr> 0 = Inr \<lparr>Matrix3x3.data = [[1, 0, 0], [0, 1, 0], [0, 0, 1]]\<rparr>"
  "fromAxisAngle_fl \<lparr>x = 1, y = 0, z = 0\<rparr> 0 = Inr \<lparr>Matrix3x3.data = [[1, 0, 0], [0, 1, 0], [0, 0, 1]]\<rparr>"
  by (simp_all add: fromAxisAngle_fl_def Let_def Math_fl_0 fl_ops_0_1 Matrix3x3_new_3x3)

lemma Matrix3x3_mul_fl_3x3:
  "Matrix3x3_mul_fl \<lparr>Matrix3x3.data = [[a00, a01, a02], [a10, a11, a12], [a20, a21, a22]]\<rparr>
                    \<lparr>Matrix3x3.data = [[b00, b01, b02], [b10, b11, b12], [b20, b21, b22]]\<rparr> =
     Inr \<lparr>Matrix3x3.data =
           [[add_fl (add_fl (add_fl 0 (mul_fl a00 b00)) (mul_fl a01 b10)) (mul_fl a02 b20),
             add_fl (add_fl (add_fl 0 (mul_fl a00 b01)) (mul_fl a01 b11)) (mul_fl a02 b21),
             add_fl (add_fl (add_fl 0 (mul_fl a00 b02)) (mul_fl a01 b12)) (mul_fl a02 b22)],
            [add_fl (add_fl (add_fl 0 (mul_fl a10 b00)) (mul_fl a11 b10)) (mul_fl a12 b20),
             add_fl (add_fl (add_fl 0 (mul_fl a10 b01)) (mul_fl a11 b11)) (mul_fl a12 b21),
             add_fl (add_fl (add_fl 0 (mul_fl a10 b02)) (mul_fl a11 b12)) (mul_fl a12 b22)],
            [add_fl (add_fl (add_fl 0 (mul_fl a20 b00)) (mul_fl a21 b10)) (mul_fl a22 b20),
             add_fl (add_fl (add_fl 0 (mul_fl a20 b01)) (mul_fl a21 b11)) (mul_fl a22 b21),
             add_fl (add_fl (add_fl 0 (mul_fl a20 b02)) (mul_fl a21 b12)) (mul_fl a22 b22)]]\<rparr>"
  by (simp add: Matrix3x3_mul_fl_def upt_0_3 Matrix3x3_new_3x3)

text \<open>
  In double arithmetic too the product of the standard single-axis rotations is the matrix
  of \<open>fromEuler\<close>: the additional operations of the product multiply by 0 or 1 or add 0,
  which is exact, and the remaining ones are those of \<open>fromEuler\<close> in the same order.
\<close>

lemma fromEuler_ZYX_fl:
  "\<exists>Rzy M.
      Matrix3x3_mul_fl
        \<lparr>Matrix3x3.data = [[Math_cos_fl az, - Math_sin_fl az, 0],
                            [Math_sin_fl az, Math_cos_fl az, 0], [0, 0, 1]]\<rparr>
        \<lparr>Matrix3x3.data = [[Math_cos_fl ay, 0, Math_sin_fl ay], [0, 1, 0],
                            [- Math_sin_fl ay, 0, Math_cos_fl ay]]\<rparr> = Inr Rzy
    \<and> Matrix3x3_mul_fl Rzy
        \<lparr>Matrix3x3.data = [[1, 0, 0], [0, Math_cos_fl ax, - Math_sin_fl ax],
                            [0, Math_sin_fl ax, Math_cos_fl ax]]\<rparr> = Inr M
    \<and> fromEuler_fl ax ay az = Inr M"
proof -
  define cx sx cy sy cz sz where d: "cx = Math_cos_fl ax" "sx = Math_sin_fl ax"
    "cy = Math_cos_fl ay" "sy = Math_sin_fl ay" "cz = Math_cos_fl az" "sz = Math_sin_fl az"
  have f: "fl cx = cx" "fl sx = sx" "fl cy = cy" "fl sy = sy" "fl cz = cz" "fl sz = sz"
    by (simp_all add: d Math_cos_fl_def Math_sin_fl_def fl_idem)
  have zy: "Matrix3x3_mul_fl
              \<lparr>Matrix3x3.data = [[cz, - sz, 0], [sz, cz, 0], [0, 0, 1]]\<rparr>
              \<lparr>Matrix3x3.data = [[cy, 0, sy], [0, 1, 0], [- sy, 0, cy]]\<rparr>
            = Inr \<lparr>Matrix3x3.data =
                    [[mul_fl cz cy, - sz, mul_fl cz sy],
                     [mul_fl sz cy, cz, mul_fl sz sy],
                     [- sy, 0, cy]]\<rparr>"
    by (simp add: Matrix3x3_mul_fl_3x3 add_fl_def mul_fl_def fl_0 fl_1 fl_idem fl_minus f)
  have zyx: "Matrix3x3_mul_fl
               \<lparr>Matrix3x3.data =
                    [[mul_fl cz cy, - sz, mul_fl cz sy],
                     [mul_fl sz cy, cz, mul_fl sz sy],
                     [- sy, 0, cy]]\<rparr>
               \<lparr>Matrix3x3.data = [[1, 0, 0], [0, cx, - sx], [0, sx, cx]]\<rparr>
             = fromEuler_fl ax ay az"
    by (simp add: Matrix3x3_mul_fl_3x3 fromEuler_fl_def Let_def Matrix3x3_new_3x3 d [symmetric]
        add_fl_def sub_fl_def mul_fl_def fl_0 fl_1 fl_idem fl_minus f add.commute)
  obtain M where M: "fromEuler_fl ax ay az = Inr M"
    by (simp add: fromEuler_fl_def Let_def Matrix3x3_new_3x3)
  show ?thesis
    unfolding d [symmetric] using zy zyx M by (intro exI conjI) (simp_all only:)
qed

text \<open>
  Claim C5, as amended.  For all angles, \<open>fromEuler(x, y, z)\<close> is entry for entry the
  composition \<open>Rz(z) \<cdot> Ry(y) \<cdot> Rx(x)\<close> of the standard single-axis rotations
  \<open>Rz = [[cz, -sz, 0], [sz, cz, 0], [0, 0, 1]]\<close>, \<open>Ry = [[cy, 0, sy], [0, 1, 0], [-sy, 0, cy]]\<close>
  and \<open>Rx = [[1, 0, 0], [0, cx, -sx], [0, sx, cx]]\<close>, multiplied by \<open>mul\<close> in that order; this
  holds in exact arithmetic (first part) and in double arithmetic (second part).  In exact
  arithmetic the three rotations are what \<open>fromAxisAngle\<close> returns on the unit axes (third
  part).  In double arithmetic \<open>fromAxisAngle\<close> need not return exactly these matrices, and
  for the composition of its results the equality is left out.
\<close>

theorem fromEuler_is_ZYX:
  "(\<exists>Rzy M.
      Matrix3x3_mul
        \<lparr>Matrix3x3.data = [[cos az, - sin az, 0], [sin az, cos az, 0], [0, 0, 1]]\<rparr>
        \<lparr>Matrix3x3.data = [[cos ay, 0, sin ay], [0, 1, 0], [- sin ay, 0, cos ay]]\<rparr> = Inr Rzy
    \<and> Matrix3x3_mul Rzy
        \<lparr>Matrix3x3.data = [[1, 0, 0], [0, cos ax, - sin ax], [0, sin ax, cos ax]]\<rparr> = Inr M
    \<and> fromEuler ax ay az = Inr M)
   \<and> (\<exists>Rzy M.
      Matrix3x3_mul_fl
        \<lparr>Matrix3x3.data = [[Math_cos_fl az, - Math_sin_fl az, 0],
                            [Math_sin_fl az, Math_cos_fl az, 0], [0, 0, 1]]\<rparr>
        \<lparr>Matrix3x3.data = [[Math_cos_fl ay, 0, Math_sin_fl ay], [0, 1, 0],
                            [- Math_sin_fl ay, 0, Math_cos_fl ay]]\<rparr> = Inr Rzy
    \<and> Matrix3x3_mul_fl Rzy
        \<lparr>Matrix3x3.data = [[1, 0, 0], [0, Math_cos_fl ax, - Math_sin_fl ax],
                            [0, Math_sin_fl ax, Math_cos_fl ax]]\<rparr> = Inr M
    \<and> fromEuler_fl ax ay az = Inr M)
   \<and> fromAxisAngle \<lparr>x = 0, y = 0, z = 1\<rparr> az
         = Inr \<lparr>Matrix3x3.data = [[cos az, - sin az, 0], [sin az, cos az, 0], [0, 0, 1]]\<rparr>
   \<and> fromAxisAngle \<lparr>x = 0, y = 1, z = 0\<rparr> ay
         = Inr \<lparr>Matrix3x3.data = [[cos ay, 0, sin ay], [0, 1, 0], [- sin ay, 0, cos ay]]\<rparr>
   \<and> fromAxisAngle \<lparr>x = 1, y = 0, z = 0\<rparr> ax
         = Inr \<lparr>Matrix3x3.data = [[1, 0, 0], [0, cos ax, - sin ax], [0, sin ax, cos ax]]\<rparr>"
  by (intro conjI fromEuler_ZYX_exact fromEuler_ZYX_fl fromAxisAngle_unit_axes)

text \<open>
  Claim C5 as it is stated, with the composition built from \<open>fromAxisAngle\<close>, fails in
  double arithmetic at the angles \<open>(0, 0, 2.5)\<close>.  With \<open>c\<close> the double nearest to
  \<open>cos 2.5\<close>, \<open>fromAxisAngle((0, 0, 1), 2.5)\<close> computes its last entry as \<open>(1 - c) + c\<close>:
  the difference \<open>1 - c\<close> lies exactly between two doubles and is rounded to the even one,
  and the sum is \<open>1 - 2 ^ (- 53)\<close>, printed \<^verbatim>\<open>0.9999999999999999\<close>.  The two other factors
  are the identity, the products keep that entry, and the entry of \<open>fromEuler(0, 0, 2.5)\<close>
  is 1.
\<close>

theorem axis_angle_composition_counterexample:
  "\<exists>Rz Ry Rx Rzy M E.
       fromAxisAngle_fl \<lparr>x = 0, y = 0, z = 1\<rparr> (5 / 2) = Inr Rz
     \<and> fromAxisAngle_fl \<lparr>x = 0, y = 1, z = 0\<rparr> 0 = Inr Ry
     \<and> fromAxisAngle_fl \<lparr>x = 1, y = 0, z = 0\<rparr> 0 = Inr Rx
     \<and> Matrix3x3_mul_fl Rz Ry = Inr Rzy
     \<and> Matrix3x3_mul_fl Rzy Rx = Inr M
     \<and> fromEuler_fl 0 0 (5 / 2) = Inr E
     \<and> Matrix3x3.data M ! 2 ! 2 = 1 - 1 / 2 ^ 53
     \<and> Matrix3x3.data E ! 2 ! 2 = 1"
proof -
  define c :: real where "c = - (7216060176894845 / 2 ^ 53)"
  define t :: real where "t = 8111629715817918 / 2 ^ 52"
  define u :: real where "u = 9007199254740991 / 2 ^ 53"
  have c: "Math_cos_fl (5 / 2) = c"
    by (simp only: Math_cos_fl_def fl_cos_5_2 c_def)
  have t: "sub_fl 1 c = t"
    by (simp only: sub_fl_def c_def t_def fl_one_minus_cos_5_2)
  have ft: "fl t = t" and fu: "fl u = u"
    by (simp_all only: t_def u_def fl_double)
  have tc: "add_fl t c = u"
    unfolding add_fl_def t_def c_def u_def by (rule fl_sum_5_2)
  have rz: "\<exists>a b c' d e f. fromAxisAngle_fl \<lparr>x = 0, y = 0, z = 1\<rparr> (5 / 2)
              = Inr \<lparr>Matrix3x3.data = [[a, b, c'], [d, e, f], [0, 0, u]]\<rparr>"
    by (simp add: fromAxisAngle_fl_def Let_def Matrix3x3_new_3x3 c t fl_ops_0_1 fl_ops_1 ft tc
          fl_0 fl_1)
  then obtain a b c' d e f where rz: "fromAxisAngle_fl \<lparr>x = 0, y = 0, z = 1\<rparr> (5 / 2)
              = Inr \<lparr>Matrix3x3.data = [[a, b, c'], [d, e, f], [0, 0, u]]\<rparr>"
    by blast
  have m: "\<exists>a' b' c'' d' e' f'.
             Matrix3x3_mul_fl \<lparr>Matrix3x3.data = [[a, b, c'], [d, e, f], [0, 0, u]]\<rparr>
                              \<lparr>Matrix3x3.data = [[1, 0, 0], [0, 1, 0], [0, 0, 1]]\<rparr>
               = Inr \<lparr>Matrix3x3.data = [[a', b', c''], [d', e', f'], [0, 0, u]]\<rparr>" for a b c' d e f
    by (simp add: Matrix3x3_mul_fl_3x3 fl_ops_0_1 fl_ops_1 fl_0 fu)
  from m obtain a1 b1 c1 d1 e1 f1 where
    rzy: "Matrix3x3_mul_fl \<lparr>Matrix3x3.data = [[a, b, c'], [d, e, f], [0, 0, u]]\<rparr>
                           \<lparr>Matrix3x3.data = [[1, 0, 0], [0, 1, 0], [0, 0, 1]]\<rparr>
            = Inr \<lparr>Matrix3x3.data = [[a1, b1, c1], [d1, e1, f1], [0, 0, u]]\<rparr>"
    by blast
  from m obtain a2 b2 c2 d2 e2 f2 where
    rzyx: "Matrix3x3_mul_fl \<lparr>Matrix3x3.data = [[a1, b1, c1], [d1, e1, f1], [0, 0, u]]\<rparr>
                            \<lparr>Matrix3x3.data = [[1, 0, 0], [0, 1, 0], [0, 0, 1]]\<rparr>
            = Inr \<lparr>Matrix3x3.data = [[a2, b2, c2], [d2, e2, f2], [0, 0, u]]\<rparr>"
    by blast
  have e: "\<exists>a b c' d e f. fromEuler_fl 0 0 (5 / 2)
              = Inr \<lparr>Matrix3x3.data = [[a, b, c'], [d, e, f], [0, 0, 1]]\<rparr>"
    by (simp add: fromEuler_fl_def Let_def Matrix3x3_new_3x3 Math_fl_0 fl_ops_0_1)
  then obtain a3 b3 c3 d3 e3 f3 where e: "fromEuler_fl 0 0 (5 / 2)
              = Inr \<lparr>Matrix3x3.data = [[a3, b3, c3], [d3, e3, f3], [0, 0, 1]]\<rparr>"
    by blast
  have u: "u = 1 - 1 / 2 ^ 53" by (simp add: u_def)
  show ?thesis
    apply (rule exI [of _ "\<lparr>Matrix3x3.data = [[a, b, c'], [d, e, f], [0, 0, u]]\<rparr>"])
    apply (rule exI [of _ "\<lparr>Matrix3x3.data = [[1, 0, 0], [0, 1, 0], [0, 0, 1]]\<rparr>"])
    apply (rule exI [of _ "\<lparr>Matrix3x3.data = [[1, 0, 0], [0, 1, 0], [0, 0, 1]]\<rparr>"])
    apply (rule exI [of _ "\<lparr>Matrix3x3.data = [[a1, b1, c1], [d1, e1, f1], [0, 0, u]]\<rparr>"])
    apply (rule exI [of _ "\<lparr>Matrix3x3.data = [[a2, b2, c2], [d2, e2, f2], [0, 0, u]]\<rparr>"])
    apply (rule exI [of _ "\<lparr>Matrix3x3.data = [[a3, b3, c3], [d3, e3, f3], [0, 0, 1]]\<rparr>"])
    apply (simp only: rz fromAxisAngle_fl_0 rzy rzyx e Matrix3x3.select_convs)
    apply (simp add: u)
    done
qed

text \<open>
  Claim C6 as it is stated, with the result exactly \<open>(x, y, z)\<close>, fails in double arithmetic
  at the angles \<open>(0, 1.5, 0)\<close>, which lie in the domain.  The matrix holds \<open>s\<close>, the double
  nearest to \<open>sin 1.5\<close>, which is a little above \<open>sin 1.5\<close>; near \<open>\<pi>/2\<close> the arc sine is steep,
  \<open>arcsin s\<close> is more than half a quantum above \<open>1.5\<close>, and the double nearest to it is the
  next one, \<open>1.5 + 2 ^ (- 52)\<close>, printed \<^verbatim>\<open>1.5000000000000002\<close>.
\<close>

theorem toEuler_fromEuler_counterexample:
  "- pi < 0 \<and> 0 < pi \<and> - (pi / 2) < 3 / 2 \<and> 3 / 2 < pi / 2
   \<and> (\<exists>M. fromEuler_fl 0 (3 / 2) 0 = Inr M
          \<and> toEuler_fl M = Some \<lparr>x = 0, y = 3 / 2 + 1 / 2 ^ 52, z = 0\<rparr>)
   \<and> \<lparr>x = 0, y = 3 / 2 + 1 / 2 ^ 52, z = 0\<rparr> \<noteq> \<lparr>x = 0, y = 3 / 2, z = 0 :: real\<rparr>"
proof -
  define s :: real where "s = 8984636099947915 / 2 ^ 53"
  define c :: real where "c = 5097152561150375 / 2 ^ 56"
  have sy: "Math_sin_fl (3 / 2) = s" by (simp only: Math_sin_fl_def fl_sin_3_2 s_def)
  have cy: "Math_cos_fl (3 / 2) = c" by (simp only: Math_cos_fl_def fl_cos_3_2 c_def)
  have fs: "fl s = s" and fc: "fl c = c" by (simp_all only: s_def c_def fl_double)
  have s1: "- 1 \<le> s" "s \<le> 1" and c0: "0 < c" by (simp_all add: s_def c_def)
  have M: "fromEuler_fl 0 (3 / 2) 0
             = Inr \<lparr>Matrix3x3.data = [[c, 0, s], [0, 1, 0], [- s, 0, c]]\<rparr>"
    by (simp add: fromEuler_fl_def Let_def Matrix3x3_new_3x3 Math_fl_0 sy cy fl_ops_0_1 fl_ops_1
          fs fc fl_0 fl_1)
  have a: "Math_asin_fl s = Some (3 / 2 + 1 / 2 ^ 52)"
  proof -
    have "fl (arcsin s) = 6755399441055745 / 2 ^ 52"
      unfolding s_def by (rule fl_arcsin_sin_3_2)
    then show ?thesis using s1 by (simp add: Math_asin_fl_def)
  qed
  have z: "Math_atan2_fl 0 c = 0"
    using c0 by (simp add: Math_atan2_fl_def Math_atan2_def fl_0)
  have "toEuler_fl \<lparr>Matrix3x3.data = [[c, 0, s], [0, 1, 0], [- s, 0, c]]\<rparr>
          = Some \<lparr>x = 0, y = 3 / 2 + 1 / 2 ^ 52, z = 0\<rparr>"
    by (simp add: toEuler_fl_def a z)
  moreover have "- (pi / 2) < 3 / 2" "3 / 2 < pi / 2"
    using pi_half_gt by linarith+
  ultimately show ?thesis using M by simp
qed


section \<open>Force integrator: the loops in closed form\<close>

lemma magnitude_nonneg: "0 \<le> magnitude v"
  by (simp add: magnitude_def)

lemma Vec3_add_zero: "Vec3_add Vec3_zero (Vec v) = v"
  by (simp add: Vec3_zero_def)

lemma vsum_Nil: "vsum [] = Vec3_zero"
  by (simp add: vsum_def Vec3_zero_def)

lemma vsum_Cons: "vsum (v # vs) = Vec3_add v (Vec (vsum vs))"
  by (simp add: vsum_def)

lemma vsum_append: "vsum (vs @ ws) = Vec3_add (vsum vs) (Vec (vsum ws))"
  by (simp add: vsum_def)

lemma accelerate_attraction:
  "accelerate g p acc = Some (Vec3_add acc (Vec (attraction g p)))"
proof -
  let ?r = "Vec3_sub (Galaxy.pos g) (Vec p)"
  show ?thesis
  proof (cases "magnitude ?r = 0")
    case True
    then show ?thesis
      by (simp add: accelerate_def attraction_def Let_def Vec3_zero_def)
  next
    case False
    have s: "sqrt ((magnitude ?r)\<^sup>2) = magnitude ?r"
      using magnitude_nonneg [of ?r] by simp
    have c: "magnitude ?r * (magnitude ?r)\<^sup>2 = (magnitude ?r) ^ 3"
      by (simp add: power3_eq_cube power2_eq_square)
    have "accelerate g p acc
            = divide_number (G * Galaxy.mass g) (sqrt ((magnitude ?r)\<^sup>2) * (magnitude ?r)\<^sup>2)
                \<bind> (\<lambda>k. Some (Vec3_add acc (Vec (Vec3_mul ?r (Num k)))))"
      using False unfolding accelerate_def Let_def by simp
    also have "\<dots> = Some (Vec3_add acc (Vec (Vec3_mul ?r (Num (G * Galaxy.mass g / (magnitude ?r) ^ 3)))))"
      unfolding s c using False by (simp add: divide_number_def)
    also have "\<dots> = Some (Vec3_add acc (Vec (attraction g p)))"
      using False unfolding attraction_def Let_def by simp
    finally show ?thesis .
  qed
qed

lemma starAcceleration_closed:
  "starAcceleration \<sigma> s gs acc
     = Some (Vec3_add acc (Vec (vsum (map (\<lambda>g. attraction (galaxyAt \<sigma> g) (Star.pos (starAt \<sigma> s))) gs))))"
proof (induction gs arbitrary: acc)
  case Nil
  show ?case by (simp add: vsum_Nil Vec3_zero_def)
next
  case (Cons g gs)
  show ?case
    by (simp add: accelerate_attraction Cons.IH vsum_Cons del: Vec3_add.simps)
       (simp add: add.assoc)
qed

lemma galaxyAcceleration_closed:
  "galaxyAcceleration \<sigma> g gs acc
     = Some (Vec3_add acc
               (Vec (vsum (map (\<lambda>g'. attraction (galaxyAt \<sigma> g') (Galaxy.pos (galaxyAt \<sigma> g)))
                               (filter (\<lambda>g'. g' \<noteq> g) gs)))))"
proof (induction gs arbitrary: acc)
  case Nil
  show ?case by (simp add: vsum_Nil Vec3_zero_def)
next
  case (Cons g' gs)
  show ?case
  proof (cases "g = g'")
    case True
    have "galaxyAcceleration \<sigma> g (g' # gs) acc = galaxyAcceleration \<sigma> g gs acc"
      using True by simp
    moreover have "filter (\<lambda>g'. g' \<noteq> g) (g' # gs) = filter (\<lambda>g'. g' \<noteq> g) gs"
      using True by simp
    ultimately show ?thesis using Cons.IH [of acc] by (simp only:)
  next
    case False
    then have "g' \<noteq> g" by simp
    with False show ?thesis
      by (simp add: accelerate_attraction Cons.IH vsum_Cons del: Vec3_add.simps)
         (simp add: add.assoc)
  qed
qed

lemma updateStar_closed: "updateStar gs s g i \<sigma> = Some (starStep gs s \<sigma>)"
  by (simp add: updateStar_def starAcceleration_closed starStep_def starForce_def Vec3_add_zero
        setStar_def starAfter_def Let_def del: Vec3_add.simps Vec3_mul.simps)


lemma galaxyAt_setStar: "galaxyAt (setStar s f \<sigma>) = galaxyAt \<sigma>"
  and nextGalaxy_setStar: "nextGalaxy (setStar s f \<sigma>) = nextGalaxy \<sigma>"
  and nextStar_setStar: "nextStar (setStar s f \<sigma>) = nextStar \<sigma>"
  and starAt_setStar: "starAt (setStar s f \<sigma>) = (starAt \<sigma>)(s := f (starAt \<sigma> s))"
  by (simp_all add: setStar_def)

lemma starAt_setGalaxy: "starAt (setGalaxy g f \<sigma>) = starAt \<sigma>"
  and nextGalaxy_setGalaxy: "nextGalaxy (setGalaxy g f \<sigma>) = nextGalaxy \<sigma>"
  and nextStar_setGalaxy: "nextStar (setGalaxy g f \<sigma>) = nextStar \<sigma>"
  and galaxyAt_setGalaxy: "galaxyAt (setGalaxy g f \<sigma>) = (galaxyAt \<sigma>)(g := f (galaxyAt \<sigma> g))"
  by (simp_all add: setGalaxy_def)

lemma galaxyAt_starStep: "galaxyAt (starStep gs s \<sigma>) = galaxyAt \<sigma>"
  by (simp add: starStep_def galaxyAt_setStar)

lemma galaxyAt_fold_starStep: "galaxyAt (fold (starStep gs) rs \<sigma>) = galaxyAt \<sigma>"
  by (induction rs arbitrary: \<sigma>) (simp_all add: galaxyAt_starStep)

lemma allStars_loop_closed:
  "allStars_loop (updateStar gs) g i \<sigma>
     = Some (fold (starStep gs) (drop i (stars (galaxyAt \<sigma> g))) \<sigma>)"
proof (induction "length (stars (galaxyAt \<sigma> g)) - i" arbitrary: i \<sigma>)
  case 0
  then show ?case
    by (subst allStars_loop.simps) simp
next
  case (Suc n)
  then have i: "i < length (stars (galaxyAt \<sigma> g))" by simp
  let ?\<sigma>' = "starStep gs (stars (galaxyAt \<sigma> g) ! i) \<sigma>"
  have g: "galaxyAt ?\<sigma>' = galaxyAt \<sigma>" by (rule galaxyAt_starStep)
  have n: "n = length (stars (galaxyAt ?\<sigma>' g)) - Suc i"
    using Suc.hyps(2) by (simp add: g)
  have "allStars_loop (updateStar gs) g i \<sigma> = allStars_loop (updateStar gs) g (Suc i) ?\<sigma>'"
    using i by (subst allStars_loop.simps) (simp add: updateStar_closed)
  also have "\<dots> = Some (fold (starStep gs) (drop (Suc i) (stars (galaxyAt ?\<sigma>' g))) ?\<sigma>')"
    by (rule Suc.hyps(1) [OF n])
  also have "\<dots> = Some (fold (starStep gs) (drop i (stars (galaxyAt \<sigma> g))) \<sigma>)"
    using i by (simp add: g Cons_nth_drop_Suc [symmetric])
  finally show ?case .
qed

lemma allStarRefs_Nil: "allStarRefs \<sigma> [] = []"
  and allStarRefs_Cons: "allStarRefs \<sigma> (g # gs) = stars (galaxyAt \<sigma> g) @ allStarRefs \<sigma> gs"
  by (simp_all add: allStarRefs_def)

lemma allStarRefs_cong: "galaxyAt \<sigma>' = galaxyAt \<sigma> \<Longrightarrow> allStarRefs \<sigma>' gs = allStarRefs \<sigma> gs"
  by (simp add: allStarRefs_def)

lemma allStars_closed:
  "allStars gs' (updateStar gs) \<sigma> = Some (fold (starStep gs) (allStarRefs \<sigma> gs') \<sigma>)"
proof (induction gs' arbitrary: \<sigma>)
  case Nil
  show ?case by (simp add: allStarRefs_Nil)
next
  case (Cons g gs')
  show ?case
    by (simp add: allStars_loop_closed Cons.IH allStarRefs_Cons
          allStarRefs_cong [OF galaxyAt_fold_starStep])
qed

lemma updateVelocities_closed:
  "updateVelocities gs rest \<sigma> = Some (fold (velocityStep gs) rest \<sigma>)"
proof (induction rest arbitrary: \<sigma>)
  case Nil
  show ?case by simp
next
  case (Cons g rest)
  show ?case
    by (simp add: galaxyAcceleration_closed Cons.IH velocityStep_def galaxyForce_def
          Vec3_add_zero Let_def del: Vec3_add.simps Vec3_mul.simps)
qed

lemma updatePositions_closed: "updatePositions gs \<sigma> = fold positionStep gs \<sigma>"
  by (induction gs arbitrary: \<sigma>) (simp_all add: positionStep_def)

lemma updateGalaxies_closed:
  "updateGalaxies gs \<sigma>
     = Some (fold positionStep gs
              (fold (velocityStep gs) gs (fold (starStep gs) (allStarRefs \<sigma> gs) \<sigma>)))"
  by (simp add: updateGalaxies_def allStars_closed updateVelocities_closed updatePositions_closed)

text \<open>What the star phase changes and what it leaves alone.\<close>

lemma attraction_cong:
  "Galaxy.pos g = Galaxy.pos g' \<Longrightarrow> Galaxy.mass g = Galaxy.mass g' \<Longrightarrow> attraction g p = attraction g' p"
  by (simp add: attraction_def Let_def)

lemma starForce_cong:
  assumes "\<And>g. g \<in> set gs \<Longrightarrow> Galaxy.pos (galaxyAt \<sigma>' g) = Galaxy.pos (galaxyAt \<sigma> g)
                                \<and> Galaxy.mass (galaxyAt \<sigma>' g) = Galaxy.mass (galaxyAt \<sigma> g)"
    and "Star.pos (starAt \<sigma>' s) = Star.pos (starAt \<sigma> s)"
  shows "starForce gs \<sigma>' s = starForce gs \<sigma> s"
  unfolding starForce_def using assms
  by (auto intro!: arg_cong [where f = vsum] attraction_cong simp del: Vec3_sub.simps)

lemma galaxyForce_cong:
  assumes "\<And>g. Galaxy.pos (galaxyAt \<sigma>' g) = Galaxy.pos (galaxyAt \<sigma> g)
             \<and> Galaxy.mass (galaxyAt \<sigma>' g) = Galaxy.mass (galaxyAt \<sigma> g)"
  shows "galaxyForce gs \<sigma>' g = galaxyForce gs \<sigma> g"
  unfolding galaxyForce_def using assms
  by (auto intro!: arg_cong [where f = vsum] attraction_cong simp del: Vec3_sub.simps)

lemma starAt_starStep:
  "starAt (starStep gs s \<sigma>) = (starAt \<sigma>)(s := starAfter (starForce gs \<sigma> s) (starAt \<sigma> s))"
  by (simp add: starStep_def starAt_setStar)

lemma counters_starStep:
  "nextGalaxy (starStep gs s \<sigma>) = nextGalaxy \<sigma>" "nextStar (starStep gs s \<sigma>) = nextStar \<sigma>"
  by (simp_all add: starStep_def nextGalaxy_setStar nextStar_setStar)

lemma counters_fold_starStep:
  "nextGalaxy (fold (starStep gs) rs \<sigma>) = nextGalaxy \<sigma>"
  "nextStar (fold (starStep gs) rs \<sigma>) = nextStar \<sigma>"
  by (induction rs arbitrary: \<sigma>) (simp_all add: counters_starStep)

lemma starAfter_frame:
  "Star.mass (starAfter a obj) = Star.mass obj" "Star.data (starAfter a obj) = Star.data obj"
  by (simp_all add: starAfter_def Let_def)

lemma frame_fold_starStep:
  "Star.mass (starAt (fold (starStep gs) rs \<sigma>) s) = Star.mass (starAt \<sigma> s)
   \<and> Star.data (starAt (fold (starStep gs) rs \<sigma>) s) = Star.data (starAt \<sigma> s)"
  by (induction rs arbitrary: \<sigma>) (simp_all add: starAt_starStep starAfter_frame)

lemma starAt_fold_starStep_notin:
  "s \<notin> set rs \<Longrightarrow> starAt (fold (starStep gs) rs \<sigma>) s = starAt \<sigma> s"
  by (induction rs arbitrary: \<sigma>) (simp_all add: starAt_starStep)

lemma starAt_fold_starStep_distinct:
  "distinct rs \<Longrightarrow> s \<in> set rs \<Longrightarrow>
     starAt (fold (starStep gs) rs \<sigma>) s = starAfter (starForce gs \<sigma> s) (starAt \<sigma> s)"
proof (induction rs arbitrary: \<sigma>)
  case Nil
  then show ?case by simp
next
  case (Cons r rs)
  show ?case
  proof (cases "s = r")
    case True
    with Cons.prems have "s \<notin> set rs" by simp
    then show ?thesis
      using True by (simp add: starAt_fold_starStep_notin starAt_starStep)
  next
    case False
    with Cons.prems have d: "distinct rs" and m: "s \<in> set rs" by simp_all
    have f: "starForce gs (starStep gs r \<sigma>) s = starForce gs \<sigma> s"
      using False by (intro starForce_cong) (simp_all add: galaxyAt_starStep starAt_starStep)
    show ?thesis
      using Cons.IH [OF d m, of "starStep gs r \<sigma>"] False
      by (simp add: f starAt_starStep)
  qed
qed

text \<open>The velocity phase.\<close>

lemma starAt_velocityStep: "starAt (velocityStep gs g \<sigma>) = starAt \<sigma>"
  and counters_velocityStep:
    "nextGalaxy (velocityStep gs g \<sigma>) = nextGalaxy \<sigma>" "nextStar (velocityStep gs g \<sigma>) = nextStar \<sigma>"
  and galaxyAt_velocityStep:
    "galaxyAt (velocityStep gs g \<sigma>) =
       (galaxyAt \<sigma>)(g := (galaxyAt \<sigma> g)\<lparr>Galaxy.vel :=
          Vec3_add (Galaxy.vel (galaxyAt \<sigma> g)) (Vec (Vec3_mul (galaxyForce gs \<sigma> g) (Num TIME_STEP)))\<rparr>)"
  by (simp_all add: velocityStep_def starAt_setGalaxy nextGalaxy_setGalaxy nextStar_setGalaxy
        galaxyAt_setGalaxy)

lemma starAt_fold_velocityStep: "starAt (fold (velocityStep gs) rs \<sigma>) = starAt \<sigma>"
  by (induction rs arbitrary: \<sigma>) (simp_all add: starAt_velocityStep)

lemma counters_fold_velocityStep:
  "nextGalaxy (fold (velocityStep gs) rs \<sigma>) = nextGalaxy \<sigma>"
  "nextStar (fold (velocityStep gs) rs \<sigma>) = nextStar \<sigma>"
  by (induction rs arbitrary: \<sigma>) (simp_all add: counters_velocityStep)

lemma frame_fold_velocityStep:
  "Galaxy.pos (galaxyAt (fold (velocityStep gs) rs \<sigma>) g) = Galaxy.pos (galaxyAt \<sigma> g)
   \<and> Galaxy.mass (galaxyAt (fold (velocityStep gs) rs \<sigma>) g) = Galaxy.mass (galaxyAt \<sigma> g)
   \<and> rotation (galaxyAt (fold (velocityStep gs) rs \<sigma>) g) = rotation (galaxyAt \<sigma> g)
   \<and> stars (galaxyAt (fold (velocityStep gs) rs \<sigma>) g) = stars (galaxyAt \<sigma> g)
   \<and> Galaxy.data (galaxyAt (fold (velocityStep gs) rs \<sigma>) g) = Galaxy.data (galaxyAt \<sigma> g)"
  by (induction rs arbitrary: \<sigma>) (simp_all add: galaxyAt_velocityStep)

lemma galaxyAt_fold_velocityStep_notin:
  "g \<notin> set rs \<Longrightarrow> galaxyAt (fold (velocityStep gs) rs \<sigma>) g = galaxyAt \<sigma> g"
  by (induction rs arbitrary: \<sigma>) (simp_all add: galaxyAt_velocityStep)

lemma galaxyAt_fold_velocityStep_distinct:
  "distinct rs \<Longrightarrow> g \<in> set rs \<Longrightarrow>
     galaxyAt (fold (velocityStep gs) rs \<sigma>) g =
       (galaxyAt \<sigma> g)\<lparr>Galaxy.vel :=
          Vec3_add (Galaxy.vel (galaxyAt \<sigma> g)) (Vec (Vec3_mul (galaxyForce gs \<sigma> g) (Num TIME_STEP)))\<rparr>"
proof (induction rs arbitrary: \<sigma>)
  case Nil
  then show ?case by simp
next
  case (Cons r rs)
  show ?case
  proof (cases "g = r")
    case True
    with Cons.prems have "g \<notin> set rs" by simp
    then show ?thesis
      using True by (simp add: galaxyAt_fold_velocityStep_notin galaxyAt_velocityStep)
  next
    case False
    with Cons.prems have d: "distinct rs" and m: "g \<in> set rs" by simp_all
    have f: "galaxyForce gs (velocityStep gs r \<sigma>) g = galaxyForce gs \<sigma> g"
      by (intro galaxyForce_cong) (simp add: galaxyAt_velocityStep)
    show ?thesis
      using Cons.IH [OF d m, of "velocityStep gs r \<sigma>"] False
      by (simp add: f galaxyAt_velocityStep)
  qed
qed

text \<open>The position phase.\<close>

lemma starAt_positionStep: "starAt (positionStep g \<sigma>) = starAt \<sigma>"
  and counters_positionStep:
    "nextGalaxy (positionStep g \<sigma>) = nextGalaxy \<sigma>" "nextStar (positionStep g \<sigma>) = nextStar \<sigma>"
  and galaxyAt_positionStep:
    "galaxyAt (positionStep g \<sigma>) =
       (galaxyAt \<sigma>)(g := (galaxyAt \<sigma> g)\<lparr>Galaxy.pos :=
          Vec3_add (Galaxy.pos (galaxyAt \<sigma> g))
                   (Vec (Vec3_mul (Galaxy.vel (galaxyAt \<sigma> g)) (Num TIME_STEP)))\<rparr>)"
  by (simp_all add: positionStep_def starAt_setGalaxy nextGalaxy_setGalaxy nextStar_setGalaxy
        galaxyAt_setGalaxy)

lemma starAt_fold_positionStep: "starAt (fold positionStep rs \<sigma>) = starAt \<sigma>"
  by (induction rs arbitrary: \<sigma>) (simp_all add: starAt_positionStep)

lemma counters_fold_positionStep:
  "nextGalaxy (fold positionStep rs \<sigma>) = nextGalaxy \<sigma>"
  "nextStar (fold positionStep rs \<sigma>) = nextStar \<sigma>"
  by (induction rs arbitrary: \<sigma>) (simp_all add: counters_positionStep)

lemma frame_fold_positionStep:
  "Galaxy.vel (galaxyAt (fold positionStep rs \<sigma>) g) = Galaxy.vel (galaxyAt \<sigma> g)
   \<and> Galaxy.mass (galaxyAt (fold positionStep rs \<sigma>) g) = Galaxy.mass (galaxyAt \<sigma> g)
   \<and> rotation (galaxyAt (fold positionStep rs \<sigma>) g) = rotation (galaxyAt \<sigma> g)
   \<and> stars (galaxyAt (fold positionStep rs \<sigma>) g) = stars (galaxyAt \<sigma> g)
   \<and> Galaxy.data (galaxyAt (fold positionStep rs \<sigma>) g) = Galaxy.data (galaxyAt \<sigma> g)"
  by (induction rs arbitrary: \<sigma>) (simp_all add: galaxyAt_positionStep)

lemma galaxyAt_fold_positionStep_notin:
  "g \<notin> set rs \<Longrightarrow> galaxyAt (fold positionStep rs \<sigma>) g = galaxyAt \<sigma> g"
  by (induction rs arbitrary: \<sigma>) (simp_all add: galaxyAt_positionStep)

lemma galaxyAt_fold_positionStep_distinct:
  "distinct rs \<Longrightarrow> g \<in> set rs \<Longrightarrow>
     galaxyAt (fold positionStep rs \<sigma>) g =
       (galaxyAt \<sigma> g)\<lparr>Galaxy.pos :=
          Vec3_add (Galaxy.pos (galaxyAt \<sigma> g))
                   (Vec (Vec3_mul (Galaxy.vel (galaxyAt \<sigma> g)) (Num TIME_STEP)))\<rparr>"
proof (induction rs arbitrary: \<sigma>)
  case Nil
  then show ?case by simp
next
  case (Cons r rs)
  show ?case
  proof (cases "g = r")
    case True
    with Cons.prems have "g \<notin> set rs" by simp
    then show ?thesis
      using True by (simp add: galaxyAt_fold_positionStep_notin galaxyAt_positionStep)
  next
    case False
    with Cons.prems have d: "distinct rs" and m: "g \<in> set rs" by simp_all
    show ?thesis
      using Cons.IH [OF d m, of "positionStep r \<sigma>"] False
      by (simp add: galaxyAt_positionStep)
  qed
qed


section \<open>Force integrator: frame and independence\<close>

text \<open>The example stores, field by field.\<close>

lemma storeA_simps:
  "galaxyAt storeA g = galaxyA"
  "starAt storeA 1 = \<lparr>Star.pos = Vec3_zero, Star.vel = Vec3_zero, Star.mass = 0, Star.data = Map.empty\<rparr>"
  "starAt storeA 0 = \<lparr>Star.pos = \<lparr>x = 1, y = 0, z = 0\<rparr>, Star.vel = Vec3_zero, Star.mass = 0, Star.data = Map.empty\<rparr>"
  "nextGalaxy storeA = 1" "nextStar storeA = 2"
  by (simp_all add: storeA_def)

lemma storeB_simps:
  "galaxyAt storeB g = galaxyA"
  "starAt storeB 1 = \<lparr>Star.pos = \<lparr>x = 0, y = 3, z = 4\<rparr>, Star.vel = \<lparr>x = 1, y = 1, z = 1\<rparr>,
                       Star.mass = 7, Star.data = Map.empty\<rparr>"
  "starAt storeB 0 = starAt storeA 0"
  by (simp_all add: storeB_def storeA_def)

lemma galaxyA_simps:
  "Galaxy.pos galaxyA = Vec3_zero" "Galaxy.vel galaxyA = Vec3_zero" "Galaxy.mass galaxyA = 100"
  "stars galaxyA = [0, 1]" "rotation galaxyA = Vec3_zero"
  by (simp_all add: galaxyA_def)

text \<open>
  Claim C10.  \<open>updateGalaxies\<close> returns, and writes only the \<open>pos\<close> and \<open>vel\<close> fields of
  the galaxies of the sequence and of their stars.  After the call every galaxy has the mass,
  rotation, data map and \<open>stars\<close> array (the same references in the same order) it had
  before, and every star its mass and data map; a galaxy that is not in the sequence and a
  star that no galaxy of the sequence holds are not changed at all, and nothing is allocated.
  The sequence itself is an argument that the function only reads: it is the same list after
  the call.
\<close>

theorem updateGalaxies_frame:
  "\<exists>\<sigma>'. updateGalaxies galaxies \<sigma> = Some \<sigma>'
     \<and> (\<forall>g. Galaxy.mass (galaxyAt \<sigma>' g) = Galaxy.mass (galaxyAt \<sigma> g)
            \<and> rotation (galaxyAt \<sigma>' g) = rotation (galaxyAt \<sigma> g)
            \<and> Galaxy.data (galaxyAt \<sigma>' g) = Galaxy.data (galaxyAt \<sigma> g)
            \<and> stars (galaxyAt \<sigma>' g) = stars (galaxyAt \<sigma> g))
     \<and> (\<forall>s. Star.mass (starAt \<sigma>' s) = Star.mass (starAt \<sigma> s)
            \<and> Star.data (starAt \<sigma>' s) = Star.data (starAt \<sigma> s))
     \<and> (\<forall>g. g \<notin> set galaxies \<longrightarrow> galaxyAt \<sigma>' g = galaxyAt \<sigma> g)
     \<and> (\<forall>s. s \<notin> set (allStarRefs \<sigma> galaxies) \<longrightarrow> starAt \<sigma>' s = starAt \<sigma> s)
     \<and> nextGalaxy \<sigma>' = nextGalaxy \<sigma> \<and> nextStar \<sigma>' = nextStar \<sigma>"
proof -
  let ?rs = "allStarRefs \<sigma> galaxies"
  let ?\<sigma>1 = "fold (starStep galaxies) ?rs \<sigma>"
  let ?\<sigma>2 = "fold (velocityStep galaxies) galaxies ?\<sigma>1"
  let ?\<sigma>3 = "fold positionStep galaxies ?\<sigma>2"
  have r: "updateGalaxies galaxies \<sigma> = Some ?\<sigma>3"
    by (rule updateGalaxies_closed)
  have g: "Galaxy.mass (galaxyAt ?\<sigma>3 g) = Galaxy.mass (galaxyAt \<sigma> g)
            \<and> rotation (galaxyAt ?\<sigma>3 g) = rotation (galaxyAt \<sigma> g)
            \<and> Galaxy.data (galaxyAt ?\<sigma>3 g) = Galaxy.data (galaxyAt \<sigma> g)
            \<and> stars (galaxyAt ?\<sigma>3 g) = stars (galaxyAt \<sigma> g)" for g
    using frame_fold_positionStep [of galaxies ?\<sigma>2 g]
          frame_fold_velocityStep [of galaxies galaxies ?\<sigma>1 g]
    by (simp add: galaxyAt_fold_starStep)
  have s: "Star.mass (starAt ?\<sigma>3 s) = Star.mass (starAt \<sigma> s)
            \<and> Star.data (starAt ?\<sigma>3 s) = Star.data (starAt \<sigma> s)" for s
    using frame_fold_starStep [of galaxies ?rs \<sigma> s]
    by (simp add: starAt_fold_positionStep starAt_fold_velocityStep)
  have g': "galaxyAt ?\<sigma>3 g = galaxyAt \<sigma> g" if "g \<notin> set galaxies" for g
    using that
    by (simp add: galaxyAt_fold_positionStep_notin galaxyAt_fold_velocityStep_notin
          galaxyAt_fold_starStep)
  have s': "starAt ?\<sigma>3 s = starAt \<sigma> s" if "s \<notin> set ?rs" for s
    using that
    by (simp add: starAt_fold_positionStep starAt_fold_velocityStep starAt_fold_starStep_notin)
  have c: "nextGalaxy ?\<sigma>3 = nextGalaxy \<sigma> \<and> nextStar ?\<sigma>3 = nextStar \<sigma>"
    by (simp add: counters_fold_positionStep counters_fold_velocityStep counters_fold_starStep)
  show ?thesis
    using r g s g' s' c by blast
qed

text \<open>The theorem of C10 on the first example store.\<close>

theorem updateGalaxies_frame_witness:
  "\<exists>\<sigma>'. updateGalaxies [0] storeA = Some \<sigma>'
     \<and> Galaxy.mass (galaxyAt \<sigma>' 0) = 100
     \<and> stars (galaxyAt \<sigma>' 0) = [0, 1]
     \<and> Star.mass (starAt \<sigma>' 0) = 0
     \<and> galaxyAt \<sigma>' 1 = galaxyAt storeA 1
     \<and> starAt \<sigma>' 2 = starAt storeA 2
     \<and> nextGalaxy \<sigma>' = 1 \<and> nextStar \<sigma>' = 2"
proof -
  from updateGalaxies_frame [of "[0]" storeA]
  obtain \<sigma>' where h: "updateGalaxies [0] storeA = Some \<sigma>'"
    "\<forall>g. Galaxy.mass (galaxyAt \<sigma>' g) = Galaxy.mass (galaxyAt storeA g)
         \<and> rotation (galaxyAt \<sigma>' g) = rotation (galaxyAt storeA g)
         \<and> Galaxy.data (galaxyAt \<sigma>' g) = Galaxy.data (galaxyAt storeA g)
         \<and> stars (galaxyAt \<sigma>' g) = stars (galaxyAt storeA g)"
    "\<forall>s. Star.mass (starAt \<sigma>' s) = Star.mass (starAt storeA s)
         \<and> Star.data (starAt \<sigma>' s) = Star.data (starAt storeA s)"
    "\<forall>g. g \<notin> set [0] \<longrightarrow> galaxyAt \<sigma>' g = galaxyAt storeA g"
    "\<forall>s. s \<notin> set (allStarRefs storeA [0]) \<longrightarrow> starAt \<sigma>' s = starAt storeA s"
    "nextGalaxy \<sigma>' = nextGalaxy storeA" "nextStar \<sigma>' = nextStar storeA"
    by blast
  have "(1::nat) \<notin> set [0]" by simp
  with h(4) have a: "galaxyAt \<sigma>' 1 = galaxyAt storeA 1" by blast
  have "(2::nat) \<notin> set (allStarRefs storeA [0])"
    by (simp add: allStarRefs_def storeA_simps galaxyA_simps)
  with h(5) have b: "starAt \<sigma>' 2 = starAt storeA 2" by blast
  show ?thesis
    using h(1) h(2) [rule_format, of 0] h(3) [rule_format, of 0] a b h(6,7)
    by (simp add: storeA_simps galaxyA_simps)
qed

lemma two_runs_fold_starStep:
  assumes "\<And>g. g \<in> set gs \<Longrightarrow> Galaxy.pos (galaxyAt \<sigma>1 g) = Galaxy.pos (galaxyAt \<sigma>2 g)
                                \<and> Galaxy.mass (galaxyAt \<sigma>1 g) = Galaxy.mass (galaxyAt \<sigma>2 g)"
    and "Star.pos (starAt \<sigma>1 s) = Star.pos (starAt \<sigma>2 s)"
    and "Star.vel (starAt \<sigma>1 s) = Star.vel (starAt \<sigma>2 s)"
  shows "Star.pos (starAt (fold (starStep gs) rs \<sigma>1) s) = Star.pos (starAt (fold (starStep gs) rs \<sigma>2) s)
       \<and> Star.vel (starAt (fold (starStep gs) rs \<sigma>1) s) = Star.vel (starAt (fold (starStep gs) rs \<sigma>2) s)"
  using assms
proof (induction rs arbitrary: \<sigma>1 \<sigma>2)
  case Nil
  then show ?case by simp
next
  case (Cons r rs)
  have f: "starForce gs \<sigma>1 s = starForce gs \<sigma>2 s"
    using Cons.prems by (intro starForce_cong) simp_all
  have p: "Star.pos (starAt (starStep gs r \<sigma>1) s) = Star.pos (starAt (starStep gs r \<sigma>2) s)"
    and v: "Star.vel (starAt (starStep gs r \<sigma>1) s) = Star.vel (starAt (starStep gs r \<sigma>2) s)"
    using Cons.prems(2,3) f by (auto simp: starAt_starStep starAfter_def Let_def)
  have g: "\<And>g. g \<in> set gs \<Longrightarrow>
             Galaxy.pos (galaxyAt (starStep gs r \<sigma>1) g) = Galaxy.pos (galaxyAt (starStep gs r \<sigma>2) g)
           \<and> Galaxy.mass (galaxyAt (starStep gs r \<sigma>1) g) = Galaxy.mass (galaxyAt (starStep gs r \<sigma>2) g)"
    using Cons.prems(1) by (simp add: galaxyAt_starStep)
  show ?case
    using Cons.IH [OF g p v] by simp
qed

text \<open>
  Claim C7.  Two runs of \<open>updateGalaxies\<close> on the same sequence, from two stores in which
  every galaxy of the sequence has the same position, mass and \<open>stars\<close> array and a star \<open>s\<close>
  has the same position and velocity, both return and give \<open>s\<close> the same position and the
  same velocity, whatever the other stars are in the two stores: no star is coupled to
  another star.  (The velocities of the galaxies and the mass of \<open>s\<close> need not agree.)
\<close>

theorem no_star_star_coupling:
  assumes "\<forall>g\<in>set galaxies.
             Galaxy.pos (galaxyAt \<sigma>1 g) = Galaxy.pos (galaxyAt \<sigma>2 g)
           \<and> Galaxy.mass (galaxyAt \<sigma>1 g) = Galaxy.mass (galaxyAt \<sigma>2 g)
           \<and> stars (galaxyAt \<sigma>1 g) = stars (galaxyAt \<sigma>2 g)"
    and "Star.pos (starAt \<sigma>1 s) = Star.pos (starAt \<sigma>2 s)"
    and "Star.vel (starAt \<sigma>1 s) = Star.vel (starAt \<sigma>2 s)"
  shows "\<exists>\<sigma>1' \<sigma>2'. updateGalaxies galaxies \<sigma>1 = Some \<sigma>1'
                 \<and> updateGalaxies galaxies \<sigma>2 = Some \<sigma>2'
                 \<and> Star.pos (starAt \<sigma>1' s) = Star.pos (starAt \<sigma>2' s)
                 \<and> Star.vel (starAt \<sigma>1' s) = Star.vel (starAt \<sigma>2' s)"
proof -
  have rs: "allStarRefs \<sigma>1 galaxies = allStarRefs \<sigma>2 galaxies"
    unfolding allStarRefs_def using assms(1) by (intro arg_cong [where f = concat]) simp
  have "Star.pos (starAt (fold (starStep galaxies) (allStarRefs \<sigma>2 galaxies) \<sigma>1) s)
          = Star.pos (starAt (fold (starStep galaxies) (allStarRefs \<sigma>2 galaxies) \<sigma>2) s)
      \<and> Star.vel (starAt (fold (starStep galaxies) (allStarRefs \<sigma>2 galaxies) \<sigma>1) s)
          = Star.vel (starAt (fold (starStep galaxies) (allStarRefs \<sigma>2 galaxies) \<sigma>2) s)"
    using assms by (intro two_runs_fold_starStep) simp_all
  then show ?thesis
    by (simp add: updateGalaxies_closed rs starAt_fold_positionStep starAt_fold_velocityStep)
qed

text \<open>
  The theorem of C7 on the two example stores, which differ in the position, velocity and
  mass of the other star.
\<close>

theorem no_star_star_coupling_witness:
  "\<exists>\<sigma>1' \<sigma>2'. updateGalaxies [0] storeA = Some \<sigma>1'
            \<and> updateGalaxies [0] storeB = Some \<sigma>2'
            \<and> Star.pos (starAt \<sigma>1' 0) = Star.pos (starAt \<sigma>2' 0)
            \<and> Star.vel (starAt \<sigma>1' 0) = Star.vel (starAt \<sigma>2' 0)
            \<and> Star.pos (starAt storeA 1) \<noteq> Star.pos (starAt storeB 1)
            \<and> Star.vel (starAt storeA 1) \<noteq> Star.vel (starAt storeB 1)
            \<and> Star.mass (starAt storeA 1) \<noteq> Star.mass (starAt storeB 1)"
proof -
  have d: "Star.pos (starAt storeA 1) \<noteq> Star.pos (starAt storeB 1)"
    "Star.vel (starAt storeA 1) \<noteq> Star.vel (starAt storeB 1)"
    "Star.mass (starAt storeA 1) \<noteq> Star.mass (starAt storeB 1)"
    by (simp_all add: storeA_simps storeB_simps Vec3_zero_def del: One_nat_def)
  have g: "\<forall>g\<in>set [0].
             Galaxy.pos (galaxyAt storeA g) = Galaxy.pos (galaxyAt storeB g)
           \<and> Galaxy.mass (galaxyAt storeA g) = Galaxy.mass (galaxyAt storeB g)
           \<and> stars (galaxyAt storeA g) = stars (galaxyAt storeB g)"
    by (simp add: storeA_simps storeB_simps)
  have s: "Star.pos (starAt storeA 0) = Star.pos (starAt storeB 0)"
    "Star.vel (starAt storeA 0) = Star.vel (starAt storeB 0)"
    by (simp_all add: storeB_simps)
  show ?thesis
    using no_star_star_coupling [OF g s] d by blast
qed


section \<open>Force integrator: the zero-distance skip\<close>

lemma magnitude_zero: "magnitude Vec3_zero = 0"
  by (simp add: magnitude_def Vec3_zero_def)

lemma Vec3_sub_self: "Vec3_sub v (Vec v) = Vec3_zero"
  by (simp add: Vec3_zero_def)

lemma Vec3_add_zero_right: "Vec3_add v (Vec Vec3_zero) = v"
  by (simp add: Vec3_zero_def)

lemma attraction_coincident: "Galaxy.pos g = p \<Longrightarrow> attraction g p = Vec3_zero"
  by (simp add: attraction_def Let_def Vec3_sub_self magnitude_zero del: Vec3_sub.simps)

lemma starForce_skip:
  assumes "Galaxy.pos (galaxyAt \<sigma> g) = Star.pos (starAt \<sigma> s)"
  shows "starForce (gs1 @ g # gs2) \<sigma> s = starForce (gs1 @ gs2) \<sigma> s"
  by (simp add: starForce_def vsum_append vsum_Cons attraction_coincident [OF assms]
        Vec3_add_zero del: Vec3_add.simps)

lemma galaxyForce_skip:
  assumes "Galaxy.pos (galaxyAt \<sigma> g') = Galaxy.pos (galaxyAt \<sigma> g)"
  shows "galaxyForce (gs1 @ g' # gs2) \<sigma> g = galaxyForce (gs1 @ gs2) \<sigma> g"
  by (simp add: galaxyForce_def vsum_append vsum_Cons attraction_coincident [OF assms]
        Vec3_add_zero del: Vec3_add.simps)

text \<open>
  Claim C8.  When a star is exactly at the position of a galaxy \<open>g\<close>, the round of the star's
  force loop for \<open>g\<close> returns the accumulated acceleration as it was: the term is skipped,
  adds exactly zero, and no division by zero takes place.  The update of the star with \<open>g\<close>
  in the sequence returns, and is the update computed with \<open>g\<close> taken out of the sequence;
  after a whole call of \<open>updateGalaxies\<close> a star that is held once is what that update makes
  of it.  The same holds in the velocity phase for a galaxy \<open>g'\<close> at the position of the
  galaxy \<open>g\<close> that is being updated, and for the velocity of \<open>g\<close> after the whole call.
\<close>

theorem zero_distance_skip:
  "(Galaxy.pos (galaxyAt \<sigma> g) = Star.pos (starAt \<sigma> s) \<longrightarrow>
       accelerate (galaxyAt \<sigma> g) (Star.pos (starAt \<sigma> s)) acc = Some acc
     \<and> (\<exists>\<sigma>'. updateStar (gs1 @ g # gs2) s owner i \<sigma> = Some \<sigma>'
            \<and> updateStar (gs1 @ gs2) s owner i \<sigma> = Some \<sigma>')
     \<and> (distinct (allStarRefs \<sigma> (gs1 @ g # gs2)) \<and> s \<in> set (allStarRefs \<sigma> (gs1 @ g # gs2)) \<longrightarrow>
          (\<exists>\<sigma>' \<sigma>''. updateGalaxies (gs1 @ g # gs2) \<sigma> = Some \<sigma>'
              \<and> updateStar (gs1 @ gs2) s owner i \<sigma> = Some \<sigma>''
              \<and> starAt \<sigma>' s = starAt \<sigma>'' s)))
   \<and> (Galaxy.pos (galaxyAt \<sigma> g') = Galaxy.pos (galaxyAt \<sigma> g) \<longrightarrow>
       accelerate (galaxyAt \<sigma> g') (Galaxy.pos (galaxyAt \<sigma> g)) acc = Some acc
     \<and> (\<exists>\<sigma>'. updateVelocities (hs1 @ g' # hs2) [g] \<sigma> = Some \<sigma>'
            \<and> updateVelocities (hs1 @ hs2) [g] \<sigma> = Some \<sigma>')
     \<and> (distinct (hs1 @ g' # hs2) \<and> g \<in> set (hs1 @ g' # hs2) \<longrightarrow>
          (\<exists>\<sigma>' \<sigma>''. updateGalaxies (hs1 @ g' # hs2) \<sigma> = Some \<sigma>'
              \<and> updateVelocities (hs1 @ hs2) [g] \<sigma> = Some \<sigma>''
              \<and> Galaxy.vel (galaxyAt \<sigma>' g) = Galaxy.vel (galaxyAt \<sigma>'' g))))"
proof (intro conjI impI)
  assume c: "Galaxy.pos (galaxyAt \<sigma> g) = Star.pos (starAt \<sigma> s)"
  show "accelerate (galaxyAt \<sigma> g) (Star.pos (starAt \<sigma> s)) acc = Some acc"
    by (simp add: accelerate_attraction attraction_coincident [OF c] Vec3_add_zero_right
          del: Vec3_add.simps)
  show "\<exists>\<sigma>'. updateStar (gs1 @ g # gs2) s owner i \<sigma> = Some \<sigma>'
            \<and> updateStar (gs1 @ gs2) s owner i \<sigma> = Some \<sigma>'"
    by (simp add: updateStar_closed starStep_def starForce_skip [OF c])
  assume d: "distinct (allStarRefs \<sigma> (gs1 @ g # gs2)) \<and> s \<in> set (allStarRefs \<sigma> (gs1 @ g # gs2))"
  let ?gs = "gs1 @ g # gs2"
  have "starAt (fold positionStep ?gs (fold (velocityStep ?gs) ?gs
                  (fold (starStep ?gs) (allStarRefs \<sigma> ?gs) \<sigma>))) s
          = starAfter (starForce ?gs \<sigma> s) (starAt \<sigma> s)"
    using d by (simp only: starAt_fold_positionStep starAt_fold_velocityStep
                  starAt_fold_starStep_distinct)
  also have "\<dots> = starAt (starStep (gs1 @ gs2) s \<sigma>) s"
    by (simp add: starAt_starStep starForce_skip [OF c])
  finally show "\<exists>\<sigma>' \<sigma>''. updateGalaxies (gs1 @ g # gs2) \<sigma> = Some \<sigma>'
              \<and> updateStar (gs1 @ gs2) s owner i \<sigma> = Some \<sigma>''
              \<and> starAt \<sigma>' s = starAt \<sigma>'' s"
    by (simp add: updateGalaxies_closed updateStar_closed)
next
  assume c: "Galaxy.pos (galaxyAt \<sigma> g') = Galaxy.pos (galaxyAt \<sigma> g)"
  show "accelerate (galaxyAt \<sigma> g') (Galaxy.pos (galaxyAt \<sigma> g)) acc = Some acc"
    by (simp add: accelerate_attraction attraction_coincident [OF c] Vec3_add_zero_right
          del: Vec3_add.simps)
  show "\<exists>\<sigma>'. updateVelocities (hs1 @ g' # hs2) [g] \<sigma> = Some \<sigma>'
            \<and> updateVelocities (hs1 @ hs2) [g] \<sigma> = Some \<sigma>'"
    by (simp add: updateVelocities_closed velocityStep_def galaxyForce_skip [OF c])
  assume d: "distinct (hs1 @ g' # hs2) \<and> g \<in> set (hs1 @ g' # hs2)"
  let ?hs = "hs1 @ g' # hs2"
  let ?\<sigma>1 = "fold (starStep ?hs) (allStarRefs \<sigma> ?hs) \<sigma>"
  have f: "galaxyForce ?hs ?\<sigma>1 g = galaxyForce ?hs \<sigma> g"
    by (intro galaxyForce_cong) (simp add: galaxyAt_fold_starStep)
  have "Galaxy.vel (galaxyAt (fold positionStep ?hs (fold (velocityStep ?hs) ?hs ?\<sigma>1)) g)
          = Galaxy.vel (galaxyAt (fold (velocityStep ?hs) ?hs ?\<sigma>1) g)"
    using frame_fold_positionStep [of ?hs "fold (velocityStep ?hs) ?hs ?\<sigma>1" g] by blast
  also have "\<dots> = Galaxy.vel ((galaxyAt ?\<sigma>1 g)\<lparr>Galaxy.vel :=
                         Vec3_add (Galaxy.vel (galaxyAt ?\<sigma>1 g))
                           (Vec (Vec3_mul (galaxyForce ?hs ?\<sigma>1 g) (Num TIME_STEP)))\<rparr>)"
    using d by (simp only: galaxyAt_fold_velocityStep_distinct)
  also have "\<dots> = Vec3_add (Galaxy.vel (galaxyAt \<sigma> g))
                       (Vec (Vec3_mul (galaxyForce ?hs \<sigma> g) (Num TIME_STEP)))"
    by (simp add: f galaxyAt_fold_starStep del: Vec3_add.simps Vec3_mul.simps)
  also have "\<dots> = Galaxy.vel (galaxyAt (velocityStep (hs1 @ hs2) g \<sigma>) g)"
    by (simp add: galaxyAt_velocityStep galaxyForce_skip [OF c] del: Vec3_add.simps Vec3_mul.simps)
  finally show "\<exists>\<sigma>' \<sigma>''. updateGalaxies (hs1 @ g' # hs2) \<sigma> = Some \<sigma>'
              \<and> updateVelocities (hs1 @ hs2) [g] \<sigma> = Some \<sigma>''
              \<and> Galaxy.vel (galaxyAt \<sigma>' g) = Galaxy.vel (galaxyAt \<sigma>'' g)"
    by (simp add: updateGalaxies_closed updateVelocities_closed)
qed

text \<open>
  The theorem of C8 on the first example store: star 1 sits on galaxy 0, and the galaxies 0
  and 5 are at the same place.
\<close>

theorem zero_distance_skip_witness:
  "accelerate (galaxyAt storeA 0) (Star.pos (starAt storeA 1)) \<lparr>x = 1, y = 2, z = 3\<rparr>
      = Some \<lparr>x = 1, y = 2, z = 3\<rparr>
   \<and> (\<exists>\<sigma>'. updateStar [0] 1 0 1 storeA = Some \<sigma>' \<and> updateStar [] 1 0 1 storeA = Some \<sigma>')
   \<and> (\<exists>\<sigma>' \<sigma>''. updateGalaxies [0] storeA = Some \<sigma>' \<and> updateStar [] 1 0 1 storeA = Some \<sigma>''
          \<and> starAt \<sigma>' 1 = starAt \<sigma>'' 1)
   \<and> accelerate (galaxyAt storeA 5) (Galaxy.pos (galaxyAt storeA 0)) \<lparr>x = 1, y = 2, z = 3\<rparr>
      = Some \<lparr>x = 1, y = 2, z = 3\<rparr>
   \<and> (\<exists>\<sigma>'. updateVelocities [0, 5] [0] storeA = Some \<sigma>'
          \<and> updateVelocities [0] [0] storeA = Some \<sigma>')
   \<and> (\<exists>\<sigma>' \<sigma>''. updateGalaxies [0, 5] storeA = Some \<sigma>' \<and> updateVelocities [0] [0] storeA = Some \<sigma>''
          \<and> Galaxy.vel (galaxyAt \<sigma>' 0) = Galaxy.vel (galaxyAt \<sigma>'' 0))"
proof -
  have a: "Galaxy.pos (galaxyAt storeA 0) = Star.pos (starAt storeA 1)"
    by (simp add: storeA_simps galaxyA_simps del: One_nat_def)
  have b: "Galaxy.pos (galaxyAt storeA 5) = Galaxy.pos (galaxyAt storeA 0)"
    by (simp add: storeA_simps)
  have c: "distinct (allStarRefs storeA ([] @ 0 # [])) \<and> 1 \<in> set (allStarRefs storeA ([] @ 0 # []))"
    by (simp add: allStarRefs_def storeA_simps galaxyA_simps)
  have d: "distinct ([0::nat] @ 5 # []) \<and> (0::nat) \<in> set ([0] @ 5 # [])"
    by simp
  show ?thesis
    using zero_distance_skip
            [where \<sigma> = storeA and g = 0 and s = 1 and acc = "\<lparr>x = 1, y = 2, z = 3\<rparr>"
               and ?gs1.0 = "[]" and ?gs2.0 = "[]" and owner = 0 and i = 1 and g' = 5
               and ?hs1.0 = "[0]" and ?hs2.0 = "[]"] a b c d
    by simp
qed


section \<open>Force integrator: comparison with the reference definition\<close>

lemma pull_skip_attraction: "pull_skip g p = Some (attraction g p)"
  by (simp add: pull_skip_def pull_def attraction_def Let_def divide_number_def
        del: Vec3_sub.simps Vec3_mul.simps)

lemma those_map_Some: "those (map (\<lambda>a. Some (f a)) as) = Some (map f as)"
  by (induction as) simp_all

lemma starAcc_pull_skip:
  "starAcc pull_skip gs \<sigma>\<^sub>0 p = Some (vsum (map (\<lambda>g. attraction (galaxyAt \<sigma>\<^sub>0 g) p) gs))"
  by (simp add: starAcc_def pull_skip_attraction those_map_Some)

lemma galaxyAcc_pull_skip: "galaxyAcc pull_skip gs \<sigma>\<^sub>0 g = Some (galaxyForce gs \<sigma>\<^sub>0 g)"
  by (simp add: galaxyAcc_def galaxyForce_def pull_skip_attraction those_map_Some)

text \<open>Each phase of the reference, with the skip, is the fold of the corresponding step.\<close>

lemma starPhase_pull_skip:
  "galaxyAt \<sigma> = galaxyAt \<sigma>\<^sub>0 \<Longrightarrow>
     starPhase pull_skip gs \<sigma>\<^sub>0 rs \<sigma> = Some (fold (starStep gs) rs \<sigma>)"
proof (induction rs arbitrary: \<sigma>)
  case Nil
  show ?case by simp
next
  case (Cons s rs)
  have f: "vsum (map (\<lambda>g. attraction (galaxyAt \<sigma>\<^sub>0 g) (Star.pos (starAt \<sigma> s))) gs)
             = starForce gs \<sigma> s"
    by (simp add: starForce_def Cons.prems)
  have g: "galaxyAt (starStep gs s \<sigma>) = galaxyAt \<sigma>\<^sub>0"
    by (simp add: galaxyAt_starStep Cons.prems)
  show ?case
    by (simp add: starAcc_pull_skip f Cons.IH [OF g] starStep_def [symmetric])
qed

lemma velocityPhase_pull_skip:
  assumes "\<And>g. Galaxy.pos (galaxyAt \<sigma> g) = Galaxy.pos (galaxyAt \<sigma>\<^sub>0 g)
              \<and> Galaxy.mass (galaxyAt \<sigma> g) = Galaxy.mass (galaxyAt \<sigma>\<^sub>0 g)"
  shows "velocityPhase pull_skip gs \<sigma>\<^sub>0 rs \<sigma> = Some (fold (velocityStep gs) rs \<sigma>)"
  using assms
proof (induction rs arbitrary: \<sigma>)
  case Nil
  show ?case by simp
next
  case (Cons g rs)
  have f: "galaxyForce gs \<sigma>\<^sub>0 g = galaxyForce gs \<sigma> g"
    by (rule galaxyForce_cong) (simp add: Cons.prems)
  have k: "Galaxy.pos (galaxyAt (velocityStep gs g \<sigma>) g') = Galaxy.pos (galaxyAt \<sigma>\<^sub>0 g')
         \<and> Galaxy.mass (galaxyAt (velocityStep gs g \<sigma>) g') = Galaxy.mass (galaxyAt \<sigma>\<^sub>0 g')" for g'
    by (simp add: galaxyAt_velocityStep Cons.prems)
  have v: "setGalaxy g
             (\<lambda>obj. obj\<lparr>Galaxy.vel :=
                  Vec3_add (Galaxy.vel obj)
                           (Vec (Vec3_mul (galaxyForce gs \<sigma> g) (Num TIME_STEP)))\<rparr>)
             \<sigma>
           = velocityStep gs g \<sigma>"
    by (simp add: velocityStep_def)
  show ?case
    by (simp add: galaxyAcc_pull_skip f v Cons.IH [OF k] del: Vec3_add.simps Vec3_mul.simps)
qed

lemma positionPhase_fold: "positionPhase gs \<sigma> = fold positionStep gs \<sigma>"
  by (induction gs arbitrary: \<sigma>) (simp_all add: positionStep_def)

lemma referenceStep_pull_skip:
  "referenceStep pull_skip gs \<sigma>
     = Some (fold positionStep gs
              (fold (velocityStep gs) gs (fold (starStep gs) (allStarRefs \<sigma> gs) \<sigma>)))"
proof -
  have k: "Galaxy.pos (galaxyAt (fold (starStep gs) (allStarRefs \<sigma> gs) \<sigma>) g)
             = Galaxy.pos (galaxyAt \<sigma> g)
         \<and> Galaxy.mass (galaxyAt (fold (starStep gs) (allStarRefs \<sigma> gs) \<sigma>) g)
             = Galaxy.mass (galaxyAt \<sigma> g)" for g
    by (simp add: galaxyAt_fold_starStep)
  show ?thesis
    by (simp add: referenceStep_def starPhase_pull_skip velocityPhase_pull_skip [OF k]
          positionPhase_fold)
qed

lemma referenceOnce_pull_skip:
  "referenceOnce pull_skip gs \<sigma> =
     Some (\<sigma>\<lparr>starAt := (\<lambda>s. if s \<in> set (allStarRefs \<sigma> gs)
                             then starAfter (starForce gs \<sigma> s) (starAt \<sigma> s)
                             else starAt \<sigma> s),
              galaxyAt := (\<lambda>g. if g \<in> set gs
                               then galaxyAfter (galaxyForce gs \<sigma> g) (galaxyAt \<sigma> g)
                               else galaxyAt \<sigma> g)\<rparr>)"
  by (simp add: referenceOnce_def starAcc_pull_skip galaxyAcc_pull_skip starForce_def
        list_all_iff cong: if_cong)

lemma updateGalaxies_distinct:
  assumes "distinct galaxies" and "distinct (allStarRefs \<sigma> galaxies)"
  shows "updateGalaxies galaxies \<sigma> =
           Some (\<sigma>\<lparr>starAt := (\<lambda>s. if s \<in> set (allStarRefs \<sigma> galaxies)
                                   then starAfter (starForce galaxies \<sigma> s) (starAt \<sigma> s)
                                   else starAt \<sigma> s),
                    galaxyAt := (\<lambda>g. if g \<in> set galaxies
                                     then galaxyAfter (galaxyForce galaxies \<sigma> g) (galaxyAt \<sigma> g)
                                     else galaxyAt \<sigma> g)\<rparr>)"
proof -
  let ?rs = "allStarRefs \<sigma> galaxies"
  let ?\<sigma>1 = "fold (starStep galaxies) ?rs \<sigma>"
  let ?\<sigma>2 = "fold (velocityStep galaxies) galaxies ?\<sigma>1"
  let ?\<sigma>3 = "fold positionStep galaxies ?\<sigma>2"
  let ?R = "\<sigma>\<lparr>starAt := (\<lambda>s. if s \<in> set ?rs
                                 then starAfter (starForce galaxies \<sigma> s) (starAt \<sigma> s)
                                 else starAt \<sigma> s),
                galaxyAt := (\<lambda>g. if g \<in> set galaxies
                                 then galaxyAfter (galaxyForce galaxies \<sigma> g) (galaxyAt \<sigma> g)
                                 else galaxyAt \<sigma> g)\<rparr>"
  have f: "galaxyForce galaxies ?\<sigma>1 g = galaxyForce galaxies \<sigma> g" for g
    by (intro galaxyForce_cong) (simp add: galaxyAt_fold_starStep)
  have st: "starAt ?\<sigma>3 s =
              (if s \<in> set ?rs then starAfter (starForce galaxies \<sigma> s) (starAt \<sigma> s)
               else starAt \<sigma> s)" for s
    using assms(2)
    by (simp add: starAt_fold_positionStep starAt_fold_velocityStep
          starAt_fold_starStep_distinct starAt_fold_starStep_notin)
  have ga: "galaxyAt ?\<sigma>3 g =
              (if g \<in> set galaxies then galaxyAfter (galaxyForce galaxies \<sigma> g) (galaxyAt \<sigma> g)
               else galaxyAt \<sigma> g)" for g
  proof (cases "g \<in> set galaxies")
    case True
    then show ?thesis
      using assms(1)
      by (simp add: galaxyAt_fold_positionStep_distinct galaxyAt_fold_velocityStep_distinct f
            galaxyAt_fold_starStep galaxyAfter_def Let_def
            del: Vec3_add.simps Vec3_mul.simps)
  next
    case False
    then show ?thesis
      by (simp add: galaxyAt_fold_positionStep_notin galaxyAt_fold_velocityStep_notin
            galaxyAt_fold_starStep)
  qed
  have "?\<sigma>3 = ?R"
  proof (rule store.equality)
    show "galaxyAt ?\<sigma>3 = galaxyAt ?R"
      using ga by (simp add: fun_eq_iff)
    show "starAt ?\<sigma>3 = starAt ?R"
      using st by (simp add: fun_eq_iff)
  qed (simp_all add: counters_fold_positionStep counters_fold_velocityStep counters_fold_starStep)
  then show ?thesis
    by (simp only: updateGalaxies_closed)
qed

text \<open>
  Claim C1, as amended.  For every sequence of galaxies and every store, \<open>updateGalaxies\<close> is
  the three-phase reference definition in which a galaxy with \<open>|r|\<^sup>2 = 0\<close> is skipped and
  adds nothing to the sum.  Phase 1, for every star of every galaxy: \<open>vel := vel + a\<cdot>\<Delta>t\<close> and
  then \<open>pos := pos + vel\<cdot>\<Delta>t\<close> with the new velocity, \<open>a\<close> summing \<open>G\<cdot>M / |r|\<^sup>3 \<cdot> r\<close> over
  all galaxies at their positions at the start of the call.  Phase 2, for every galaxy:
  \<open>vel := vel + a\<cdot>\<Delta>t\<close>, \<open>a\<close> summing over the other galaxies, still at the positions of the
  start of the call.  Phase 3, after that, for every galaxy: \<open>pos := pos + vel\<cdot>\<Delta>t\<close> with the
  new velocity.  A phase meets an object as often as the sequence names it; where the
  sequence names every galaxy once and no star is held twice, every star and every galaxy
  is replaced once, all accelerations being those of the start of the call.
\<close>

theorem updateGalaxies_is_reference_with_skip:
  "updateGalaxies galaxies \<sigma> = referenceStep pull_skip galaxies \<sigma>
   \<and> (distinct galaxies \<and> distinct (allStarRefs \<sigma> galaxies)
        \<longrightarrow> updateGalaxies galaxies \<sigma> = referenceOnce pull_skip galaxies \<sigma>)"
proof -
  have 1: "updateGalaxies galaxies \<sigma> = referenceStep pull_skip galaxies \<sigma>"
    by (simp only: updateGalaxies_closed referenceStep_pull_skip)
  have 2: "updateGalaxies galaxies \<sigma> = referenceOnce pull_skip galaxies \<sigma>"
    if "distinct galaxies" and "distinct (allStarRefs \<sigma> galaxies)"
    by (simp only: updateGalaxies_distinct [OF that] referenceOnce_pull_skip)
  from 1 2 show ?thesis by blast
qed

text \<open>
  The theorem of C1 on the first example store, whose galaxy holds a star at distance 1 and a
  star on its centre: with the galaxy named once, where star 0 gets the velocity
  \<open>G\<cdot>100 / 1\<^sup>3 \<cdot> \<Delta>t = 0.0005\<close> towards the galaxy and star 1 stays as it is, and with the
  galaxy named twice.
\<close>

theorem updateGalaxies_is_reference_with_skip_witness:
  "distinct [0::nat] \<and> distinct (allStarRefs storeA [0])
   \<and> updateGalaxies [0] storeA = referenceStep pull_skip [0] storeA
   \<and> updateGalaxies [0] storeA = referenceOnce pull_skip [0] storeA
   \<and> (\<exists>\<sigma>'. referenceOnce pull_skip [0] storeA = Some \<sigma>'
           \<and> Star.vel (starAt \<sigma>' 0) = \<lparr>x = - 0.0005, y = 0, z = 0\<rparr>
           \<and> Star.pos (starAt \<sigma>' 0) = \<lparr>x = 1 - 0.0000025, y = 0, z = 0\<rparr>
           \<and> starAt \<sigma>' 1 = starAt storeA 1)
   \<and> updateGalaxies [0, 0] storeA = referenceStep pull_skip [0, 0] storeA"
proof -
  have a: "distinct [0::nat]" "distinct (allStarRefs storeA [0])"
    by (simp_all add: allStarRefs_def storeA_simps galaxyA_simps)
  have p0: "pull_skip galaxyA \<lparr>x = 1, y = 0, z = 0\<rparr> = Some \<lparr>x = - 0.1, y = 0, z = 0\<rparr>"
    by (simp add: pull_skip_def pull_def galaxyA_simps magnitude_def divide_number_def G_def
          Vec3_zero_def)
  have p1: "pull_skip galaxyA Vec3_zero = Some Vec3_zero"
    by (simp add: pull_skip_def galaxyA_simps Vec3_sub_self magnitude_zero del: Vec3_sub.simps)
  have s0: "starAcc pull_skip [0] storeA \<lparr>x = 1, y = 0, z = 0\<rparr> = Some \<lparr>x = - 0.1, y = 0, z = 0\<rparr>"
    by (simp add: starAcc_def storeA_simps p0 vsum_def)
  have s1: "starAcc pull_skip [0] storeA \<lparr>x = 0, y = 0, z = 0\<rparr> = Some \<lparr>x = 0, y = 0, z = 0\<rparr>"
    using p1 by (simp add: starAcc_def storeA_simps vsum_def Vec3_zero_def)
  have g0: "galaxyAcc pull_skip [0] storeA 0 = Some Vec3_zero"
    by (simp add: galaxyAcc_def vsum_def Vec3_zero_def)
  have v: "\<exists>\<sigma>'. referenceOnce pull_skip [0] storeA = Some \<sigma>'
           \<and> Star.vel (starAt \<sigma>' 0) = \<lparr>x = - 0.0005, y = 0, z = 0\<rparr>
           \<and> Star.pos (starAt \<sigma>' 0) = \<lparr>x = 1 - 0.0000025, y = 0, z = 0\<rparr>
           \<and> starAt \<sigma>' 1 = starAt storeA 1"
    by (simp add: referenceOnce_def allStarRefs_def storeA_simps galaxyA_simps s0 s1 g0
          starAfter_def TIME_STEP_def Vec3_zero_def Let_def del: One_nat_def)
  show ?thesis
    using a v updateGalaxies_is_reference_with_skip [of "[0]" storeA]
          updateGalaxies_is_reference_with_skip [of "[0, 0]" storeA]
    by blast
qed

text \<open>
  Claim C1 as it is stated, with the sum \<open>G\<cdot>M / |r|\<^sup>3 \<cdot> r\<close> over all galaxies and no skip,
  fails on the first example store: star 1 is on the centre of galaxy 0, the formula has no
  value there, and \<open>updateGalaxies\<close> returns a store.
\<close>

theorem reference_without_skip_counterexample:
  "referenceStep pull [0] storeA = None \<and> updateGalaxies [0] storeA \<noteq> referenceStep pull [0] storeA"
proof -
  have p0: "pull galaxyA \<lparr>x = 1, y = 0, z = 0\<rparr> = Some \<lparr>x = - 0.1, y = 0, z = 0\<rparr>"
    by (simp add: pull_def galaxyA_simps magnitude_def divide_number_def G_def Vec3_zero_def)
  have p1: "pull galaxyA Vec3_zero = None"
    by (simp add: pull_def galaxyA_simps Vec3_sub_self magnitude_zero divide_number_def
          del: Vec3_sub.simps)
  have s0: "starAcc pull [0] storeA \<lparr>x = 1, y = 0, z = 0\<rparr> = Some \<lparr>x = - 0.1, y = 0, z = 0\<rparr>"
    by (simp add: starAcc_def storeA_simps p0 vsum_def)
  have s1: "starAcc pull [0] storeA Vec3_zero = None"
    by (simp add: starAcc_def storeA_simps p1)
  have r: "referenceStep pull [0] storeA = None"
    by (simp add: referenceStep_def allStarRefs_def storeA_simps galaxyA_simps s0 s1
          starAt_setStar del: One_nat_def)
  show ?thesis
    unfolding r by (simp add: updateGalaxies_closed)
qed

text \<open>
  Claim C2.  Two galaxies of mass 100 at \<open>(-1, 0, 0)\<close> and \<open>(1, 0, 0)\<close>, at rest and without
  stars: after one call the first has velocity \<open>(0.000125, 0, 0)\<close> and the second
  \<open>(-0.000125, 0, 0)\<close>, of magnitude \<open>G\<cdot>100 / 2\<^sup>2 \<cdot> \<Delta>t\<close>, and each has moved by
  \<open>0.000125 \<cdot> 0.005 = 6.25e-7\<close> along \<open>x\<close> towards the other.
\<close>

theorem two_body_step:
  assumes "a \<noteq> b"
    and "Galaxy.pos (galaxyAt \<sigma> a) = \<lparr>x = - 1, y = 0, z = 0\<rparr>"
    and "Galaxy.pos (galaxyAt \<sigma> b) = \<lparr>x = 1, y = 0, z = 0\<rparr>"
    and "Galaxy.vel (galaxyAt \<sigma> a) = Vec3_zero"
    and "Galaxy.vel (galaxyAt \<sigma> b) = Vec3_zero"
    and "Galaxy.mass (galaxyAt \<sigma> a) = 100"
    and "Galaxy.mass (galaxyAt \<sigma> b) = 100"
    and "stars (galaxyAt \<sigma> a) = []"
    and "stars (galaxyAt \<sigma> b) = []"
  shows "\<exists>\<sigma>'. updateGalaxies [a, b] \<sigma> = Some \<sigma>'
     \<and> Galaxy.vel (galaxyAt \<sigma>' a) = \<lparr>x = 0.000125, y = 0, z = 0\<rparr>
     \<and> Galaxy.vel (galaxyAt \<sigma>' b) = \<lparr>x = - 0.000125, y = 0, z = 0\<rparr>
     \<and> magnitude (Galaxy.vel (galaxyAt \<sigma>' a)) = G * 100 / 2\<^sup>2 * TIME_STEP
     \<and> magnitude (Galaxy.vel (galaxyAt \<sigma>' b)) = G * 100 / 2\<^sup>2 * TIME_STEP
     \<and> Galaxy.pos (galaxyAt \<sigma>' a) = \<lparr>x = - 1 + 0.000000625, y = 0, z = 0\<rparr>
     \<and> Galaxy.pos (galaxyAt \<sigma>' b) = \<lparr>x = 1 - 0.000000625, y = 0, z = 0\<rparr>"
proof -
  have d: "distinct [a, b]" using assms(1) by simp
  have rs: "allStarRefs \<sigma> [a, b] = []"
    by (simp add: allStarRefs_def assms)
  have ab: "attraction (galaxyAt \<sigma> b) (Galaxy.pos (galaxyAt \<sigma> a)) = \<lparr>x = 0.025, y = 0, z = 0\<rparr>"
    by (simp add: attraction_def assms magnitude_def G_def)
  have ba: "attraction (galaxyAt \<sigma> a) (Galaxy.pos (galaxyAt \<sigma> b)) = \<lparr>x = - 0.025, y = 0, z = 0\<rparr>"
    by (simp add: attraction_def assms magnitude_def G_def)
  have fa: "galaxyForce [a, b] \<sigma> a = \<lparr>x = 0.025, y = 0, z = 0\<rparr>"
    using assms(1) by (simp add: galaxyForce_def vsum_Cons vsum_Nil ab Vec3_zero_def)
  have fb: "galaxyForce [a, b] \<sigma> b = \<lparr>x = - 0.025, y = 0, z = 0\<rparr>"
    using assms(1) by (simp add: galaxyForce_def vsum_Cons vsum_Nil ba Vec3_zero_def)
  have r: "updateGalaxies [a, b] \<sigma> =
             Some (\<sigma>\<lparr>starAt := (\<lambda>s. if s \<in> set (allStarRefs \<sigma> [a, b])
                                     then starAfter (starForce [a, b] \<sigma> s) (starAt \<sigma> s)
                                     else starAt \<sigma> s),
                      galaxyAt := (\<lambda>g. if g \<in> set [a, b]
                                       then galaxyAfter (galaxyForce [a, b] \<sigma> g) (galaxyAt \<sigma> g)
                                       else galaxyAt \<sigma> g)\<rparr>)"
    using d by (intro updateGalaxies_distinct) (simp_all add: rs)
  have ga: "galaxyAfter (galaxyForce [a, b] \<sigma> a) (galaxyAt \<sigma> a)
              = (galaxyAt \<sigma> a)\<lparr>Galaxy.vel := \<lparr>x = 0.000125, y = 0, z = 0\<rparr>,
                                Galaxy.pos := \<lparr>x = - 1 + 0.000000625, y = 0, z = 0\<rparr>\<rparr>"
    by (simp add: galaxyAfter_def fa assms TIME_STEP_def Vec3_zero_def)
  have gb: "galaxyAfter (galaxyForce [a, b] \<sigma> b) (galaxyAt \<sigma> b)
              = (galaxyAt \<sigma> b)\<lparr>Galaxy.vel := \<lparr>x = - 0.000125, y = 0, z = 0\<rparr>,
                                Galaxy.pos := \<lparr>x = 1 - 0.000000625, y = 0, z = 0\<rparr>\<rparr>"
    by (simp add: galaxyAfter_def fb assms TIME_STEP_def Vec3_zero_def)
  have m: "G * 100 / 2\<^sup>2 * TIME_STEP = 0.000125"
    by (simp add: G_def TIME_STEP_def)
  show ?thesis
    unfolding r m
    using assms(1) by (simp add: ga gb magnitude_def)
qed

text \<open>The theorem of C2 on the two-body store.\<close>

theorem two_body_step_witness:
  "\<exists>\<sigma>'. updateGalaxies [0, 1] twoBody = Some \<sigma>'
     \<and> Galaxy.vel (galaxyAt \<sigma>' 0) = \<lparr>x = 0.000125, y = 0, z = 0\<rparr>
     \<and> Galaxy.vel (galaxyAt \<sigma>' 1) = \<lparr>x = - 0.000125, y = 0, z = 0\<rparr>
     \<and> Galaxy.pos (galaxyAt \<sigma>' 0) = \<lparr>x = - 0.999999375, y = 0, z = 0\<rparr>
     \<and> Galaxy.pos (galaxyAt \<sigma>' 1) = \<lparr>x = 0.999999375, y = 0, z = 0\<rparr>"
proof -
  have h: "(0::nat) \<noteq> 1"
    "Galaxy.pos (galaxyAt twoBody 0) = \<lparr>x = - 1, y = 0, z = 0\<rparr>"
    "Galaxy.pos (galaxyAt twoBody 1) = \<lparr>x = 1, y = 0, z = 0\<rparr>"
    "Galaxy.vel (galaxyAt twoBody 0) = Vec3_zero"
    "Galaxy.vel (galaxyAt twoBody 1) = Vec3_zero"
    "Galaxy.mass (galaxyAt twoBody 0) = 100"
    "Galaxy.mass (galaxyAt twoBody 1) = 100"
    "stars (galaxyAt twoBody 0) = []"
    "stars (galaxyAt twoBody 1) = []"
    by (simp_all add: twoBody_def)
  show ?thesis
    using two_body_step [OF h] by auto
qed


section \<open>Initial-condition generator: the number of stars\<close>

lemma createRandomStarInGalaxy_Inr:
  "\<exists>obj r'. createRandomStarInGalaxy galaxy M radius r \<sigma> = (Inr obj, r')"
  by (simp add: createRandomStarInGalaxy_def Math_random_def Star_new_def Let_def)

lemma less_target_iff: "real i < t \<longleftrightarrow> i < nat \<lceil>t\<rceil>"
  by (simp add: zless_nat_eq_int_zless less_ceiling_iff)

lemma populate_stars:
  "\<exists>\<sigma>' r'. populate galaxy M radius t i r \<sigma> = Inr (\<sigma>', r')
     \<and> length (stars (galaxyAt \<sigma>' galaxy)) = length (stars (galaxyAt \<sigma> galaxy)) + (nat \<lceil>t\<rceil> - i)
     \<and> Galaxy.mass (galaxyAt \<sigma>' galaxy) = Galaxy.mass (galaxyAt \<sigma> galaxy)"
proof (induction "nat \<lceil>t\<rceil> - i" arbitrary: i r \<sigma>)
  case 0
  then have "\<not> i < nat \<lceil>t\<rceil>" by arith
  then have "\<not> real i < t" using less_target_iff [of i t] by blast
  then have "populate galaxy M radius t i r \<sigma> = Inr (\<sigma>, r)"
    by (subst populate.simps) simp
  with 0 show ?case by simp
next
  case (Suc n)
  then have "i < nat \<lceil>t\<rceil>" by arith
  then have lt: "real i < t" using less_target_iff [of i t] by blast
  obtain obj r1 where c: "createRandomStarInGalaxy galaxy M (Some radius) r \<sigma> = (Inr obj, r1)"
    using createRandomStarInGalaxy_Inr by blast
  let ?\<sigma>2 = "setGalaxy galaxy (\<lambda>g. g\<lparr>stars := stars g @ [fst (allocStar obj \<sigma>)]\<rparr>)
                  (snd (allocStar obj \<sigma>))"
  have n: "n = nat \<lceil>t\<rceil> - Suc i" using Suc.hyps(2) by simp
  have s2: "stars (galaxyAt ?\<sigma>2 galaxy) = stars (galaxyAt \<sigma> galaxy) @ [fst (allocStar obj \<sigma>)]"
    "Galaxy.mass (galaxyAt ?\<sigma>2 galaxy) = Galaxy.mass (galaxyAt \<sigma> galaxy)"
    by (simp_all add: galaxyAt_setGalaxy allocStar_def)
  have p: "populate galaxy M radius t i r \<sigma> = populate galaxy M radius t (Suc i) r1 ?\<sigma>2"
    using lt by (subst populate.simps) (simp add: c split_beta Let_def)
  from Suc.hyps(1) [OF n, of r1 ?\<sigma>2]
  obtain \<sigma>' r' where ih: "populate galaxy M radius t (Suc i) r1 ?\<sigma>2 = Inr (\<sigma>', r')"
    "length (stars (galaxyAt \<sigma>' galaxy)) = length (stars (galaxyAt ?\<sigma>2 galaxy)) + (nat \<lceil>t\<rceil> - Suc i)"
    "Galaxy.mass (galaxyAt \<sigma>' galaxy) = Galaxy.mass (galaxyAt ?\<sigma>2 galaxy)"
    by blast
  have "length (stars (galaxyAt \<sigma>' galaxy)) = length (stars (galaxyAt \<sigma> galaxy)) + (nat \<lceil>t\<rceil> - i)"
    using ih(2) Suc.hyps(2) unfolding s2 by simp
  then show ?case
    using ih(1,3) unfolding p s2 by blast
qed

lemma Vec3_random_rng: "snd (Vec3_random f r) = (\<lambda>n. r (n + 3))"
  by (simp add: Vec3_random_def Math_random_def fun_eq_iff eval_nat_numeral)

lemma Vec3_randomCentered_rng: "snd (Vec3_randomCentered f r) = (\<lambda>n. r (n + 3))"
  by (simp add: Vec3_randomCentered_def split_beta Vec3_random_rng)

lemma targetNumberOfStars_value:
  "fst (targetNumberOfStars mn mx r) = (if truthy mx then r 0 * (the mx - mn) + mn else mn)"
  by (simp add: targetNumberOfStars_def Math_random_def)

lemma fromEuler_Inr: "\<exists>M. fromEuler a b c = Inr M"
  by (simp add: fromEuler_def Let_def Matrix3x3_new_3x3)

lemma assembleGalaxy_stars:
  "\<exists>\<sigma>' r'. assembleGalaxy v p rot t rad r \<sigma> = Inr (nextGalaxy \<sigma>, \<sigma>', r')
      \<and> length (stars (galaxyAt \<sigma>' (nextGalaxy \<sigma>))) = nat \<lceil>t\<rceil>
      \<and> Galaxy.mass (galaxyAt \<sigma>' (nextGalaxy \<sigma>)) = t"
proof -
  let ?obj = "\<lparr>Galaxy.vel = v, Galaxy.pos = p, rotation = rot, Galaxy.mass = t, stars = [],
               Galaxy.data = Map.empty\<rparr> :: 'a Galaxy"
  let ?\<sigma>1 = "snd (allocGalaxy ?obj \<sigma>)"
  have g1: "fst (allocGalaxy ?obj \<sigma>) = nextGalaxy \<sigma>" "galaxyAt ?\<sigma>1 (nextGalaxy \<sigma>) = ?obj"
    by (simp_all add: allocGalaxy_def)
  obtain M where M: "fromEuler (x rot) (y rot) (z rot) = Inr M"
    using fromEuler_Inr by blast
  obtain \<sigma>' r' where pop: "populate (nextGalaxy \<sigma>) M rad t 0 r ?\<sigma>1 = Inr (\<sigma>', r')"
    "length (stars (galaxyAt \<sigma>' (nextGalaxy \<sigma>))) = length (stars (galaxyAt ?\<sigma>1 (nextGalaxy \<sigma>))) + (nat \<lceil>t\<rceil> - 0)"
    "Galaxy.mass (galaxyAt \<sigma>' (nextGalaxy \<sigma>)) = Galaxy.mass (galaxyAt ?\<sigma>1 (nextGalaxy \<sigma>))"
    using populate_stars [of "nextGalaxy \<sigma>" M rad t 0 r ?\<sigma>1] by blast
  have "assembleGalaxy v p rot t rad r \<sigma> = Inr (nextGalaxy \<sigma>, \<sigma>', r')"
    unfolding assembleGalaxy_def Let_def split_beta Galaxy_new_def
    by (simp add: g1 M pop(1) del: populate.simps)
  then show ?thesis
    using pop(2,3) unfolding g1 by simp
qed

lemma createRandomGalaxy_assemble:
  "createRandomGalaxy options r \<sigma> =
     (let minStarCount' = orDefault (minStarCount options) 1500;
          maxStarCount' = maxStarCount options;
          minGalaxyRadius' = orDefault (minGalaxyRadius options) 1;
          maxGalaxyRadius' = maxGalaxyRadius options;
          maxInitialSpeed' = orDefault (maxInitialSpeed options) 4;
          rewindTimeSteps' = orDefault (rewindTimeSteps options) 3;
          initialCollisionAvoidanceOffset' =
            orDefault (initialCollisionAvoidanceOffset options) 1.5;
          (initialVelocity, r1) = Vec3_randomCentered maxInitialSpeed' r;
          rewindVector = Vec3_mul initialVelocity (Num (- rewindTimeSteps'));
          (offset, r2) = Vec3_randomCentered initialCollisionAvoidanceOffset' r1;
          initialPosition = Vec3_add rewindVector (Vec offset);
          (rotation', r3) = Vec3_random pi r2;
          (target, r4) = targetNumberOfStars minStarCount' maxStarCount' r3;
          (radius, r5) = galaxyRadius minGalaxyRadius' maxGalaxyRadius' r4
      in assembleGalaxy initialVelocity initialPosition rotation' target radius r5 \<sigma>)"
  unfolding createRandomGalaxy_def assembleGalaxy_def ..

lemma createRandomGalaxy_stars:
  "\<exists>\<sigma>' r'. createRandomGalaxy options r \<sigma> = Inr (nextGalaxy \<sigma>, \<sigma>', r')
      \<and> length (stars (galaxyAt \<sigma>' (nextGalaxy \<sigma>)))
           = nat \<lceil>fst (targetNumberOfStars (orDefault (minStarCount options) 1500)
                          (maxStarCount options) (\<lambda>n. r (n + 9)))\<rceil>
      \<and> Galaxy.mass (galaxyAt \<sigma>' (nextGalaxy \<sigma>))
           = fst (targetNumberOfStars (orDefault (minStarCount options) 1500)
                          (maxStarCount options) (\<lambda>n. r (n + 9)))"
proof -
  have r3: "snd (Vec3_random pi
                  (snd (Vec3_randomCentered b (snd (Vec3_randomCentered a r))))) = (\<lambda>n. r (n + 9))"
    for a b
    by (simp add: Vec3_random_rng Vec3_randomCentered_rng add.assoc)
  show ?thesis
    unfolding createRandomGalaxy_assemble Let_def split_beta r3
    by (rule assembleGalaxy_stars)
qed


section \<open>Initial-condition generator: the claims\<close>

lemma truthy_simps: "truthy None = False" "truthy (Some a) = (a \<noteq> 0)"
  by (simp_all add: truthy_def)

lemma twoToThree_simps:
  "minStarCount twoToThree = Some 2" "maxStarCount twoToThree = Some 3"
  by (simp_all add: twoToThree_def)

text \<open>
  Claim C3, as amended.  \<open>createRandomGalaxy\<close> returns a galaxy.  If \<open>maxStarCount\<close> is given
  and is not 0, with \<open>u\<close> the tenth draw and \<open>t = u \<cdot> (maxStarCount - minStarCount) +
  minStarCount\<close>, the galaxy contains exactly \<open>\<lceil>t\<rceil>\<close> stars, none if \<open>t \<le> 0\<close> (the loop runs
  while \<open>i < t\<close>, so a fractional \<open>t\<close> is rounded up, not truncated), and has mass \<open>t\<close>; for a
  draw in \<open>[0, 1)\<close> and \<open>minStarCount \<le> maxStarCount\<close>, \<open>t\<close> lies between the two.  If
  \<open>maxStarCount\<close> is not given, the galaxy contains \<open>\<lceil>minStarCount\<rceil>\<close> stars, which is
  \<open>minStarCount\<close> when that is a natural number.  With \<open>minStarCount = maxStarCount = N\<close>,
  \<open>N > 0\<close> an integer, the galaxy contains exactly \<open>N\<close> stars.
\<close>

theorem star_count_is_ceiling:
  "\<exists>g \<sigma>' r'. createRandomGalaxy options r \<sigma> = Inr (g, \<sigma>', r')
     \<and> (\<forall>mx. maxStarCount options = Some mx \<and> mx \<noteq> 0 \<longrightarrow>
           length (stars (galaxyAt \<sigma>' g))
             = nat \<lceil>r 9 * (mx - orDefault (minStarCount options) 1500)
                     + orDefault (minStarCount options) 1500\<rceil>
         \<and> Galaxy.mass (galaxyAt \<sigma>' g)
             = r 9 * (mx - orDefault (minStarCount options) 1500)
                 + orDefault (minStarCount options) 1500)
     \<and> (\<forall>mx. maxStarCount options = Some mx \<and> mx \<noteq> 0 \<and> 0 \<le> r 9 \<and> r 9 < 1
              \<and> orDefault (minStarCount options) 1500 \<le> mx \<longrightarrow>
           orDefault (minStarCount options) 1500 \<le> Galaxy.mass (galaxyAt \<sigma>' g)
         \<and> Galaxy.mass (galaxyAt \<sigma>' g) \<le> mx)
     \<and> (maxStarCount options = None \<longrightarrow>
           length (stars (galaxyAt \<sigma>' g)) = nat \<lceil>orDefault (minStarCount options) 1500\<rceil>)
     \<and> (\<forall>N. maxStarCount options = None \<and> minStarCount options = Some (real N) \<longrightarrow>
           length (stars (galaxyAt \<sigma>' g)) = N)
     \<and> (\<forall>N. 0 < N \<and> minStarCount options = Some (real N) \<and> maxStarCount options = Some (real N) \<longrightarrow>
           length (stars (galaxyAt \<sigma>' g)) = N)"
proof -
  let ?mn = "orDefault (minStarCount options) 1500"
  let ?t = "fst (targetNumberOfStars ?mn (maxStarCount options) (\<lambda>n. r (n + 9)))"
  obtain \<sigma>' r' where c: "createRandomGalaxy options r \<sigma> = Inr (nextGalaxy \<sigma>, \<sigma>', r')"
    and l: "length (stars (galaxyAt \<sigma>' (nextGalaxy \<sigma>))) = nat \<lceil>?t\<rceil>"
    and m: "Galaxy.mass (galaxyAt \<sigma>' (nextGalaxy \<sigma>)) = ?t"
    using createRandomGalaxy_stars [of options r \<sigma>] by blast
  have t1: "?t = r 9 * (mx - ?mn) + ?mn" if "maxStarCount options = Some mx \<and> mx \<noteq> 0" for mx
    using that unfolding targetNumberOfStars_value by (simp add: truthy_simps)
  have t2: "?t = ?mn" if "maxStarCount options = None"
    using that unfolding targetNumberOfStars_value by (simp add: truthy_simps)
  have t3: "?t = real N"
    if "maxStarCount options = None \<and> minStarCount options = Some (real N)" for N
    using that unfolding targetNumberOfStars_value by (simp add: truthy_simps orDefault_def)
  have t4: "?t = real N"
    if "0 < N \<and> minStarCount options = Some (real N) \<and> maxStarCount options = Some (real N)" for N
    using that unfolding targetNumberOfStars_value by (simp add: truthy_simps orDefault_def)
  have n: "nat \<lceil>real N\<rceil> = N" for N by simp
  have 1: "\<forall>mx. maxStarCount options = Some mx \<and> mx \<noteq> 0 \<longrightarrow>
           length (stars (galaxyAt \<sigma>' (nextGalaxy \<sigma>))) = nat \<lceil>r 9 * (mx - ?mn) + ?mn\<rceil>
         \<and> Galaxy.mass (galaxyAt \<sigma>' (nextGalaxy \<sigma>)) = r 9 * (mx - ?mn) + ?mn"
    using t1 l m by metis
  have 5: "\<forall>mx. maxStarCount options = Some mx \<and> mx \<noteq> 0 \<and> 0 \<le> r 9 \<and> r 9 < 1 \<and> ?mn \<le> mx \<longrightarrow>
           ?mn \<le> Galaxy.mass (galaxyAt \<sigma>' (nextGalaxy \<sigma>))
         \<and> Galaxy.mass (galaxyAt \<sigma>' (nextGalaxy \<sigma>)) \<le> mx"
  proof (intro allI impI)
    fix mx
    assume h: "maxStarCount options = Some mx \<and> mx \<noteq> 0 \<and> 0 \<le> r 9 \<and> r 9 < 1 \<and> ?mn \<le> mx"
    then have e: "Galaxy.mass (galaxyAt \<sigma>' (nextGalaxy \<sigma>)) = r 9 * (mx - ?mn) + ?mn"
      using t1 [of mx] m by simp
    have "0 \<le> r 9 * (mx - ?mn)"
      using h by (intro mult_nonneg_nonneg) simp_all
    moreover have "r 9 * (mx - ?mn) \<le> 1 * (mx - ?mn)"
      using h by (intro mult_right_mono) simp_all
    ultimately show "?mn \<le> Galaxy.mass (galaxyAt \<sigma>' (nextGalaxy \<sigma>))
         \<and> Galaxy.mass (galaxyAt \<sigma>' (nextGalaxy \<sigma>)) \<le> mx"
      unfolding e by simp
  qed
  have 2: "maxStarCount options = None \<longrightarrow>
           length (stars (galaxyAt \<sigma>' (nextGalaxy \<sigma>))) = nat \<lceil>?mn\<rceil>"
    using t2 l by metis
  have 3: "\<forall>N. maxStarCount options = None \<and> minStarCount options = Some (real N) \<longrightarrow>
           length (stars (galaxyAt \<sigma>' (nextGalaxy \<sigma>))) = N"
    using t3 l n by metis
  have 4: "\<forall>N. 0 < N \<and> minStarCount options = Some (real N) \<and> maxStarCount options = Some (real N) \<longrightarrow>
           length (stars (galaxyAt \<sigma>' (nextGalaxy \<sigma>))) = N"
    using t4 l n by metis
  show ?thesis
    by (intro exI conjI) (rule c, rule 1, rule 5, rule 2, rule 3, rule 4)
qed

text \<open>
  The theorem of C3 for \<open>minStarCount = 2\<close>, \<open>maxStarCount = 3\<close> and every draw equal to
  \<open>1/2\<close>: \<open>t = 2.5\<close>, three stars.
\<close>

theorem star_count_is_ceiling_witness:
  "\<exists>g \<sigma>' r'. createRandomGalaxy twoToThree (\<lambda>n. 1 / 2) storeA = Inr (g, \<sigma>', r')
     \<and> length (stars (galaxyAt \<sigma>' g)) = 3
     \<and> Galaxy.mass (galaxyAt \<sigma>' g) = 5 / 2"
proof -
  from star_count_is_ceiling [of twoToThree "\<lambda>n. 1 / 2" storeA]
  obtain g \<sigma>' r' where c: "createRandomGalaxy twoToThree (\<lambda>n. 1 / 2) storeA = Inr (g, \<sigma>', r')"
    and h: "\<forall>mx. maxStarCount twoToThree = Some mx \<and> mx \<noteq> 0 \<longrightarrow>
           length (stars (galaxyAt \<sigma>' g))
             = nat \<lceil>1 / 2 * (mx - orDefault (minStarCount twoToThree) 1500)
                     + orDefault (minStarCount twoToThree) 1500\<rceil>
         \<and> Galaxy.mass (galaxyAt \<sigma>' g)
             = 1 / 2 * (mx - orDefault (minStarCount twoToThree) 1500)
                 + orDefault (minStarCount twoToThree) 1500"
    by blast
  have "maxStarCount twoToThree = Some 3 \<and> (3::real) \<noteq> 0"
    by (simp add: twoToThree_simps)
  with h have "length (stars (galaxyAt \<sigma>' g))
             = nat \<lceil>1 / 2 * (3 - orDefault (minStarCount twoToThree) 1500)
                     + orDefault (minStarCount twoToThree) 1500\<rceil>
         \<and> Galaxy.mass (galaxyAt \<sigma>' g)
             = 1 / 2 * (3 - orDefault (minStarCount twoToThree) 1500)
                 + orDefault (minStarCount twoToThree) 1500"
    by blast
  then have "length (stars (galaxyAt \<sigma>' g)) = 3 \<and> Galaxy.mass (galaxyAt \<sigma>' g) = 5 / 2"
    by (simp add: twoToThree_simps orDefault_def)
  with c show ?thesis by blast
qed

text \<open>
  Claim C3 as it is stated, with the integer part of \<open>t\<close>, fails on the same input: the
  galaxy has three stars and the integer part of \<open>2.5\<close> is 2.
\<close>

theorem star_count_floor_counterexample:
  "(\<exists>g \<sigma>' r'. createRandomGalaxy twoToThree (\<lambda>n. 1 / 2) storeA = Inr (g, \<sigma>', r')
       \<and> length (stars (galaxyAt \<sigma>' g)) = 3)
   \<and> nat \<lfloor>(1 / 2 :: real) * (3 - 2) + 2\<rfloor> = 2"
proof -
  have "nat \<lceil>fst (targetNumberOfStars (orDefault (minStarCount twoToThree) 1500)
                     (maxStarCount twoToThree) (\<lambda>n. 1 / 2))\<rceil> = 3"
    by (simp add: targetNumberOfStars_value truthy_simps twoToThree_simps orDefault_def)
  then have "\<exists>g \<sigma>' r'. createRandomGalaxy twoToThree (\<lambda>n. 1 / 2) storeA = Inr (g, \<sigma>', r')
       \<and> length (stars (galaxyAt \<sigma>' g)) = 3"
    using createRandomGalaxy_stars [of twoToThree "\<lambda>n. 1 / 2" storeA] by auto
  moreover have "nat \<lfloor>(1 / 2 :: real) * (3 - 2) + 2\<rfloor> = 2"
    by simp
  ultimately show ?thesis by blast
qed

text \<open>
  Claim C9.  An option \<open>maxStarCount\<close> or \<open>maxGalaxyRadius\<close> equal to 0 is falsy: the
  generator does exactly what it does when the option is absent.  With \<open>maxStarCount = 0\<close> no
  draw is made for the number of stars and the target is \<open>minStarCount\<close>; with
  \<open>maxGalaxyRadius = 0\<close> no draw is made for the radius and the radius is \<open>minGalaxyRadius\<close>.
  For a natural number \<open>m\<close>, \<open>minStarCount = m\<close> and \<open>maxStarCount = 0\<close> give a galaxy with
  exactly \<open>m\<close> stars and mass \<open>m\<close>, for every source of draws.
\<close>

theorem zero_option_is_absent:
  "createRandomGalaxy (options\<lparr>maxStarCount := Some 0\<rparr>) r \<sigma>
     = createRandomGalaxy (options\<lparr>maxStarCount := None\<rparr>) r \<sigma>
   \<and> createRandomGalaxy (options\<lparr>maxGalaxyRadius := Some 0\<rparr>) r \<sigma>
     = createRandomGalaxy (options\<lparr>maxGalaxyRadius := None\<rparr>) r \<sigma>
   \<and> targetNumberOfStars mn (Some 0) r = (mn, r)
   \<and> galaxyRadius mr (Some 0) r = (mr, r)
   \<and> (\<exists>g \<sigma>' r'.
         createRandomGalaxy (options\<lparr>minStarCount := Some (real m), maxStarCount := Some 0\<rparr>) r \<sigma>
           = Inr (g, \<sigma>', r')
       \<and> length (stars (galaxyAt \<sigma>' g)) = m
       \<and> Galaxy.mass (galaxyAt \<sigma>' g) = real m)"
proof -
  have t: "targetNumberOfStars a (Some 0) q = targetNumberOfStars a None q" for a q
    by (simp add: targetNumberOfStars_def truthy_simps)
  have g: "galaxyRadius a (Some 0) q = galaxyRadius a None q" for a q
    by (simp add: galaxyRadius_def truthy_simps)
  have 1: "createRandomGalaxy (options\<lparr>maxStarCount := Some 0\<rparr>) r \<sigma>
             = createRandomGalaxy (options\<lparr>maxStarCount := None\<rparr>) r \<sigma>"
    by (simp add: createRandomGalaxy_def Let_def t del: populate.simps)
  have 2: "createRandomGalaxy (options\<lparr>maxGalaxyRadius := Some 0\<rparr>) r \<sigma>
             = createRandomGalaxy (options\<lparr>maxGalaxyRadius := None\<rparr>) r \<sigma>"
    by (simp add: createRandomGalaxy_def Let_def g del: populate.simps)
  have 3: "targetNumberOfStars mn (Some 0) r = (mn, r)"
    by (simp add: targetNumberOfStars_def truthy_simps)
  have 4: "galaxyRadius mr (Some 0) r = (mr, r)"
    by (simp add: galaxyRadius_def truthy_simps)
  have "fst (targetNumberOfStars (real m) (Some 0) (\<lambda>n. r (n + 9))) = real m"
    by (simp add: targetNumberOfStars_value truthy_simps)
  then have 5: "\<exists>g \<sigma>' r'.
         createRandomGalaxy (options\<lparr>minStarCount := Some (real m), maxStarCount := Some 0\<rparr>) r \<sigma>
           = Inr (g, \<sigma>', r')
       \<and> length (stars (galaxyAt \<sigma>' g)) = m
       \<and> Galaxy.mass (galaxyAt \<sigma>' g) = real m"
    using createRandomGalaxy_stars
            [of "options\<lparr>minStarCount := Some (real m), maxStarCount := Some 0\<rparr>" r \<sigma>]
    by (auto simp: orDefault_def)
  from 1 2 3 4 5 show ?thesis by blast
qed

end
